theory Spec2Isabelle
  imports Complex_Main "HOL-Library.Word" "HOL-Library.List_Lexorder" "HOL-Library.Multiset"
    "HOL-Library.Log_Nat"
begin

unbundle bit_operations_syntax

section \<open>Python strings\<close>

text \<open>
  A Python \<open>str\<close> is a sequence of Unicode code points; it is modelled as a list of
  natural numbers.  \<open>py\<close> turns an ASCII literal into such a list.  The order of
  \<open>HOL-Library.List_Lexorder\<close> on these lists is Python's order on \<open>str\<close>.
\<close>

type_synonym pystr = "nat list"

definition py :: "string \<Rightarrow> pystr" where
  "py s = map of_char s"

definition py_isspace :: "nat \<Rightarrow> bool" where
  \<comment> \<open>the code points that \<open>str.strip()\<close> removes\<close>
  "py_isspace c \<longleftrightarrow>
     (9 \<le> c \<and> c \<le> 13) \<or> (28 \<le> c \<and> c \<le> 32) \<or> c = 133 \<or> c = 160 \<or> c = 5760 \<or>
     (8192 \<le> c \<and> c \<le> 8202) \<or> c = 8232 \<or> c = 8233 \<or> c = 8239 \<or> c = 8287 \<or>
     c = 12288"

definition lstrip_chars :: "pystr \<Rightarrow> pystr \<Rightarrow> pystr" where
  \<comment> \<open>\<open>s.lstrip(chars)\<close>: drop the leading characters that occur in \<open>chars\<close>\<close>
  "lstrip_chars chars s = dropWhile (\<lambda>c. c \<in> set chars) s"

definition strip :: "pystr \<Rightarrow> pystr" where
  \<comment> \<open>\<open>s.strip()\<close>: drop white space at both ends\<close>
  "strip s = rev (dropWhile py_isspace (rev (dropWhile py_isspace s)))"

fun zfill :: "nat \<Rightarrow> pystr \<Rightarrow> pystr" where
  \<comment> \<open>\<open>s.zfill(width)\<close>: pad with zeros on the left, after a leading sign\<close>
  "zfill width s =
     (if width \<le> length s then s
      else (case s of
              c # rest \<Rightarrow>
                (if c = 43 \<or> c = 45
                 then c # replicate (width - length s) 48 @ rest
                 else replicate (width - length s) 48 @ s)
            | [] \<Rightarrow> replicate width 48))"

fun digits :: "nat \<Rightarrow> pystr" where
  "digits n = (if n < 10 then [48 + n] else digits (n div 10) @ [48 + n mod 10])"

definition str_int :: "int \<Rightarrow> pystr" where
  \<comment> \<open>\<open>str(i)\<close> of an integer\<close>
  "str_int i = (if i < 0 then 45 # digits (nat (- i)) else digits (nat i))"

subsection \<open>Key rules\<close>

definition malzeme_sifir_sil :: "pystr \<Rightarrow> pystr" where
  \<comment> \<open>BekleyenFast.py, \<open>_process_data\<close>: \<open>.str.lstrip('0').str.zfill(1)\<close> on one element\<close>
  "malzeme_sifir_sil s = zfill 1 (lstrip_chars (py ''0'') s)"

definition sap_kodu :: "pystr \<Rightarrow> pystr" where
  \<comment> \<open>Stok.py: \<open>.str[:10]\<close> on one element\<close>
  "sap_kodu s = take 10 s"

section \<open>Tables\<close>

text \<open>
  A pandas \<open>DataFrame\<close> is a list of column labels and a list of rows; a row gives the
  cell of every label, and only the cells under the frame's labels are part of the frame.
  A cell holds a string, an integer or the missing value \<open>NaN\<close>; other values
  (floats, dates) are not modelled.  Labels are unique within a frame.  The row index
  is not modelled: no code below reads it.
\<close>

datatype cell = Str pystr | Num int | NaN

datatype error = KeyError | TypeError | IndexError | MergeError | ValueError | AttributeError

type_synonym row = "pystr \<Rightarrow> cell"

record dataframe =
  columns :: "pystr list"
  rows :: "row list"

definition empty_df :: "dataframe \<Rightarrow> bool" where
  \<comment> \<open>\<open>df.empty\<close>: one of the two axes has length 0\<close>
  "empty_df df \<longleftrightarrow> columns df = [] \<or> rows df = []"

definition not_in :: "'a \<Rightarrow> 'a list \<Rightarrow> bool" where
  \<comment> \<open>\<open>x not in xs\<close>\<close>
  "not_in x xs \<longleftrightarrow> x \<notin> set xs"

definition satir :: "(pystr \<times> cell) list \<Rightarrow> row" where
  \<comment> \<open>the row of a Python dict literal; a label it does not mention has no cell\<close>
  "satir kvs c = (case map_of kvs c of Some v \<Rightarrow> v | None \<Rightarrow> NaN)"

definition sutun :: "dataframe \<Rightarrow> pystr \<Rightarrow> cell list" where
  \<comment> \<open>\<open>df[c].tolist()\<close>\<close>
  "sutun df c = map (\<lambda>r. r c) (rows df)"

definition astype_str :: "cell \<Rightarrow> pystr" where
  \<comment> \<open>\<open>.astype(str)\<close> on one element\<close>
  "astype_str v = (case v of Str s \<Rightarrow> s | Num i \<Rightarrow> str_int i | NaN \<Rightarrow> py ''nan'')"

definition set_column :: "pystr \<Rightarrow> (row \<Rightarrow> cell) \<Rightarrow> dataframe \<Rightarrow> dataframe" where
  \<comment> \<open>\<open>df[c] = ...\<close>, the new cell computed from the row; a new label goes last\<close>
  "set_column c f df =
     \<lparr>columns = (if c \<in> set (columns df) then columns df else columns df @ [c]),
      rows = map (\<lambda>r. r(c := f r)) (rows df)\<rparr>"

definition select_rows :: "(row \<Rightarrow> bool) \<Rightarrow> dataframe \<Rightarrow> dataframe" where
  \<comment> \<open>\<open>df[mask]\<close>\<close>
  "select_rows p df = df\<lparr>rows := filter p (rows df)\<rparr>"

definition reindex_row :: "pystr list \<Rightarrow> row \<Rightarrow> row" where
  \<comment> \<open>the cells under the labels \<open>cs\<close>, \<open>NaN\<close> elsewhere\<close>
  "reindex_row cs r c = (if c \<in> set cs then r c else NaN)"

definition union_columns :: "pystr list list \<Rightarrow> pystr list" where
  \<comment> \<open>the labels of all frames, each once, in the order of their first occurrence\<close>
  "union_columns css = rev (remdups (rev (concat css)))"

definition concat_df :: "dataframe list \<Rightarrow> dataframe" where
  \<comment> \<open>\<open>pd.concat(dfs, ignore_index=True)\<close> for a non-empty list: the rows of all
      frames in order, a label that a frame lacks filled with \<open>NaN\<close>\<close>
  "concat_df dfs =
     \<lparr>columns = union_columns (map columns dfs),
      rows = concat (map (\<lambda>df. map (reindex_row (columns df)) (rows df)) dfs)\<rparr>"

definition drop_column :: "pystr \<Rightarrow> dataframe \<Rightarrow> error + dataframe" where
  \<comment> \<open>\<open>df.drop(columns=[c])\<close>; a label that is not there is a \<open>KeyError\<close>\<close>
  "drop_column c df =
     (if c \<in> set (columns df)
      then Inr \<lparr>columns = removeAll c (columns df), rows = map (\<lambda>r. r(c := NaN)) (rows df)\<rparr>
      else Inl KeyError)"

fun is_Str :: "cell \<Rightarrow> bool" where
  "is_Str (Str s) = True"
| "is_Str v = False"

fun is_Num :: "cell \<Rightarrow> bool" where
  "is_Num (Num i) = True"
| "is_Num v = False"

fun the_Str :: "cell \<Rightarrow> pystr" where
  "the_Str (Str s) = s"
| "the_Str v = []"

fun the_Num :: "cell \<Rightarrow> int" where
  "the_Num (Num i) = i"
| "the_Num v = 0"

definition sort_desc :: "('a \<Rightarrow> 'k::linorder) \<Rightarrow> 'a list \<Rightarrow> 'a list" where
  \<comment> \<open>descending by key; rows with equal keys keep their order\<close>
  "sort_desc f xs = rev (sort_key f (rev xs))"

definition sort_values_desc :: "pystr \<Rightarrow> dataframe \<Rightarrow> error + dataframe" where
  \<comment> \<open>\<open>df.sort_values(by=c, ascending=False)\<close>: a label that is not there is a
      \<open>KeyError\<close>; \<open>NaN\<close> goes last; strings are compared with strings and integers
      with integers, and a column that holds both is a \<open>TypeError\<close>.  pandas fixes no
      order among rows with equal keys; nothing proved below depends on one.\<close>
  "sort_values_desc c df =
     (let present = filter (\<lambda>r. r c \<noteq> NaN) (rows df);
          missing = filter (\<lambda>r. r c = NaN) (rows df)
      in if c \<notin> set (columns df) then Inl KeyError
         else if list_all (\<lambda>r. is_Str (r c)) present
         then Inr (df\<lparr>rows := sort_desc (\<lambda>r. the_Str (r c)) present @ missing\<rparr>)
         else if list_all (\<lambda>r. is_Num (r c)) present
         then Inr (df\<lparr>rows := sort_desc (\<lambda>r. the_Num (r c)) present @ missing\<rparr>)
         else Inl TypeError)"

section \<open>SSH.py: merging the new service table into the stored one\<close>

text \<open>The column labels of \<open>SSH.py\<close> that the merge names, as code points.\<close>

definition Parca_Durumu :: pystr where
  "Parca_Durumu = py ''Par'' @ [231] @ py ''a Durumu''"

definition Servis_Bakim_ID :: pystr where
  "Servis_Bakim_ID = py ''Servis Bak'' @ [305] @ py ''m ID''"

definition Yedek_Parca_Siparis_No :: pystr where
  "Yedek_Parca_Siparis_No = py ''Yedek Par'' @ [231] @ py ''a Sipari'' @ [351] @ py '' No''"

definition Urun_ID :: pystr where
  "Urun_ID = [220] @ py ''r'' @ [252] @ py ''n ID''"

definition Yedek_Parca_Urun_ID :: pystr where
  "Yedek_Parca_Urun_ID = py ''Yedek Par'' @ [231] @ py ''a '' @ [220] @ py ''r'' @ [252] @ py ''n ID''"

definition birlestirme_anahtari :: pystr where
  "birlestirme_anahtari = py ''_birlestirme_anahtari''"

definition anahtar_sutunlar :: "pystr list" where
  "anahtar_sutunlar = [Servis_Bakim_ID, Yedek_Parca_Siparis_No, Urun_ID, Yedek_Parca_Urun_ID]"

definition str_strip :: "pystr \<Rightarrow> dataframe \<Rightarrow> dataframe" where
  \<comment> \<open>\<open>df[c] = df[c].astype(str).str.strip()\<close>\<close>
  "str_strip c df = set_column c (\<lambda>r. Str (strip (astype_str (r c)))) df"

fun join_str :: "cell list \<Rightarrow> error + pystr" where
  \<comment> \<open>\<open>''.join(x)\<close>: an element that is not a string is a \<open>TypeError\<close>\<close>
  "join_str [] = Inr []"
| "join_str (Str s # vs) = (case join_str vs of Inl e \<Rightarrow> Inl e | Inr t \<Rightarrow> Inr (s @ t))"
| "join_str (v # vs) = Inl TypeError"

fun map_err :: "('a \<Rightarrow> error + 'b) \<Rightarrow> 'a list \<Rightarrow> error + 'b list" where
  \<comment> \<open>a loop that stops at the first exception\<close>
  "map_err f [] = Inr []"
| "map_err f (x # xs) =
     (case f x of
        Inl e \<Rightarrow> Inl e
      | Inr y \<Rightarrow> (case map_err f xs of Inl e \<Rightarrow> Inl e | Inr ys \<Rightarrow> Inr (y # ys)))"

definition anahtar_ekle :: "dataframe \<Rightarrow> error + dataframe" where
  \<comment> \<open>\<open>df['_birlestirme_anahtari'] = df[anahtar_sutunlar].apply(lambda x: ''.join(x), axis=1)\<close>:
      the join of the four cells, row by row.  For a frame without rows \<open>apply\<close> has no
      row to call the function on and returns a frame of the four columns (pandas 1.5 and
      later); assigning that frame to the one column raises \<open>ValueError\<close>\<close>
  "anahtar_ekle df =
     (if rows df = [] then Inl ValueError
      else case map_err (\<lambda>r. join_str (map r anahtar_sutunlar)) (rows df) of
             Inl e \<Rightarrow> Inl e
           | Inr ks \<Rightarrow>
               Inr \<lparr>columns = (if birlestirme_anahtari \<in> set (columns df) then columns df
                                else columns df @ [birlestirme_anahtari]),
                    rows = map2 (\<lambda>r k. r(birlestirme_anahtari := Str k)) (rows df) ks\<rparr>)"

definition anahtarlar :: "dataframe \<Rightarrow> cell list" where
  \<comment> \<open>\<open>set(df['_birlestirme_anahtari'])\<close>, as a list without repetition; Python fixes no
      order on the elements of a set, and nothing proved below depends on one\<close>
  "anahtarlar df = remdups (sutun df birlestirme_anahtari)"

definition guncelleme_anahtarlari :: "dataframe \<Rightarrow> dataframe \<Rightarrow> cell list" where
  \<comment> \<open>\<open>mevcut_anahtarlar.intersection(yeni_anahtarlar)\<close>\<close>
  "guncelleme_anahtarlari yeni mevcut =
     filter (\<lambda>k. k \<in> set (anahtarlar yeni)) (anahtarlar mevcut)"

definition ekleme_anahtarlari :: "dataframe \<Rightarrow> dataframe \<Rightarrow> cell list" where
  \<comment> \<open>\<open>yeni_anahtarlar - mevcut_anahtarlar\<close>\<close>
  "ekleme_anahtarlari yeni mevcut =
     filter (\<lambda>k. k \<notin> set (anahtarlar mevcut)) (anahtarlar yeni)"

definition saklama_anahtarlari :: "dataframe \<Rightarrow> dataframe \<Rightarrow> cell list" where
  \<comment> \<open>\<open>mevcut_anahtarlar - yeni_anahtarlar\<close>\<close>
  "saklama_anahtarlari yeni mevcut =
     filter (\<lambda>k. k \<notin> set (anahtarlar yeni)) (anahtarlar mevcut)"

definition guncel_kayit :: "dataframe \<Rightarrow> dataframe \<Rightarrow> cell \<Rightarrow> error + dataframe" where
  \<comment> \<open>the body of the loop over \<open>guncelleme_anahtarlari\<close>: the new rows of the key, with
      \<open>Parca_Durumu\<close> taken from the first stored row of the key\<close>
  "guncel_kayit yeni mevcut anahtar =
     (let yeni_kayit = select_rows (\<lambda>r. r birlestirme_anahtari = anahtar) yeni;
          mevcut_kayit = select_rows (\<lambda>r. r birlestirme_anahtari = anahtar) mevcut
      in if Parca_Durumu \<in> set (columns mevcut_kayit) \<and> Parca_Durumu \<in> set (columns yeni_kayit)
         then (case sutun mevcut_kayit Parca_Durumu of
                 [] \<Rightarrow> Inl IndexError
               | v # vs \<Rightarrow> Inr (set_column Parca_Durumu (\<lambda>r. v) yeni_kayit))
         else Inr yeni_kayit)"

definition eslestir :: "dataframe \<Rightarrow> dataframe \<Rightarrow> error + dataframe" where
  \<comment> \<open>the \<open>try\<close> block from the second key assignment on; \<open>yeni\<close> has its merge key\<close>
  "eslestir yeni mevcut1 =
     (case anahtar_ekle mevcut1 of
        Inl e \<Rightarrow> Inl e
      | Inr mevcut \<Rightarrow>
         (case map_err (guncel_kayit yeni mevcut) (guncelleme_anahtarlari yeni mevcut) of
            Inl e \<Rightarrow> Inl e
          | Inr guncel \<Rightarrow>
             (let son_df_listesi =
                    guncel @
                    (if ekleme_anahtarlari yeni mevcut \<noteq> []
                     then [select_rows
                             (\<lambda>r. r birlestirme_anahtari \<in> set (ekleme_anahtarlari yeni mevcut)) yeni]
                     else []) @
                    (if saklama_anahtarlari yeni mevcut \<noteq> []
                     then [select_rows
                             (\<lambda>r. r birlestirme_anahtari \<in> set (saklama_anahtarlari yeni mevcut))
                             mevcut]
                     else []);
                  son_df = (if son_df_listesi \<noteq> [] then concat_df son_df_listesi else yeni)
              in case drop_column birlestirme_anahtari son_df of
                   Inl e \<Rightarrow> Inl e
                 | Inr son \<Rightarrow> sort_values_desc Servis_Bakim_ID son)))"

definition verileri_birlestir :: "dataframe \<Rightarrow> dataframe \<Rightarrow> error + dataframe" where
  \<comment> \<open>\<open>SshManager.verileri_birlestir(yeni_df, mevcut_df)\<close>; \<open>Inl\<close> is an exception that
      leaves the function.  The \<open>except\<close> clause returns the new table as the \<open>try\<close> block
      has changed it by then.\<close>
  "verileri_birlestir yeni_df mevcut_df =
     (if empty_df mevcut_df then sort_values_desc Servis_Bakim_ID yeni_df
      else if list_ex (\<lambda>s. not_in s (columns yeni_df) \<or> not_in s (columns mevcut_df))
                anahtar_sutunlar
      then sort_values_desc Servis_Bakim_ID yeni_df
      else
        (let yeni1 = fold str_strip anahtar_sutunlar yeni_df;
             mevcut1 = fold str_strip anahtar_sutunlar mevcut_df
         in case anahtar_ekle yeni1 of
              Inl e \<Rightarrow> sort_values_desc Servis_Bakim_ID yeni1
            | Inr yeni \<Rightarrow>
               (case eslestir yeni mevcut1 of
                  Inl e \<Rightarrow> sort_values_desc Servis_Bakim_ID yeni
                | Inr son_df \<Rightarrow> Inr son_df)))"

definition anahtar :: "row \<Rightarrow> pystr" where
  \<comment> \<open>the composite key of a row of either input: the four key cells as stripped strings,
      joined without separator\<close>
  "anahtar r = concat (map (\<lambda>s. strip (astype_str (r s))) anahtar_sutunlar)"

definition anahtar_var :: "dataframe \<Rightarrow> bool" where
  \<comment> \<open>the frame has the four key columns\<close>
  "anahtar_var df \<longleftrightarrow> list_all (\<lambda>s. s \<in> set (columns df)) anahtar_sutunlar"

subsection \<open>What the merge does to one row\<close>

text \<open>
  The definitions of this subsection are not code of \<open>SSH.py\<close>: they name the rows and
  frames that the proofs below find in the result of \<open>verileri_birlestir\<close>.
\<close>

definition strip_keys :: "row \<Rightarrow> row" where
  "strip_keys r c = (if c \<in> set anahtar_sutunlar then Str (strip (astype_str (r c))) else r c)"

definition hazir :: "row \<Rightarrow> row" where
  "hazir r = (strip_keys r)(birlestirme_anahtari := Str (anahtar r))"

definition tasi :: "dataframe \<Rightarrow> dataframe \<Rightarrow> row \<Rightarrow> row" where
  "tasi Y M r =
     (if Parca_Durumu \<in> set (columns M) \<and> Parca_Durumu \<in> set (columns Y)
      then r(Parca_Durumu :=
               hd (sutun (select_rows (\<lambda>q. q birlestirme_anahtari = r birlestirme_anahtari) M)
                     Parca_Durumu))
      else r)"

definition guncel_df :: "dataframe \<Rightarrow> dataframe \<Rightarrow> cell \<Rightarrow> dataframe" where
  "guncel_df Y M k =
     \<lparr>columns = columns Y,
      rows = map (tasi Y M) (filter (\<lambda>r. r birlestirme_anahtari = k) (rows Y))\<rparr>"

definition eski_durum :: "dataframe \<Rightarrow> pystr \<Rightarrow> cell" where
  "eski_durum mevcut a =
     (case filter (\<lambda>r. anahtar r = a) (rows mevcut) of [] \<Rightarrow> NaN | r # rs \<Rightarrow> r Parca_Durumu)"

definition cikti_satiri :: "dataframe \<Rightarrow> row \<Rightarrow> row" where
  "cikti_satiri df r c =
     (if c = birlestirme_anahtari then NaN
      else if c \<in> set anahtar_sutunlar then Str (strip (astype_str (r c)))
      else if c \<in> set (columns df) then r c else NaN)"

definition guncel_satiri :: "dataframe \<Rightarrow> dataframe \<Rightarrow> row \<Rightarrow> row" where
  "guncel_satiri yeni mevcut r =
     (if Parca_Durumu \<in> set (columns mevcut) \<and> Parca_Durumu \<in> set (columns yeni)
      then (cikti_satiri yeni r)(Parca_Durumu := eski_durum mevcut (anahtar r))
      else cikti_satiri yeni r)"

definition anahtarli :: "dataframe \<Rightarrow> dataframe" where
  "anahtarli df =
     \<lparr>columns = (if birlestirme_anahtari \<in> set (columns df) then columns df
                 else columns df @ [birlestirme_anahtari]),
      rows = map hazir (rows df)\<rparr>"

subsection \<open>Reading a result\<close>

definition kayitlar :: "pystr \<Rightarrow> error + dataframe \<Rightarrow> row list" where
  \<comment> \<open>the rows of a returned table that have the composite key \<open>k\<close>; none if the call raised\<close>
  "kayitlar k res =
     (case res of Inr df \<Rightarrow> filter (\<lambda>s. anahtar s = k) (rows df) | Inl e \<Rightarrow> [])"

definition hucreler :: "pystr \<Rightarrow> row list \<Rightarrow> cell list" where
  \<comment> \<open>the cells of the rows under one label\<close>
  "hucreler c rs = map (\<lambda>r. r c) rs"

subsection \<open>Example tables\<close>

definition Urun_Adi :: pystr where
  "Urun_Adi = [220] @ py ''r'' @ [252] @ py ''n Ad'' @ [305]"

definition eski_masa :: row where
  "eski_masa =
     satir [(Parca_Durumu, Str (py ''geldi'')), (Urun_Adi, Str (py ''masa'')),
            (Servis_Bakim_ID, Str (py ''7'')), (Yedek_Parca_Siparis_No, Str (py ''1'')),
            (Urun_ID, Str (py ''x'')), (Yedek_Parca_Urun_ID, Str (py ''y''))]"

definition eski_dolap :: row where
  \<comment> \<open>a stored line with a blank before its id\<close>
  "eski_dolap =
     satir [(Parca_Durumu, Str (py ''bekliyor'')), (Urun_Adi, Str (py ''dolap'')),
            (Servis_Bakim_ID, Str (py '' 9'')), (Yedek_Parca_Siparis_No, Str (py ''2'')),
            (Urun_ID, Str (py ''x'')), (Yedek_Parca_Urun_ID, Str (py ''y''))]"

definition yeni_masa :: row where
  "yeni_masa =
     satir [(Parca_Durumu, Str []), (Urun_Adi, Str (py ''masa yeni'')),
            (Servis_Bakim_ID, Str (py ''7'')), (Yedek_Parca_Siparis_No, Str (py ''1'')),
            (Urun_ID, Str (py ''x'')), (Yedek_Parca_Urun_ID, Str (py ''y''))]"

definition yeni_sandalye :: row where
  "yeni_sandalye =
     satir [(Parca_Durumu, Str []), (Urun_Adi, Str (py ''sandalye'')),
            (Servis_Bakim_ID, Str (py ''8'')), (Yedek_Parca_Siparis_No, Str (py ''3'')),
            (Urun_ID, Str (py ''x'')), (Yedek_Parca_Urun_ID, Str (py ''y''))]"

definition eksik_masa :: row where
  \<comment> \<open>a new line without status cell, with a blank before its id\<close>
  "eksik_masa =
     satir [(Urun_Adi, Str (py ''masa yeni'')),
            (Servis_Bakim_ID, Str (py '' 7'')), (Yedek_Parca_Siparis_No, Str (py ''1'')),
            (Urun_ID, Str (py ''x'')), (Yedek_Parca_Urun_ID, Str (py ''y''))]"

definition O_ornek :: dataframe where
  \<comment> \<open>a stored table\<close>
  "O_ornek =
     \<lparr>columns = [Parca_Durumu, Urun_Adi, Servis_Bakim_ID, Yedek_Parca_Siparis_No, Urun_ID,
                  Yedek_Parca_Urun_ID],
      rows = [eski_masa, eski_dolap]\<rparr>"

definition N_ornek :: dataframe where
  \<comment> \<open>a new table: the first stored line again, and a line not stored yet\<close>
  "N_ornek =
     \<lparr>columns = [Parca_Durumu, Urun_Adi, Servis_Bakim_ID, Yedek_Parca_Siparis_No, Urun_ID,
                  Yedek_Parca_Urun_ID],
      rows = [yeni_masa, yeni_sandalye]\<rparr>"

definition N_bos :: dataframe where
  \<comment> \<open>a new table with every column and no row\<close>
  "N_bos =
     \<lparr>columns = [Parca_Durumu, Urun_Adi, Servis_Bakim_ID, Yedek_Parca_Siparis_No, Urun_ID,
                  Yedek_Parca_Urun_ID],
      rows = []\<rparr>"

definition N_eksik :: dataframe where
  \<comment> \<open>a new table without the status column\<close>
  "N_eksik =
     \<lparr>columns = [Urun_Adi, Servis_Bakim_ID, Yedek_Parca_Siparis_No, Urun_ID,
                  Yedek_Parca_Urun_ID],
      rows = [eksik_masa]\<rparr>"

subsection \<open>Two lines with one composite key, and a table without id column\<close>

definition satirlar :: "error + dataframe \<Rightarrow> row list" where
  \<comment> \<open>the rows of a returned table; none if the call raised\<close>
  "satirlar res = (case res of Inr df \<Rightarrow> rows df | Inl e \<Rightarrow> [])"

definition kayit_a :: row where
  \<comment> \<open>a stored line with the key fields \<open>('1', '23', 'x', 'y')\<close>\<close>
  "kayit_a =
     satir [(Parca_Durumu, Str (py ''geldi'')),
            (Servis_Bakim_ID, Str (py ''1'')), (Yedek_Parca_Siparis_No, Str (py ''23'')),
            (Urun_ID, Str (py ''x'')), (Yedek_Parca_Urun_ID, Str (py ''y''))]"

definition kayit_b :: row where
  \<comment> \<open>a new line with the key fields \<open>('12', '3', 'x', 'y')\<close>\<close>
  "kayit_b =
     satir [(Parca_Durumu, Str []),
            (Servis_Bakim_ID, Str (py ''12'')), (Yedek_Parca_Siparis_No, Str (py ''3'')),
            (Urun_ID, Str (py ''x'')), (Yedek_Parca_Urun_ID, Str (py ''y''))]"

definition O_cakisma :: dataframe where
  "O_cakisma =
     \<lparr>columns = [Parca_Durumu, Servis_Bakim_ID, Yedek_Parca_Siparis_No, Urun_ID,
                  Yedek_Parca_Urun_ID],
      rows = [kayit_a]\<rparr>"

definition N_cakisma :: dataframe where
  "N_cakisma =
     \<lparr>columns = [Parca_Durumu, Servis_Bakim_ID, Yedek_Parca_Siparis_No, Urun_ID,
                  Yedek_Parca_Urun_ID],
      rows = [kayit_b]\<rparr>"

definition N_idsiz :: dataframe where
  \<comment> \<open>a new table that has no \<open>Servis_Bakim_ID\<close> column\<close>
  "N_idsiz =
     \<lparr>columns = [Parca_Durumu, Yedek_Parca_Siparis_No, Urun_ID, Yedek_Parca_Urun_ID],
      rows =
        [satir [(Parca_Durumu, Str []), (Yedek_Parca_Siparis_No, Str (py ''3'')),
                (Urun_ID, Str (py ''x'')), (Yedek_Parca_Urun_ID, Str (py ''y''))]]\<rparr>"

section \<open>Stok.py: the derived stock columns\<close>

text \<open>
  After \<open>.fillna(0).astype(int)\<close> the four quantity columns are NumPy integer arrays:
  their arithmetic is element by element and wraps around.  The width is that of the
  platform's \<open>int\<close> array type, so the cells are words of any length \<open>'a\<close>, read as
  signed.
\<close>

definition fazla_hesaplama :: "'a::len word \<Rightarrow> 'a word \<Rightarrow> 'a word \<Rightarrow> 'a word \<Rightarrow> 'a word" where
  \<comment> \<open>\<open>merged_df['DEPO'] + merged_df['Bekleyen'] + merged_df['Plan'] - merged_df['Borc']\<close>\<close>
  "fazla_hesaplama depo bekleyen plan borc = depo + bekleyen + plan - borc"

definition ver_hesaplama :: "'a::len word \<Rightarrow> 'a word \<Rightarrow> 'a word \<Rightarrow> 'a word \<Rightarrow> 'a word" where
  \<comment> \<open>\<open>merged_df['Borc'] - merged_df['DEPO'] - merged_df['Bekleyen'] - merged_df['Plan']\<close>\<close>
  "ver_hesaplama depo bekleyen plan borc = borc - depo - bekleyen - plan"

definition where_pozitif :: "'a::len word \<Rightarrow> 'a word" where
  \<comment> \<open>\<open>x.where(x > 0, 0)\<close> on one element\<close>
  "where_pozitif x = (if 0 <s x then x else 0)"

definition Fazla :: "'a::len word \<Rightarrow> 'a word \<Rightarrow> 'a word \<Rightarrow> 'a word \<Rightarrow> 'a word" where
  "Fazla depo bekleyen plan borc = where_pozitif (fazla_hesaplama depo bekleyen plan borc)"

definition Ver :: "'a::len word \<Rightarrow> 'a word \<Rightarrow> 'a word \<Rightarrow> 'a word \<Rightarrow> 'a word" where
  "Ver depo bekleyen plan borc = where_pozitif (ver_hesaplama depo bekleyen plan borc)"

definition sigar :: "'a::len itself \<Rightarrow> int \<Rightarrow> bool" where
  \<comment> \<open>the integer and its negation are values of a signed word of length \<open>'a\<close>\<close>
  "sigar t i \<longleftrightarrow> - (2 ^ (LENGTH('a) - 1)) < i \<and> i < 2 ^ (LENGTH('a) - 1)"

section \<open>BekleyenFast.py: appending the new order lines\<close>

text \<open>
  A processed order is a Python dict (its keys in insertion order): an association list.
  The worksheet \<open>Bekleyen\<close> is the grid of strings that \<open>get_all_values()\<close> returns,
  its first row the header; \<open>None\<close> is a spreadsheet without that worksheet.  Of the
  calls to the spreadsheet service only the first read is given a way to fail
  (\<open>okuma_hatasi\<close>), which \<open>_get_existing_data\<close> catches.
\<close>

type_synonym kayit = "(pystr \<times> cell) list"

type_synonym sayfa = "pystr list list"

definition BagKoduBekleyen :: pystr where
  "BagKoduBekleyen = py ''BagKoduBekleyen''"

definition dict_get :: "kayit \<Rightarrow> pystr \<Rightarrow> cell \<Rightarrow> cell" where
  \<comment> \<open>\<open>d.get(key, default)\<close>\<close>
  "dict_get d key varsayilan = (case map_of d key of Some v \<Rightarrow> v | None \<Rightarrow> varsayilan)"

definition bag_kodu :: "kayit \<Rightarrow> pystr" where
  \<comment> \<open>\<open>str(order.get('BagKoduBekleyen', ''))\<close>\<close>
  "bag_kodu order = astype_str (dict_get order BagKoduBekleyen (Str []))"

definition filter_new_records :: "kayit list \<Rightarrow> pystr set \<Rightarrow> kayit list" where
  \<comment> \<open>\<open>DogtasFastSiparisSorgu._filter_new_records\<close>\<close>
  "filter_new_records processed_orders existing_codes =
     (if processed_orders = [] \<or> existing_codes = {} then processed_orders
      else filter (\<lambda>order. bag_kodu order \<notin> existing_codes) processed_orders)"

fun ilk_indeks :: "'a \<Rightarrow> 'a list \<Rightarrow> nat" where
  \<comment> \<open>the position of the first occurrence\<close>
  "ilk_indeks x [] = 0"
| "ilk_indeks x (y # ys) = (if x = y then 0 else Suc (ilk_indeks x ys))"

definition get_existing_data :: "bool \<Rightarrow> sayfa option \<Rightarrow> pystr set" where
  \<comment> \<open>\<open>_get_existing_data\<close>: the cells under the header \<open>BagKoduBekleyen\<close>; the empty set
      when the read raises, the worksheet is missing or empty, or no header has that name.
      A row too short to have the cell has none (\<open>dropna\<close>).\<close>
  "get_existing_data okuma_hatasi ws =
     (if okuma_hatasi then {}
      else (case ws of
              None \<Rightarrow> {}
            | Some [] \<Rightarrow> {}
            | Some (basliklar # veri) \<Rightarrow>
                (if BagKoduBekleyen \<in> set basliklar
                 then set (concat (map (\<lambda>r. take 1 (drop (ilk_indeks BagKoduBekleyen basliklar) r))
                                     veri))
                 else {})))"

definition df_columns :: "kayit list \<Rightarrow> pystr list" where
  \<comment> \<open>\<open>pd.DataFrame(records).columns.tolist()\<close>\<close>
  "df_columns records = union_columns (map (map fst) records)"

definition df_values :: "kayit list \<Rightarrow> cell list list" where
  \<comment> \<open>\<open>pd.DataFrame(records).values.tolist()\<close>\<close>
  "df_values records = map (\<lambda>r. map (\<lambda>c. dict_get r c NaN) (df_columns records)) records"

definition goster :: "cell \<Rightarrow> pystr" where
  \<comment> \<open>the string the worksheet shows for a value written to it\<close>
  "goster v = astype_str v"

fun update_A1 :: "sayfa \<Rightarrow> sayfa \<Rightarrow> sayfa" where
  \<comment> \<open>\<open>worksheet.update(values=values, range_name='A1')\<close>: the values replace the cells
      of the rectangle that starts at the top left; the other cells stay\<close>
  "update_A1 [] grid = grid"
| "update_A1 (v # vs) [] = v # update_A1 vs []"
| "update_A1 (v # vs) (r # rs) = (v @ drop (length v) r) # update_A1 vs rs"

definition append_rows :: "sayfa \<Rightarrow> sayfa \<Rightarrow> sayfa" where
  \<comment> \<open>\<open>worksheet.append_rows(rows)\<close>: the rows go below the last row\<close>
  "append_rows grid yeni_satirlar = grid @ yeni_satirlar"

definition save_to_sheets :: "bool \<Rightarrow> kayit list \<Rightarrow> sayfa option \<Rightarrow> sayfa option" where
  \<comment> \<open>\<open>save_to_sheets\<close> from step 2 on, on the processed orders: the worksheet afterwards\<close>
  "save_to_sheets okuma_hatasi processed_orders ws =
     (if processed_orders = [] then ws
      else
        (let existing_codes = get_existing_data okuma_hatasi ws;
             new_records = filter_new_records processed_orders existing_codes
         in if new_records = [] then ws
            else
              (let basliklar = df_columns new_records;
                   degerler = map (map goster) (df_values new_records);
                   worksheet = (case ws of Some grid \<Rightarrow> grid | None \<Rightarrow> update_A1 [basliklar] [])
               in if existing_codes = {}
                  then Some (update_A1 (basliklar # degerler) worksheet)
                  else Some (append_rows worksheet degerler))))"

definition Tutar :: pystr where
  "Tutar = py ''Tutar''"

definition kayit_A10 :: kayit where
  "kayit_A10 = [(BagKoduBekleyen, Str (py ''A10'')), (Tutar, Str (py ''5''))]"

definition kayit_B20 :: kayit where
  "kayit_B20 = [(BagKoduBekleyen, Str (py ''B20'')), (Tutar, Str (py ''7''))]"

definition sayfa_kodsuz :: sayfa where
  \<comment> \<open>a worksheet with one stored line and no \<open>BagKoduBekleyen\<close> header\<close>
  "sayfa_kodsuz = [[py ''Siparis'', Tutar], [py ''S1'', py ''100'']]"

definition sayfa_kodlu :: sayfa where
  \<comment> \<open>a worksheet with the header and one stored line\<close>
  "sayfa_kodlu = [[BagKoduBekleyen, Tutar], [py ''B20'', py ''7'']]"

section \<open>Joining two tables on a key column\<close>

text \<open>
  \<open>pd.merge(left, right, on=key, how=...)\<close> for one key column.  A label other than the
  key that both frames have gets the suffix \<open>_x\<close> on the left and \<open>_y\<close> on the right;
  labels that are then no longer unique are a \<open>MergeError\<close>.  Every left row is joined
  with the right rows of its key, or once with empty right cells; an outer join adds the
  right rows whose key no left row has, with empty left cells.  pandas orders the rows
  of an outer join by key; that order is not modelled.
\<close>

datatype how = how_left | how_outer

definition ortak :: "dataframe \<Rightarrow> dataframe \<Rightarrow> pystr \<Rightarrow> pystr \<Rightarrow> bool" where
  "ortak L R key c \<longleftrightarrow> c \<noteq> key \<and> c \<in> set (columns L) \<and> c \<in> set (columns R)"

definition sol_etiket :: "dataframe \<Rightarrow> dataframe \<Rightarrow> pystr \<Rightarrow> pystr \<Rightarrow> pystr" where
  "sol_etiket L R key c = (if ortak L R key c then c @ py ''_x'' else c)"

definition sag_etiket :: "dataframe \<Rightarrow> dataframe \<Rightarrow> pystr \<Rightarrow> pystr \<Rightarrow> pystr" where
  "sag_etiket L R key c = (if ortak L R key c then c @ py ''_y'' else c)"

definition sag_sutunlar :: "dataframe \<Rightarrow> pystr \<Rightarrow> pystr list" where
  \<comment> \<open>the labels of the right frame other than the key\<close>
  "sag_sutunlar R key = filter (\<lambda>c. c \<noteq> key) (columns R)"

definition merge_columns :: "dataframe \<Rightarrow> dataframe \<Rightarrow> pystr \<Rightarrow> pystr list" where
  "merge_columns L R key =
     map (sol_etiket L R key) (columns L) @ map (sag_etiket L R key) (sag_sutunlar R key)"

definition merge_row :: "dataframe \<Rightarrow> dataframe \<Rightarrow> pystr \<Rightarrow> row \<Rightarrow> row \<Rightarrow> row" where
  \<comment> \<open>the joined row of a left row and a right row\<close>
  "merge_row L R key l r =
     satir (map (\<lambda>c. (sol_etiket L R key c, l c)) (columns L) @
            map (\<lambda>c. (sag_etiket L R key c, r c)) (sag_sutunlar R key))"

definition bos :: row where
  \<comment> \<open>a row of empty cells\<close>
  "bos c = NaN"

definition eslesen :: "dataframe \<Rightarrow> pystr \<Rightarrow> row \<Rightarrow> row list" where
  \<comment> \<open>the right rows with the key of the left row\<close>
  "eslesen R key l = filter (\<lambda>r. r key = l key) (rows R)"

definition sol_satirlar :: "dataframe \<Rightarrow> dataframe \<Rightarrow> pystr \<Rightarrow> row list" where
  "sol_satirlar L R key =
     concat (map (\<lambda>l. case eslesen R key l of
                          [] \<Rightarrow> [merge_row L R key l bos]
                        | m # ms \<Rightarrow> map (merge_row L R key l) (m # ms))
               (rows L))"

definition sag_satirlar :: "dataframe \<Rightarrow> dataframe \<Rightarrow> pystr \<Rightarrow> row list" where
  "sag_satirlar L R key =
     map (\<lambda>r. merge_row L R key (bos(key := r key)) r)
       (filter (\<lambda>r. not_in (r key) (sutun L key)) (rows R))"

definition pd_merge :: "how \<Rightarrow> dataframe \<Rightarrow> dataframe \<Rightarrow> pystr \<Rightarrow> error + dataframe" where
  "pd_merge h L R key =
     (if not_in key (columns L) \<or> not_in key (columns R) then Inl KeyError
      else if distinct (merge_columns L R key)
      then Inr \<lparr>columns = merge_columns L R key,
                rows = sol_satirlar L R key @
                       (if h = how_outer then sag_satirlar L R key else [])\<rparr>
      else Inl MergeError)"

definition sonra :: "error + 'a \<Rightarrow> ('a \<Rightarrow> error + 'b) \<Rightarrow> error + 'b" where
  \<comment> \<open>the next statement runs unless the one before raised\<close>
  "sonra m f = (case m of Inl e \<Rightarrow> Inl e | Inr x \<Rightarrow> f x)"

subsection \<open>Stok.py\<close>

definition Malzeme_Kodu :: pystr where
  "Malzeme_Kodu = py ''Malzeme Kodu''"

definition Bekleyen_Adet :: pystr where
  "Bekleyen_Adet = py ''Bekleyen Adet''"

definition Toplam_Borc :: pystr where
  "Toplam_Borc = py ''Toplam Bor'' @ [231]"

definition Adet :: pystr where
  "Adet = py ''Adet''"

definition SAP_Kodu :: pystr where
  "SAP_Kodu = py ''SAP Kodu''"

definition TOPTAN :: pystr where
  "TOPTAN = py ''TOPTAN''"

definition PERAKENDE :: pystr where
  "PERAKENDE = py ''PERAKENDE''"

definition LISTE :: pystr where
  "LISTE = py ''LISTE''"

definition fillna0 :: "pystr \<Rightarrow> dataframe \<Rightarrow> error + dataframe" where
  \<comment> \<open>\<open>df[c] = df[c].fillna(0)\<close>\<close>
  "fillna0 c df =
     (if c \<in> set (columns df)
      then Inr (set_column c (\<lambda>r. if r c = NaN then Num 0 else r c) df)
      else Inl KeyError)"

definition select_columns :: "pystr list \<Rightarrow> dataframe \<Rightarrow> error + dataframe" where
  \<comment> \<open>\<open>df[[c1, ..., cn]]\<close>\<close>
  "select_columns cs df =
     (if list_all (\<lambda>c. c \<in> set (columns df)) cs
      then Inr \<lparr>columns = cs, rows = map (reindex_row cs) (rows df)\<rparr>
      else Inl KeyError)"

definition stok_birlestir ::
  "dataframe \<Rightarrow> dataframe \<Rightarrow> dataframe \<Rightarrow> dataframe \<Rightarrow> dataframe \<Rightarrow> error + dataframe" where
  \<comment> \<open>\<open>stok_verilerini_duzenle_ve_kaydet\<close>, the statements that join the material table
      with the grouped open orders, the debts, the plan and the price list\<close>
  "stok_birlestir malzeme grouped_bekleyen malzeme_toplam_borc plan liste =
     sonra (pd_merge how_left malzeme grouped_bekleyen Malzeme_Kodu) (\<lambda>m1.
     sonra (fillna0 Bekleyen_Adet m1) (\<lambda>m2.
     sonra (pd_merge how_left m2 malzeme_toplam_borc Malzeme_Kodu) (\<lambda>m3.
     sonra (fillna0 Toplam_Borc m3) (\<lambda>m4.
     sonra (pd_merge how_left m4 plan Malzeme_Kodu) (\<lambda>m5.
     sonra (fillna0 Adet m5) (\<lambda>m6.
     sonra (Inr (set_column SAP_Kodu (\<lambda>r. Str (sap_kodu (astype_str (r Malzeme_Kodu)))) m6))
       (\<lambda>m7.
     sonra (select_columns [SAP_Kodu, TOPTAN, PERAKENDE, LISTE] liste) (\<lambda>fiyat.
     sonra (pd_merge how_left m7 fiyat SAP_Kodu) (\<lambda>m8.
     sonra (fillna0 TOPTAN m8) (\<lambda>m9.
     sonra (fillna0 PERAKENDE m9) (\<lambda>m10.
     fillna0 LISTE m10)))))))))))"

subsection \<open>Irsaliye.py\<close>

definition Esle :: pystr where
  "Esle = py ''Esle''"

definition Tayin :: pystr where
  "Tayin = py ''Tayin''"

definition Odeme_Kosulu_Tanimi :: pystr where
  "Odeme_Kosulu_Tanimi = [214] @ py ''deme Ko'' @ [351] @ py ''ulu Tan'' @ [305] @ py ''m'' @ [305]"

definition UPB_Tutari :: pystr where
  "UPB_Tutari = py ''UPB Tutar'' @ [305]"

definition Kullanicinin_adi :: pystr where
  "Kullanicinin_adi = py ''Kullan'' @ [305] @ py ''c'' @ [305] @ py ''n'' @ [305] @ py ''n ad'' @ [305]"

definition Referans :: pystr where
  "Referans = py ''Referans''"

definition SIRA_NO :: pystr where
  "SIRA_NO = py ''SIRA NO''"

definition TARIH :: pystr where
  "TARIH = py ''TAR'' @ [304] @ py ''H''"

definition Vergili_TUTAR :: pystr where
  "Vergili_TUTAR = py ''Vergili TUTAR''"

definition Fark :: pystr where
  "Fark = py ''Fark''"

definition Fatura_No :: pystr where
  "Fatura_No = py ''Fatura No''"

definition Odeme_Karti :: pystr where
  "Odeme_Karti = [214] @ py ''deme Kart'' @ [305]"

definition Irsaliye_No :: pystr where
  "Irsaliye_No = [304] @ py ''rsaliye No''"

definition Tarih :: pystr where
  "Tarih = py ''Tarih''"

definition prosap_sutunlari :: "pystr list" where
  \<comment> \<open>\<open>selected_columns\<close>: the labels of the frame that \<open>process_prosap_data\<close> returns\<close>
  "prosap_sutunlari = [Esle, Tayin, Odeme_Kosulu_Tanimi, UPB_Tutari, Kullanicinin_adi, Referans]"

definition mikro_sutunlari :: "pystr list" where
  \<comment> \<open>the labels of the frame that \<open>process_mikro_data\<close> returns: \<open>irsaliye_sutun\<close> and
      the key that is assigned last\<close>
  "mikro_sutunlari = [SIRA_NO, TARIH, Vergili_TUTAR, Esle]"

definition sutun_yaz :: "pystr \<Rightarrow> cell list \<Rightarrow> dataframe \<Rightarrow> error + dataframe" where
  \<comment> \<open>\<open>df[c] = values\<close> for a computed column: one value for each row; a new label
      goes last\<close>
  "sutun_yaz c vs df =
     (if length vs = length (rows df)
      then Inr \<lparr>columns = (if c \<in> set (columns df) then columns df else columns df @ [c]),
                rows = map2 (\<lambda>r v. r(c := v)) (rows df) vs\<rparr>
      else Inl ValueError)"

definition hesapla :: "pystr \<Rightarrow> (row \<Rightarrow> error + cell) \<Rightarrow> dataframe \<Rightarrow> error + dataframe" where
  \<comment> \<open>\<open>df[c] = ...\<close> for a computation on the elements that can raise\<close>
  "hesapla c f df = sonra (map_err f (rows df)) (\<lambda>vs. sutun_yaz c vs df)"

definition tamsayi :: "(pystr \<Rightarrow> error + int) \<Rightarrow> cell \<Rightarrow> error + cell" where
  \<comment> \<open>\<open>.fillna(0).astype(int)\<close> on one element.  \<open>int_str\<close> is Python's \<open>int\<close> on a
      string, which this theory does not define: it is a parameter\<close>
  "tamsayi int_str v =
     (case v of
        NaN \<Rightarrow> Inr (Num 0)
      | Num i \<Rightarrow> Inr (Num i)
      | Str s \<Rightarrow> (case int_str s of Inl e \<Rightarrow> Inl e | Inr i \<Rightarrow> Inr (Num i)))"

fun fark :: "cell \<Rightarrow> cell \<Rightarrow> error + cell" where
  \<comment> \<open>\<open>abs(a - b)\<close> on one row: empty when an operand is empty, a \<open>TypeError\<close> when an
      operand is a string\<close>
  "fark (Num a) (Num b) = Inr (Num \<bar>a - b\<bar>)"
| "fark (Str s) b = Inl TypeError"
| "fark a (Str s) = Inl TypeError"
| "fark NaN b = Inr NaN"
| "fark a NaN = Inr NaN"

fun en_az_7 :: "cell \<Rightarrow> bool" where
  \<comment> \<open>\<open>x >= 7\<close>, which is \<open>False\<close> for \<open>NaN\<close>; the column it is used on holds no string\<close>
  "en_az_7 (Num f) = (7 \<le> f)"
| "en_az_7 v = False"

definition yeni_etiket :: "(pystr \<times> pystr) list \<Rightarrow> pystr \<Rightarrow> pystr" where
  "yeni_etiket m c = (case map_of m c of Some d \<Rightarrow> d | None \<Rightarrow> c)"

definition rename_columns :: "(pystr \<times> pystr) list \<Rightarrow> dataframe \<Rightarrow> dataframe" where
  \<comment> \<open>\<open>df.rename(columns=m)\<close>: a key of \<open>m\<close> that is no label is ignored.  When a new
      label is already a label of the frame, pandas keeps both columns under it; a row of
      this theory has one cell for a label and then shows the cell of the first column\<close>
  "rename_columns m df =
     \<lparr>columns = map (yeni_etiket m) (columns df),
      rows = map (\<lambda>r c. case filter (\<lambda>d. yeni_etiket m d = c) (columns df) of
                            [] \<Rightarrow> NaN
                          | d # ds \<Rightarrow> r d)
               (rows df)\<rparr>"

definition nokta_sifir_sil :: "pystr \<Rightarrow> pystr" where
  \<comment> \<open>\<open>re.sub(r"\.0$", "", s)\<close>: \<open>$\<close> is the end of the string, or the place before a
      line feed that ends the string\<close>
  "nokta_sifir_sil s =
     (if 2 \<le> length s \<and> drop (length s - 2) s = py ''.0'' then take (length s - 2) s
      else if 3 \<le> length s \<and> drop (length s - 3) s = py ''.0'' @ [10]
      then take (length s - 3) s @ [10]
      else s)"

definition merged_df ::
  "(pystr \<Rightarrow> error + int) \<Rightarrow> dataframe \<Rightarrow> dataframe \<Rightarrow> error + dataframe" where
  \<comment> \<open>\<open>merge_and_analyze_differences\<close>, its first three statements: the frame
      \<open>merged_df\<close> with its column \<open>Fark\<close>.  Amounts are exact integers.\<close>
  "merged_df int_str prosap_df mikro_df =
     sonra (pd_merge how_outer prosap_df mikro_df Esle) (\<lambda>m1.
     sonra (if Vergili_TUTAR \<in> set (columns m1)
            then hesapla Vergili_TUTAR (\<lambda>r. tamsayi int_str (r Vergili_TUTAR)) m1
            else Inl KeyError) (\<lambda>m2.
     if UPB_Tutari \<in> set (columns m2)
     then hesapla Fark (\<lambda>r. fark (r UPB_Tutari) (r Vergili_TUTAR)) m2
     else Inl KeyError))"

definition merge_and_analyze_differences ::
  "(pystr \<Rightarrow> error + int) \<Rightarrow> (cell list \<Rightarrow> error + cell list) \<Rightarrow>
   dataframe \<Rightarrow> dataframe \<Rightarrow> error + dataframe" where
  \<comment> \<open>\<open>IrsaliyeProcessor.merge_and_analyze_differences(prosap_df, mikro_df)\<close>.
      \<open>to_date\<close> is \<open>pd.to_datetime(column).dt.date\<close>, which this theory does not define
      (its cells hold no dates): it is a parameter, like \<open>int_str\<close>.  On a label that
      the renaming has made occur twice, \<open>.str\<close> is asked of a frame (an
      \<open>AttributeError\<close>) and \<open>pd.to_datetime\<close> is given a frame without the columns of a
      date (a \<open>ValueError\<close>).\<close>
  "merge_and_analyze_differences int_str to_date prosap_df mikro_df =
     sonra (merged_df int_str prosap_df mikro_df) (\<lambda>merged.
     let significant_diff = select_rows (\<lambda>r. en_az_7 (r Fark)) merged;
         diff1 = (if Referans \<in> set (columns significant_diff)
                  then set_column Referans (\<lambda>r. Str (astype_str (r Referans))) significant_diff
                  else significant_diff);
         diff2 = rename_columns
                   [(Tayin, Fatura_No), (Odeme_Kosulu_Tanimi, Odeme_Karti), (UPB_Tutari, Tutar),
                    (SIRA_NO, Irsaliye_No), (TARIH, Tarih)] diff1
     in
     sonra (if Irsaliye_No \<in> set (columns diff2)
            then (if count_list (columns diff2) Irsaliye_No = 1
                  then Inr (set_column Irsaliye_No
                              (\<lambda>r. Str (nokta_sifir_sil (astype_str (r Irsaliye_No)))) diff2)
                  else Inl AttributeError)
            else Inr diff2) (\<lambda>diff3.
     if Tarih \<in> set (columns diff3)
     then (if count_list (columns diff3) Tarih = 1
           then sonra (to_date (sutun diff3 Tarih)) (\<lambda>vs. sutun_yaz Tarih vs diff3)
           else Inl ValueError)
     else Inr diff3))"

definition deger :: "error + cell \<Rightarrow> cell" where
  \<comment> \<open>for the proofs: the cell that a computation has returned\<close>
  "deger x = (case x of Inr v \<Rightarrow> v | Inl e \<Rightarrow> NaN)"

definition islenmis :: "(pystr \<Rightarrow> error + int) \<Rightarrow> row \<Rightarrow> row" where
  \<comment> \<open>for the proofs: a row of \<open>merged_df\<close> after the two assignments\<close>
  "islenmis int_str t =
     (let u = t(Vergili_TUTAR := deger (tamsayi int_str (t Vergili_TUTAR)))
      in u(Fark := deger (fark (u UPB_Tutari) (u Vergili_TUTAR))))"

subsection \<open>Example tables for the joins\<close>

definition DEPO :: pystr where
  "DEPO = py ''DEPO''"

definition malzeme_ornek :: dataframe where
  \<comment> \<open>a material with open orders and one without\<close>
  "malzeme_ornek =
     \<lparr>columns = [Malzeme_Kodu, DEPO],
      rows = [satir [(Malzeme_Kodu, Str (py ''M1'')), (DEPO, Num 5)],
              satir [(Malzeme_Kodu, Str (py ''M3'')), (DEPO, Num 1)]]\<rparr>"

definition grouped_ornek :: dataframe where
  \<comment> \<open>open orders for the stocked material and for one that is not in the material table\<close>
  "grouped_ornek =
     \<lparr>columns = [Malzeme_Kodu, Bekleyen_Adet],
      rows = [satir [(Malzeme_Kodu, Str (py ''M1'')), (Bekleyen_Adet, Num 4)],
              satir [(Malzeme_Kodu, Str (py ''M2'')), (Bekleyen_Adet, Num 3)]]\<rparr>"

definition borc_ornek :: dataframe where
  "borc_ornek = \<lparr>columns = [Malzeme_Kodu, Toplam_Borc], rows = []\<rparr>"

definition plan_ornek :: dataframe where
  "plan_ornek = \<lparr>columns = [Malzeme_Kodu, Adet], rows = []\<rparr>"

definition liste_ornek :: dataframe where
  "liste_ornek = \<lparr>columns = [SAP_Kodu, TOPTAN, PERAKENDE, LISTE], rows = []\<rparr>"

definition plan_cift :: dataframe where
  \<comment> \<open>a plan with two lines for one material\<close>
  "plan_cift =
     \<lparr>columns = [Malzeme_Kodu, Adet],
      rows = [satir [(Malzeme_Kodu, Str (py ''M1'')), (Adet, Num 2)],
              satir [(Malzeme_Kodu, Str (py ''M1'')), (Adet, Num 3)]]\<rparr>"

definition fatura_esit :: row where
  \<comment> \<open>an invoice with a delivery note of the same amount\<close>
  "fatura_esit = satir [(Esle, Str (py ''E1'')), (Tayin, Str (py ''T1'')), (UPB_Tutari, Num 100)]"

definition fatura_yalniz :: row where
  \<comment> \<open>an invoice without delivery note\<close>
  "fatura_yalniz = satir [(Esle, Str (py ''E2'')), (Tayin, Str (py ''T2'')), (UPB_Tutari, Num 50)]"

definition fatura_kucuk :: row where
  \<comment> \<open>an invoice without delivery note, of a small amount\<close>
  "fatura_kucuk = satir [(Esle, Str (py ''E3'')), (Tayin, Str (py ''T3'')), (UPB_Tutari, Num 5)]"

definition fatura_ikinci :: row where
  \<comment> \<open>a second line with the key of \<open>fatura_yalniz\<close>\<close>
  "fatura_ikinci = satir [(Esle, Str (py ''E2'')), (Tayin, Str (py ''T2'')), (UPB_Tutari, Num 60)]"

definition irsaliye_esit :: row where
  "irsaliye_esit =
     satir [(SIRA_NO, Str (py ''9001'')), (Vergili_TUTAR, Num 100), (Esle, Str (py ''E1''))]"

definition irsaliye_yalniz :: row where
  \<comment> \<open>a delivery note without invoice\<close>
  "irsaliye_yalniz =
     satir [(SIRA_NO, Str (py ''9004'')), (Vergili_TUTAR, Num 30), (Esle, Str (py ''E4''))]"

definition prosap_ornek :: dataframe where
  "prosap_ornek =
     \<lparr>columns = prosap_sutunlari, rows = [fatura_esit, fatura_yalniz, fatura_kucuk]\<rparr>"

definition prosap_cift :: dataframe where
  \<comment> \<open>two invoice lines with one key\<close>
  "prosap_cift = \<lparr>columns = prosap_sutunlari, rows = [fatura_yalniz, fatura_ikinci]\<rparr>"

definition mikro_ornek :: dataframe where
  "mikro_ornek = \<lparr>columns = mikro_sutunlari, rows = [irsaliye_esit, irsaliye_yalniz]\<rparr>"

definition int_yok :: "pystr \<Rightarrow> error + int" where
  \<comment> \<open>for the examples, whose amounts are numbers: an \<open>int\<close> that takes no string\<close>
  "int_yok s = Inl ValueError"

definition tarih_ayni :: "cell list \<Rightarrow> error + cell list" where
  \<comment> \<open>for the examples, which have no dates: a conversion that leaves the column\<close>
  "tarih_ayni vs = Inr vs"
section \<open>Stok.py: the percentage columns\<close>

text \<open>
  The two percentage columns are computed row by row in Python: the integers are divided
  as \<open>float\<close>, and \<open>int(...)\<close> cuts the fraction off.  A \<open>float\<close> is a binary64 number;
  each of \<open>/\<close>, \<open>-\<close> and \<open>*\<close> returns the exact result rounded to the nearest number with
  a significand of 53 bits, ties to the even one.  \<open>fl\<close> is that rounding on the rationals.
  It has no bound on the exponent: it is the rounding of binary64 wherever the result is
  a normal number, as it is for integers of a 64-bit column.
\<close>

definition pow2 :: "int \<Rightarrow> rat" where
  "pow2 k = (if 0 \<le> k then 2 ^ nat k else 1 / 2 ^ nat (- k))"

definition ustel :: "rat \<Rightarrow> int" where
  \<comment> \<open>the binary exponent \<open>e\<close> of a number other than 0: \<open>2 ^ e \<le> \<bar>x\<bar> < 2 ^ (e + 1)\<close>\<close>
  "ustel x =
     (let a = \<bar>fst (quotient_of x)\<bar>; b = snd (quotient_of x); k = bitlen a - bitlen b
      in if pow2 k \<le> \<bar>x\<bar> then k else k - 1)"

definition round_even :: "rat \<Rightarrow> int" where
  \<comment> \<open>the nearest integer, a tie to the even one\<close>
  "round_even q =
     (let f = \<lfloor>q\<rfloor>; r = q - of_int f
      in if r < 1 / 2 then f else if 1 / 2 < r then f + 1 else if even f then f else f + 1)"

definition fl :: "rat \<Rightarrow> rat" where
  \<comment> \<open>rounding to 53 significant bits\<close>
  "fl x = (if x = 0 then 0
           else (let u = pow2 (ustel x - 52) in of_int (round_even (x / u)) * u))"

definition py_int :: "rat \<Rightarrow> int" where
  \<comment> \<open>\<open>int(x)\<close> of a float: the fraction is cut off, towards zero\<close>
  "py_int x = (if 0 \<le> x then \<lfloor>x\<rfloor> else - \<lfloor>- x\<rfloor>)"

definition yuzde :: "int \<Rightarrow> int \<Rightarrow> int" where
  \<comment> \<open>\<open>int((1 - (pay / payda)) * 100) if payda != 0 else 0\<close>\<close>
  "yuzde pay payda =
     (if payda \<noteq> 0 then py_int (fl (fl (1 - fl (of_int pay / of_int payda)) * 100)) else 0)"

definition diyez_sutunu :: "int \<Rightarrow> int \<Rightarrow> int" where
  \<comment> \<open>the column \<open>###\<close> of a row, from its \<open>ID2\<close> and \<open>PERAKENDE\<close>\<close>
  "diyez_sutunu id_iki perakende = yuzde id_iki perakende"

definition indirim_sutunu :: "int \<Rightarrow> int \<Rightarrow> int" where
  \<comment> \<open>the column \<open>INDIRIM\<close> of a row, from its \<open>PERAKENDE\<close> and \<open>LISTE\<close>\<close>
  "indirim_sutunu perakende liste = yuzde perakende liste"

section \<open>Key rules: zero stripping and the fixed-width prefix\<close>

lemma zfill_one: "zfill 1 s = (if s = [] then [48] else s)"
  by (cases s) simp_all

lemma malzeme_sifir_sil_eq:
  "malzeme_sifir_sil s =
     (if dropWhile (\<lambda>c. c = 48) s = [] then [48] else dropWhile (\<lambda>c. c = 48) s)"
  unfolding malzeme_sifir_sil_def lstrip_chars_def zfill_one by (simp add: py_def)

text \<open>
  C8. The zero-stripping rule removes the leading zeros of every string and never returns
  the empty string: a string of zeros only (also the empty one) becomes \<open>"0"\<close>, so
  \<open>"0000"\<close> gives \<open>"0"\<close>; the fixed-width rule returns the first ten characters of
  the code; \<open>"0007001318"\<close> gives \<open>"0007001318"\<close> under the fixed-width rule and
  \<open>"7001318"\<close> under zero stripping.
\<close>

theorem key_rules:
  "malzeme_sifir_sil s \<noteq> [] \<and>
   malzeme_sifir_sil s =
     (let t = dropWhile (\<lambda>c. c = of_char CHR ''0'') s in if t = [] then py ''0'' else t) \<and>
   malzeme_sifir_sil (py ''0000'') = py ''0'' \<and>
   sap_kodu s = take 10 s \<and>
   malzeme_sifir_sil (py ''0007001318'') = py ''7001318'' \<and>
   sap_kodu (py ''0007001318'') = py ''0007001318''"
  by (simp add: malzeme_sifir_sil_eq sap_kodu_def Let_def py_def)

section \<open>SSH.py: the result of the merge\<close>

lemma dropWhile_snoc_keep:
  "\<not> P x \<Longrightarrow> \<exists>ys. dropWhile P (zs @ [x]) = ys @ [x]"
  by (induction zs) auto

lemma strip_idem: "strip (strip s) = strip s"
proof (cases "dropWhile py_isspace s")
  case Nil
  have "strip s = []" unfolding strip_def Nil by simp
  moreover have "strip [] = []" by (simp add: strip_def)
  ultimately show ?thesis by simp
next
  case (Cons x t)
  then have nx: "\<not> py_isspace x"
    by (metis hd_dropWhile list.sel(1) list.distinct(1))
  obtain ys where ys: "dropWhile py_isspace (rev t @ [x]) = ys @ [x]"
    using dropWhile_snoc_keep [of py_isspace x "rev t"] nx by blast
  have s1: "strip s = x # rev ys"
    by (simp add: strip_def Cons ys)
  have "dropWhile py_isspace (ys @ [x]) = ys @ [x]"
    using ys by (metis dropWhile_idem)
  then show ?thesis
    by (simp add: s1) (simp add: strip_def nx)
qed

lemma labels_distinct:
  "distinct [Parca_Durumu, Servis_Bakim_ID, Yedek_Parca_Siparis_No, Urun_ID,
     Yedek_Parca_Urun_ID, birlestirme_anahtari]"
  by (simp add: Parca_Durumu_def Servis_Bakim_ID_def Yedek_Parca_Siparis_No_def Urun_ID_def
      Yedek_Parca_Urun_ID_def birlestirme_anahtari_def py_def)


lemma label_neq' [simp]:
  "Servis_Bakim_ID \<noteq> Parca_Durumu" "Yedek_Parca_Siparis_No \<noteq> Parca_Durumu"
  "Urun_ID \<noteq> Parca_Durumu" "Yedek_Parca_Urun_ID \<noteq> Parca_Durumu"
  "birlestirme_anahtari \<noteq> Parca_Durumu"
  "Parca_Durumu \<noteq> Servis_Bakim_ID" "Parca_Durumu \<noteq> Yedek_Parca_Siparis_No"
  "Parca_Durumu \<noteq> Urun_ID" "Parca_Durumu \<noteq> Yedek_Parca_Urun_ID"
  "Parca_Durumu \<noteq> birlestirme_anahtari"
  "Servis_Bakim_ID \<noteq> Yedek_Parca_Siparis_No" "Servis_Bakim_ID \<noteq> Urun_ID"
  "Servis_Bakim_ID \<noteq> Yedek_Parca_Urun_ID" "Servis_Bakim_ID \<noteq> birlestirme_anahtari"
  "Yedek_Parca_Siparis_No \<noteq> Servis_Bakim_ID" "Yedek_Parca_Siparis_No \<noteq> Urun_ID"
  "Yedek_Parca_Siparis_No \<noteq> Yedek_Parca_Urun_ID" "Yedek_Parca_Siparis_No \<noteq> birlestirme_anahtari"
  "Urun_ID \<noteq> Servis_Bakim_ID" "Urun_ID \<noteq> Yedek_Parca_Siparis_No"
  "Urun_ID \<noteq> Yedek_Parca_Urun_ID" "Urun_ID \<noteq> birlestirme_anahtari"
  "Yedek_Parca_Urun_ID \<noteq> Servis_Bakim_ID" "Yedek_Parca_Urun_ID \<noteq> Yedek_Parca_Siparis_No"
  "Yedek_Parca_Urun_ID \<noteq> Urun_ID" "Yedek_Parca_Urun_ID \<noteq> birlestirme_anahtari"
  "birlestirme_anahtari \<noteq> Servis_Bakim_ID" "birlestirme_anahtari \<noteq> Yedek_Parca_Siparis_No"
  "birlestirme_anahtari \<noteq> Urun_ID" "birlestirme_anahtari \<noteq> Yedek_Parca_Urun_ID"
  using labels_distinct by auto

lemma fold_str_strip:
  assumes "anahtar_var df"
  shows "fold str_strip anahtar_sutunlar df = \<lparr>columns = columns df, rows = map strip_keys (rows df)\<rparr>"
proof -
  have "\<And>r. r(Servis_Bakim_ID := Str (strip (astype_str (r Servis_Bakim_ID))),
         Yedek_Parca_Siparis_No := Str (strip (astype_str (r Yedek_Parca_Siparis_No))),
         Urun_ID := Str (strip (astype_str (r Urun_ID))),
         Yedek_Parca_Urun_ID := Str (strip (astype_str (r Yedek_Parca_Urun_ID)))) = strip_keys r"
    by (rule ext) (simp add: strip_keys_def anahtar_sutunlar_def)
  then show ?thesis
    using assms
    by (simp add: anahtar_sutunlar_def str_strip_def set_column_def anahtar_var_def)
qed

lemma join_str_strs: "join_str (map Str ss) = Inr (concat ss)"
  by (induction ss) auto

lemma map_err_Inr:
  "(\<And>x. x \<in> set xs \<Longrightarrow> f x = Inr (g x)) \<Longrightarrow> map_err f xs = Inr (map g xs)"
  by (induction xs) auto

lemma join_strip_keys: "join_str (map (strip_keys r) anahtar_sutunlar) = Inr (anahtar r)"
proof -
  have "map (strip_keys r) anahtar_sutunlar
      = map Str (map (\<lambda>s. strip (astype_str (r s))) anahtar_sutunlar)"
    by (simp add: strip_keys_def)
  then show ?thesis by (simp only: join_str_strs anahtar_def)
qed

lemma map2_map_same: "map2 f (map g xs) (map h xs) = map (\<lambda>x. f (g x) (h x)) xs"
  by (induction xs) auto

lemma anahtar_ekle_strip:
  assumes "rs \<noteq> []"
  shows "anahtar_ekle \<lparr>columns = cs, rows = map strip_keys rs\<rparr> =
     Inr \<lparr>columns = (if birlestirme_anahtari \<in> set cs then cs else cs @ [birlestirme_anahtari]),
          rows = map hazir rs\<rparr>"
proof -
  have "map_err (\<lambda>r. join_str (map r anahtar_sutunlar)) (map strip_keys rs) = Inr (map anahtar rs)"
    by (induction rs) (simp_all add: join_strip_keys)
  then show ?thesis
    using assms by (simp add: anahtar_ekle_def map2_map_same hazir_def)
qed

lemma mset_sort_desc: "mset (sort_desc f xs) = mset xs"
  by (simp add: sort_desc_def)

lemma sort_values_desc_Str:
  assumes "c \<in> set (columns df)" "\<And>r. r \<in> set (rows df) \<Longrightarrow> is_Str (r c)"
  shows "\<exists>rs. sort_values_desc c df = Inr (df\<lparr>rows := rs\<rparr>) \<and> mset rs = mset (rows df)"
proof -
  have nn: "\<And>r. r \<in> set (rows df) \<Longrightarrow> r c \<noteq> NaN"
    using assms(2) by (metis is_Str.simps(3))
  have p: "filter (\<lambda>r. r c \<noteq> NaN) (rows df) = rows df"
    using nn by (simp add: filter_id_conv)
  have m: "filter (\<lambda>r. r c = NaN) (rows df) = []"
    using nn by (simp add: filter_empty_conv)
  have a: "list_all (\<lambda>r. is_Str (r c)) (rows df)"
    using assms(2) by (simp add: list_all_iff)
  have "sort_values_desc c df = Inr (df\<lparr>rows := sort_desc (\<lambda>r. the_Str (r c)) (rows df)\<rparr>)"
    unfolding sort_values_desc_def Let_def p m
    using assms(1) a by simp
  moreover have "mset (sort_desc (\<lambda>r. the_Str (r c)) (rows df)) = mset (rows df)"
    by (rule mset_sort_desc)
  ultimately show ?thesis by blast
qed

lemma guncel_kayit_Inr:
  assumes "k \<in> set (sutun M birlestirme_anahtari)"
  shows "guncel_kayit Y M k =
    Inr (if Parca_Durumu \<in> set (columns M) \<and> Parca_Durumu \<in> set (columns Y)
         then set_column Parca_Durumu
                (\<lambda>r. hd (sutun (select_rows (\<lambda>r. r birlestirme_anahtari = k) M) Parca_Durumu))
                (select_rows (\<lambda>r. r birlestirme_anahtari = k) Y)
         else select_rows (\<lambda>r. r birlestirme_anahtari = k) Y)"
proof -
  from assms obtain r where "r \<in> set (rows M)" "r birlestirme_anahtari = k"
    by (auto simp: sutun_def)
  then have "filter (\<lambda>r. r birlestirme_anahtari = k) (rows M) \<noteq> []"
    by (auto simp: filter_empty_conv)
  then have "sutun (select_rows (\<lambda>r. r birlestirme_anahtari = k) M) Parca_Durumu \<noteq> []"
    by (simp add: sutun_def select_rows_def)
  then show ?thesis
    by (auto simp: guncel_kayit_def Let_def select_rows_def split: list.splits)
qed

lemma mset_concat_by_key:
  assumes "distinct ks"
  shows "mset (concat (map (\<lambda>k. map (h k) (filter (\<lambda>r. f r = k) xs)) ks))
       = mset (map (\<lambda>r. h (f r) r) (filter (\<lambda>r. f r \<in> set ks) xs))"
  using assms
proof (induction ks)
  case Nil
  then show ?case by simp
next
  case (Cons k ks)
  have a: "map (h k) (filter (\<lambda>r. f r = k) xs) = map (\<lambda>r. h (f r) r) (filter (\<lambda>r. f r = k) xs)"
    by (rule map_cong) auto
  have b: "mset (map g (filter (\<lambda>r. f r = k) xs)) + mset (map g (filter (\<lambda>r. f r \<in> set ks) xs))
     = mset (map g (filter (\<lambda>r. f r = k \<or> f r \<in> set ks) xs))" for g
    using Cons.prems by (induction xs) auto
  let ?g = "\<lambda>r. h (f r) r"
  have ih: "mset (concat (map (\<lambda>k. map (h k) (filter (\<lambda>r. f r = k) xs)) ks))
       = mset (map ?g (filter (\<lambda>r. f r \<in> set ks) xs))"
    using Cons by simp
  have "mset (concat (map (\<lambda>k. map (h k) (filter (\<lambda>r. f r = k) xs)) (k # ks)))
      = mset (map ?g (filter (\<lambda>r. f r = k) xs)) + mset (map ?g (filter (\<lambda>r. f r \<in> set ks) xs))"
    by (simp only: list.map concat.simps mset_append a ih)
  also have "\<dots> = mset (map ?g (filter (\<lambda>r. f r = k \<or> f r \<in> set ks) xs))"
    by (rule b)
  also have "\<dots> = mset (map ?g (filter (\<lambda>r. f r \<in> set (k # ks)) xs))"
    by simp
  finally show ?case .
qed

lemma set_anahtarlar [simp]: "set (anahtarlar df) = set (sutun df birlestirme_anahtari)"
  by (simp add: anahtarlar_def)

lemma guncel_kayit_rows:
  assumes "k \<in> set (sutun M birlestirme_anahtari)"
  shows "\<exists>G. guncel_kayit Y M k = Inr G \<and> columns G = columns Y \<and>
           rows G = map (tasi Y M) (filter (\<lambda>r. r birlestirme_anahtari = k) (rows Y))"
proof (cases "Parca_Durumu \<in> set (columns M) \<and> Parca_Durumu \<in> set (columns Y)")
  case True
  have "map (\<lambda>r. r(Parca_Durumu :=
           hd (sutun (select_rows (\<lambda>r. r birlestirme_anahtari = k) M) Parca_Durumu)))
          (filter (\<lambda>r. r birlestirme_anahtari = k) (rows Y))
      = map (tasi Y M) (filter (\<lambda>r. r birlestirme_anahtari = k) (rows Y))"
    by (rule map_cong) (simp_all add: tasi_def True)
  then show ?thesis
    using True by (simp add: guncel_kayit_Inr [OF assms] set_column_def select_rows_def)
next
  case False
  have "map (tasi Y M) (filter (\<lambda>r. r birlestirme_anahtari = k) (rows Y))
      = filter (\<lambda>r. r birlestirme_anahtari = k) (rows Y)"
  proof -
    have "tasi Y M = (\<lambda>r. r)"
      using False by (auto simp: tasi_def fun_eq_iff)
    then show ?thesis by simp
  qed
  then show ?thesis
    using False by (auto simp: guncel_kayit_Inr [OF assms] select_rows_def)
qed

lemma guncel_kayit_df:
  assumes "k \<in> set (sutun M birlestirme_anahtari)"
  shows "guncel_kayit Y M k = Inr (guncel_df Y M k)"
proof -
  obtain G where "guncel_kayit Y M k = Inr G" "columns G = columns Y"
      "rows G = map (tasi Y M) (filter (\<lambda>r. r birlestirme_anahtari = k) (rows Y))"
    using guncel_kayit_rows [OF assms] by blast
  then show ?thesis by (simp add: guncel_df_def)
qed

lemma map_err_guncel:
  "map_err (guncel_kayit Y M) (guncelleme_anahtarlari Y M)
     = Inr (map (guncel_df Y M) (guncelleme_anahtarlari Y M))"
  by (rule map_err_Inr) (simp add: guncelleme_anahtarlari_def guncel_kayit_df)

lemma distinct_guncelleme: "distinct (guncelleme_anahtarlari Y M)"
  by (simp add: guncelleme_anahtarlari_def anahtarlar_def)

lemma set_guncelleme:
  "set (guncelleme_anahtarlari Y M)
     = set (sutun M birlestirme_anahtari) \<inter> set (sutun Y birlestirme_anahtari)"
  by (auto simp: guncelleme_anahtarlari_def)

lemma set_ekleme:
  "set (ekleme_anahtarlari Y M)
     = set (sutun Y birlestirme_anahtari) - set (sutun M birlestirme_anahtari)"
  by (auto simp: ekleme_anahtarlari_def)

lemma set_saklama:
  "set (saklama_anahtarlari Y M)
     = set (sutun M birlestirme_anahtari) - set (sutun Y birlestirme_anahtari)"
  by (auto simp: saklama_anahtarlari_def)

lemma set_union_columns: "set (union_columns css) = \<Union> (set ` set css)"
  by (simp add: union_columns_def)

lemma filter_in_own_column:
  "filter (\<lambda>r. r c \<in> set (sutun df c) \<and> P r) (rows df) = filter P (rows df)"
  by (rule filter_cong) (auto simp: sutun_def)

lemma eslestir_rows:
  assumes ae: "anahtar_ekle mevcut1 = Inr M"
    and tY: "birlestirme_anahtari \<in> set (columns Y)"
    and tM: "birlestirme_anahtari \<in> set (columns M)"
    and sY: "Servis_Bakim_ID \<in> set (columns Y)"
    and sM: "Servis_Bakim_ID \<in> set (columns M)"
    and ne: "rows M \<noteq> []"
    and strY: "\<And>r. r \<in> set (rows Y) \<Longrightarrow> is_Str (r Servis_Bakim_ID)"
    and strM: "\<And>r. r \<in> set (rows M) \<Longrightarrow> is_Str (r Servis_Bakim_ID)"
  shows "\<exists>out. eslestir Y mevcut1 = Inr out \<and>
     mset (rows out) =
       mset (map (\<lambda>r. (reindex_row (columns Y) (tasi Y M r))(birlestirme_anahtari := NaN))
              (filter (\<lambda>r. r birlestirme_anahtari \<in> set (sutun M birlestirme_anahtari)) (rows Y)))
     + mset (map (\<lambda>r. (reindex_row (columns Y) r)(birlestirme_anahtari := NaN))
              (filter (\<lambda>r. r birlestirme_anahtari \<notin> set (sutun M birlestirme_anahtari)) (rows Y)))
     + mset (map (\<lambda>r. (reindex_row (columns M) r)(birlestirme_anahtari := NaN))
              (filter (\<lambda>r. r birlestirme_anahtari \<notin> set (sutun Y birlestirme_anahtari)) (rows M)))"
proof -
  let ?t = birlestirme_anahtari
  define ks where "ks = guncelleme_anahtarlari Y M"
  define E where "E = (if ekleme_anahtarlari Y M \<noteq> []
      then [select_rows (\<lambda>r. r ?t \<in> set (ekleme_anahtarlari Y M)) Y] else [])"
  define S where "S = (if saklama_anahtarlari Y M \<noteq> []
      then [select_rows (\<lambda>r. r ?t \<in> set (saklama_anahtarlari Y M)) M] else [])"
  define L where "L = map (guncel_df Y M) ks @ E @ S"
  define A where "A = filter (\<lambda>r. r ?t \<in> set (sutun M ?t)) (rows Y)"
  define B where "B = filter (\<lambda>r. r ?t \<notin> set (sutun M ?t)) (rows Y)"
  define C where "C = filter (\<lambda>r. r ?t \<notin> set (sutun Y ?t)) (rows M)"
  have rowsE: "concat (map (\<lambda>df. map (reindex_row (columns df)) (rows df)) E)
      = map (reindex_row (columns Y)) B"
  proof -
    have "filter (\<lambda>r. r ?t \<in> set (ekleme_anahtarlari Y M)) (rows Y) = B"
      unfolding B_def by (rule filter_cong) (auto simp: set_ekleme sutun_def)
    moreover have "ekleme_anahtarlari Y M = [] \<Longrightarrow> B = []"
      unfolding B_def using set_ekleme [of Y M]
      by (auto simp: filter_empty_conv sutun_def)
    ultimately show ?thesis by (simp add: E_def select_rows_def)
  qed
  have rowsS: "concat (map (\<lambda>df. map (reindex_row (columns df)) (rows df)) S)
      = map (reindex_row (columns M)) C"
  proof -
    have "filter (\<lambda>r. r ?t \<in> set (saklama_anahtarlari Y M)) (rows M) = C"
      unfolding C_def by (rule filter_cong) (auto simp: set_saklama sutun_def)
    moreover have "saklama_anahtarlari Y M = [] \<Longrightarrow> C = []"
      unfolding C_def using set_saklama [of Y M]
      by (auto simp: filter_empty_conv sutun_def)
    ultimately show ?thesis by (simp add: S_def select_rows_def)
  qed
  have rowsG: "mset (concat (map (\<lambda>df. map (reindex_row (columns df)) (rows df))
                  (map (guncel_df Y M) ks)))
      = mset (map (\<lambda>r. reindex_row (columns Y) (tasi Y M r)) A)"
  proof -
    have "concat (map (\<lambda>df. map (reindex_row (columns df)) (rows df)) (map (guncel_df Y M) ks))
       = concat (map (\<lambda>k. map (\<lambda>r. reindex_row (columns Y) (tasi Y M r))
                              (filter (\<lambda>r. r ?t = k) (rows Y))) ks)"
      by (simp add: guncel_df_def o_def)
    moreover have "mset (concat (map (\<lambda>k. map (\<lambda>r. reindex_row (columns Y) (tasi Y M r))
                              (filter (\<lambda>r. r ?t = k) (rows Y))) ks))
       = mset (map (\<lambda>r. reindex_row (columns Y) (tasi Y M r))
              (filter (\<lambda>r. r ?t \<in> set ks) (rows Y)))"
      using mset_concat_by_key [of ks "\<lambda>k r. reindex_row (columns Y) (tasi Y M r)" "\<lambda>r. r ?t" "rows Y"]
        distinct_guncelleme [of Y M] by (simp add: ks_def)
    moreover have "filter (\<lambda>r. r ?t \<in> set ks) (rows Y) = A"
      unfolding A_def ks_def by (rule filter_cong) (auto simp: set_guncelleme sutun_def)
    ultimately show ?thesis by simp
  qed
  have rowsL: "mset (rows (concat_df L))
      = mset (map (\<lambda>r. reindex_row (columns Y) (tasi Y M r)) A)
      + mset (map (reindex_row (columns Y)) B) + mset (map (reindex_row (columns M)) C)"
    unfolding concat_df_def L_def
    by (simp only: dataframe.simps map_append concat_append mset_append rowsG rowsE rowsS
        add.assoc)
  have Lne: "L \<noteq> []"
  proof -
    from ne obtain r where r: "r \<in> set (rows M)" by (cases "rows M") auto
    then have k: "r ?t \<in> set (sutun M ?t)" by (simp add: sutun_def)
    show ?thesis
    proof (cases "r ?t \<in> set (sutun Y ?t)")
      case True
      with k have "r ?t \<in> set ks" by (simp add: ks_def set_guncelleme)
      then show ?thesis by (auto simp: L_def)
    next
      case False
      with k have "r ?t \<in> set (saklama_anahtarlari Y M)" by (simp add: set_saklama)
      then have "S \<noteq> []" by (auto simp: S_def)
      then show ?thesis by (simp add: L_def)
    qed
  qed
  have colsL: "\<And>df. df \<in> set L \<Longrightarrow> columns df = columns Y \<or> columns df = columns M"
    by (auto simp: L_def E_def S_def guncel_df_def select_rows_def split: if_splits)
  have inL: "c \<in> set (columns Y) \<Longrightarrow> c \<in> set (columns M) \<Longrightarrow> c \<in> set (columns (concat_df L))" for c
  proof -
    assume c: "c \<in> set (columns Y)" "c \<in> set (columns M)"
    from Lne obtain df where df: "df \<in> set L" by (cases L) auto
    have "c \<in> set (columns df)" using colsL [OF df] c by auto
    with df show ?thesis by (auto simp: concat_df_def set_union_columns)
  qed
  define D where "D = \<lparr>columns = removeAll ?t (columns (concat_df L)),
                       rows = map (\<lambda>r. r(?t := NaN)) (rows (concat_df L))\<rparr>"
  have drop: "drop_column ?t (concat_df L) = Inr D"
    using inL [OF tY tM] by (simp add: drop_column_def D_def)
  have sD: "Servis_Bakim_ID \<in> set (columns D)"
    using inL [OF sY sM] by (simp add: D_def)
  have strL: "is_Str (r Servis_Bakim_ID)" if "r \<in># mset (rows (concat_df L))" for r
  proof -
    from that have "r \<in> (\<lambda>r. reindex_row (columns Y) (tasi Y M r)) ` set A
       \<or> r \<in> reindex_row (columns Y) ` set B \<or> r \<in> reindex_row (columns M) ` set C"
      unfolding rowsL by auto
    then show ?thesis
      using sY sM strY strM
      by (auto simp: A_def B_def C_def reindex_row_def tasi_def)
  qed
  have strD: "\<And>r. r \<in> set (rows D) \<Longrightarrow> is_Str (r Servis_Bakim_ID)"
    using strL by (auto simp: D_def)
  obtain rs where rs: "sort_values_desc Servis_Bakim_ID D = Inr (D\<lparr>rows := rs\<rparr>)"
      "mset rs = mset (rows D)"
    using sort_values_desc_Str [of Servis_Bakim_ID D] sD strD by blast
  have "eslestir Y mevcut1 =
      (case drop_column ?t (if L \<noteq> [] then concat_df L else Y) of
         Inl e \<Rightarrow> Inl e | Inr son \<Rightarrow> sort_values_desc Servis_Bakim_ID son)"
    unfolding eslestir_def ae L_def E_def S_def ks_def
    by (simp only: sum.case map_err_guncel Let_def)
  then have "eslestir Y mevcut1 = Inr (D\<lparr>rows := rs\<rparr>)"
    using Lne drop rs(1) by simp
  moreover have "mset (rows (D\<lparr>rows := rs\<rparr>)) =
       mset (map (\<lambda>r. (reindex_row (columns Y) (tasi Y M r))(?t := NaN)) A)
     + mset (map (\<lambda>r. (reindex_row (columns Y) r)(?t := NaN)) B)
     + mset (map (\<lambda>r. (reindex_row (columns M) r)(?t := NaN)) C)"
  proof -
    have "mset (rows D) = image_mset (\<lambda>r. r(?t := NaN)) (mset (rows (concat_df L)))"
      by (simp add: D_def)
    then show ?thesis
      unfolding rowsL by (simp add: rs(2) image_mset.compositionality o_def)
  qed
  ultimately show ?thesis
    unfolding A_def B_def C_def by blast
qed

lemma hazir_simps [simp]:
  "hazir r birlestirme_anahtari = Str (anahtar r)"
  "hazir r Parca_Durumu = r Parca_Durumu"
  "hazir r Servis_Bakim_ID = Str (strip (astype_str (r Servis_Bakim_ID)))"
  by (simp_all add: hazir_def strip_keys_def anahtar_sutunlar_def)

lemma hazir_apply:
  "hazir r c = (if c = birlestirme_anahtari then Str (anahtar r)
     else if c \<in> set anahtar_sutunlar then Str (strip (astype_str (r c))) else r c)"
  by (simp add: hazir_def strip_keys_def)

lemma columns_anahtarli:
  "set (columns (anahtarli df)) = insert birlestirme_anahtari (set (columns df))"
  by (auto simp: anahtarli_def)

lemma sutun_anahtarli:
  "sutun (anahtarli df) birlestirme_anahtari = map (\<lambda>r. Str (anahtar r)) (rows df)"
  by (simp add: anahtarli_def sutun_def)

lemma in_sutun_anahtarli:
  "Str a \<in> set (sutun (anahtarli df) birlestirme_anahtari) \<longleftrightarrow> a \<in> anahtar ` set (rows df)"
  by (auto simp: sutun_anahtarli)

lemma filter_anahtarli:
  "filter (\<lambda>r. P (r birlestirme_anahtari)) (rows (anahtarli df))
     = map hazir (filter (\<lambda>r. P (Str (anahtar r))) (rows df))"
  by (simp add: anahtarli_def filter_map o_def)

lemma not_key_label [simp]:
  "Parca_Durumu \<notin> set anahtar_sutunlar" "birlestirme_anahtari \<notin> set anahtar_sutunlar"
  by (simp_all add: anahtar_sutunlar_def)

lemma anahtar_var_in: "anahtar_var df \<Longrightarrow> c \<in> set anahtar_sutunlar \<Longrightarrow> c \<in> set (columns df)"
  by (simp add: anahtar_var_def list_all_iff)

lemma tasi_hazir:
  assumes "anahtar r \<in> anahtar ` set (rows mevcut)" and kv: "anahtar_var yeni"
  shows "(reindex_row (columns (anahtarli yeni)) (tasi (anahtarli yeni) (anahtarli mevcut) (hazir r)))
            (birlestirme_anahtari := NaN) = guncel_satiri yeni mevcut r"
proof -
  let ?F = "filter (\<lambda>q. anahtar q = anahtar r) (rows mevcut)"
  have ne: "?F \<noteq> []"
    using assms by (auto simp: filter_empty_conv)
  have "filter (\<lambda>q. q birlestirme_anahtari = Str (anahtar r)) (rows (anahtarli mevcut))
      = map hazir ?F"
    using filter_anahtarli [of "\<lambda>k. k = Str (anahtar r)" mevcut] by simp
  then have "sutun (select_rows (\<lambda>q. q birlestirme_anahtari = hazir r birlestirme_anahtari)
                  (anahtarli mevcut)) Parca_Durumu = map (\<lambda>q. q Parca_Durumu) ?F"
    by (simp add: sutun_def select_rows_def o_def)
  then have hd: "hd (sutun (select_rows (\<lambda>q. q birlestirme_anahtari = Str (anahtar r))
                  (anahtarli mevcut)) Parca_Durumu) = eski_durum mevcut (anahtar r)"
    using ne by (cases ?F) (simp_all add: eski_durum_def)
  show ?thesis
    apply (rule ext)
    using anahtar_var_in [OF kv]
    apply (simp add: reindex_row_def tasi_def hd columns_anahtarli guncel_satiri_def
        cikti_satiri_def hazir_apply)
    done
qed

lemma reindex_hazir:
  assumes kv: "anahtar_var df"
  shows "(reindex_row (columns (anahtarli df)) (hazir r))(birlestirme_anahtari := NaN)
           = cikti_satiri df r"
  apply (rule ext)
  using anahtar_var_in [OF kv]
  apply (simp add: reindex_row_def columns_anahtarli cikti_satiri_def hazir_apply)
  done

lemma prepare:
  assumes "anahtar_var df" and "rows df \<noteq> []"
  shows "anahtar_ekle (fold str_strip anahtar_sutunlar df) = Inr (anahtarli df)"
  by (simp add: fold_str_strip [OF assms(1)] anahtar_ekle_strip [OF assms(2)] anahtarli_def)

lemma verileri_birlestir_empty_new:
  assumes ne: "\<not> empty_df mevcut" and ky: "anahtar_var yeni" and km: "anahtar_var mevcut"
    and bos: "rows yeni = []"
  shows "verileri_birlestir yeni mevcut = Inr yeni"
proof -
  have nex: "\<not> list_ex (\<lambda>s. not_in s (columns yeni) \<or> not_in s (columns mevcut)) anahtar_sutunlar"
    using ky km by (auto simp: anahtar_var_def list_ex_iff list_all_iff not_in_def)
  have sb: "Servis_Bakim_ID \<in> set (columns yeni)"
    using ky by (simp add: anahtar_var_def list_all_iff anahtar_sutunlar_def)
  have y1: "fold str_strip anahtar_sutunlar yeni = yeni"
    using bos by (simp add: fold_str_strip [OF ky])
  have "anahtar_ekle yeni = Inl ValueError"
    using bos by (simp add: anahtar_ekle_def)
  moreover have "sort_values_desc Servis_Bakim_ID yeni = Inr yeni"
    using bos sb by (simp add: sort_values_desc_def sort_desc_def)
  ultimately show ?thesis
    unfolding verileri_birlestir_def Let_def y1 using ne nex by simp
qed

lemma verileri_birlestir_rows:
  assumes ne: "\<not> empty_df mevcut" and ky: "anahtar_var yeni" and km: "anahtar_var mevcut"
    and ney: "rows yeni \<noteq> []"
  shows "\<exists>out. verileri_birlestir yeni mevcut = Inr out \<and>
     mset (rows out) =
       mset (map (guncel_satiri yeni mevcut)
              (filter (\<lambda>r. anahtar r \<in> anahtar ` set (rows mevcut)) (rows yeni)))
     + mset (map (cikti_satiri yeni)
              (filter (\<lambda>r. anahtar r \<notin> anahtar ` set (rows mevcut)) (rows yeni)))
     + mset (map (cikti_satiri mevcut)
              (filter (\<lambda>r. anahtar r \<notin> anahtar ` set (rows yeni)) (rows mevcut)))"
proof -
  let ?t = birlestirme_anahtari
  let ?Y = "anahtarli yeni" and ?M = "anahtarli mevcut"
  have sb: "Servis_Bakim_ID \<in> set anahtar_sutunlar"
    by (simp add: anahtar_sutunlar_def)
  have nem: "rows mevcut \<noteq> []"
    using ne by (simp add: empty_df_def)
  have e: "\<exists>out. eslestir ?Y (fold str_strip anahtar_sutunlar mevcut) = Inr out \<and>
     mset (rows out) =
       mset (map (\<lambda>r. (reindex_row (columns ?Y) (tasi ?Y ?M r))(?t := NaN))
              (filter (\<lambda>r. r ?t \<in> set (sutun ?M ?t)) (rows ?Y)))
     + mset (map (\<lambda>r. (reindex_row (columns ?Y) r)(?t := NaN))
              (filter (\<lambda>r. r ?t \<notin> set (sutun ?M ?t)) (rows ?Y)))
     + mset (map (\<lambda>r. (reindex_row (columns ?M) r)(?t := NaN))
              (filter (\<lambda>r. r ?t \<notin> set (sutun ?Y ?t)) (rows ?M)))"
  proof (rule eslestir_rows [OF prepare [OF km nem]])
    show "?t \<in> set (columns ?Y)" "?t \<in> set (columns ?M)"
      by (simp_all add: columns_anahtarli)
    show "Servis_Bakim_ID \<in> set (columns ?Y)"
      using anahtar_var_in [OF ky sb] by (simp add: columns_anahtarli)
    show "Servis_Bakim_ID \<in> set (columns ?M)"
      using anahtar_var_in [OF km sb] by (simp add: columns_anahtarli)
    show "rows ?M \<noteq> []"
      using ne by (simp add: empty_df_def anahtarli_def)
    show "\<And>r. r \<in> set (rows ?Y) \<Longrightarrow> is_Str (r Servis_Bakim_ID)"
      by (auto simp: anahtarli_def)
    show "\<And>r. r \<in> set (rows ?M) \<Longrightarrow> is_Str (r Servis_Bakim_ID)"
      by (auto simp: anahtarli_def)
  qed
  have A: "map (\<lambda>r. (reindex_row (columns ?Y) (tasi ?Y ?M r))(?t := NaN))
              (filter (\<lambda>r. r ?t \<in> set (sutun ?M ?t)) (rows ?Y))
         = map (guncel_satiri yeni mevcut)
              (filter (\<lambda>r. anahtar r \<in> anahtar ` set (rows mevcut)) (rows yeni))"
    unfolding filter_anahtarli [of "\<lambda>k. k \<in> set (sutun ?M ?t)" yeni] in_sutun_anahtarli map_map
    by (rule map_cong) (simp_all add: tasi_hazir ky)
  have B: "map (\<lambda>r. (reindex_row (columns ?Y) r)(?t := NaN))
              (filter (\<lambda>r. r ?t \<notin> set (sutun ?M ?t)) (rows ?Y))
         = map (cikti_satiri yeni)
              (filter (\<lambda>r. anahtar r \<notin> anahtar ` set (rows mevcut)) (rows yeni))"
    unfolding filter_anahtarli [of "\<lambda>k. k \<notin> set (sutun ?M ?t)" yeni] in_sutun_anahtarli map_map
    by (rule map_cong) (simp_all add: reindex_hazir ky)
  have C: "map (\<lambda>r. (reindex_row (columns ?M) r)(?t := NaN))
              (filter (\<lambda>r. r ?t \<notin> set (sutun ?Y ?t)) (rows ?M))
         = map (cikti_satiri mevcut)
              (filter (\<lambda>r. anahtar r \<notin> anahtar ` set (rows yeni)) (rows mevcut))"
    unfolding filter_anahtarli [of "\<lambda>k. k \<notin> set (sutun ?Y ?t)" mevcut] in_sutun_anahtarli map_map
    by (rule map_cong) (simp_all add: reindex_hazir km)
  obtain out where out: "eslestir ?Y (fold str_strip anahtar_sutunlar mevcut) = Inr out"
    "mset (rows out) =
       mset (map (guncel_satiri yeni mevcut)
              (filter (\<lambda>r. anahtar r \<in> anahtar ` set (rows mevcut)) (rows yeni)))
     + mset (map (cikti_satiri yeni)
              (filter (\<lambda>r. anahtar r \<notin> anahtar ` set (rows mevcut)) (rows yeni)))
     + mset (map (cikti_satiri mevcut)
              (filter (\<lambda>r. anahtar r \<notin> anahtar ` set (rows yeni)) (rows mevcut)))"
    using e unfolding A B C by blast
  have nex: "\<not> list_ex (\<lambda>s. not_in s (columns yeni) \<or> not_in s (columns mevcut)) anahtar_sutunlar"
    using ky km by (auto simp: anahtar_var_def list_ex_iff list_all_iff not_in_def)
  have "verileri_birlestir yeni mevcut = Inr out"
    unfolding verileri_birlestir_def Let_def prepare [OF ky ney]
    using ne nex out(1) by simp
  with out(2) show ?thesis by blast
qed

subsection \<open>Keys of the rows of the result\<close>

lemma astype_str_Str [simp]: "astype_str (Str s) = s"
  by (simp add: astype_str_def)

lemma anahtar_cong:
  "(\<And>c. c \<in> set anahtar_sutunlar \<Longrightarrow> strip (astype_str (s c)) = strip (astype_str (r c)))
    \<Longrightarrow> anahtar s = anahtar r"
  unfolding anahtar_def by (rule arg_cong [where f = concat], rule map_cong) simp_all

lemma anahtar_cikti [simp]: "anahtar (cikti_satiri df r) = anahtar r"
  by (rule anahtar_cong) (auto simp: cikti_satiri_def strip_idem)

lemma anahtar_guncel [simp]: "anahtar (guncel_satiri yeni mevcut r) = anahtar r"
proof -
  have "anahtar ((cikti_satiri yeni r)(Parca_Durumu := v)) = anahtar (cikti_satiri yeni r)" for v
    by (rule anahtar_cong) auto
  then show ?thesis by (simp add: guncel_satiri_def)
qed


subsection \<open>The example tables\<close>

lemma Urun_Adi_neq [simp]:
  "Urun_Adi \<noteq> Parca_Durumu" "Urun_Adi \<noteq> Servis_Bakim_ID" "Urun_Adi \<noteq> Yedek_Parca_Siparis_No"
  "Urun_Adi \<noteq> Urun_ID" "Urun_Adi \<noteq> Yedek_Parca_Urun_ID" "Urun_Adi \<noteq> birlestirme_anahtari"
  "Parca_Durumu \<noteq> Urun_Adi" "Servis_Bakim_ID \<noteq> Urun_Adi" "Yedek_Parca_Siparis_No \<noteq> Urun_Adi"
  "Urun_ID \<noteq> Urun_Adi" "Yedek_Parca_Urun_ID \<noteq> Urun_Adi" "birlestirme_anahtari \<noteq> Urun_Adi"
  by (simp_all add: Parca_Durumu_def Servis_Bakim_ID_def Yedek_Parca_Siparis_No_def Urun_ID_def
      Yedek_Parca_Urun_ID_def birlestirme_anahtari_def Urun_Adi_def py_def)

lemma satir_Cons: "satir ((k, v) # kvs) c = (if c = k then v else satir kvs c)"
  by (simp add: satir_def)

lemma satir_Nil: "satir [] c = NaN"
  by (simp add: satir_def)

lemma strip_ornek [simp]:
  "strip (py ''7'') = py ''7''" "strip (py '' 7'') = py ''7''" "strip (py ''8'') = py ''8''"
  "strip (py '' 9'') = py ''9''" "strip (py ''1'') = py ''1''" "strip (py ''2'') = py ''2''"
  "strip (py ''3'') = py ''3''" "strip (py ''x'') = py ''x''" "strip (py ''y'') = py ''y''"
  by (simp_all add: strip_def py_def py_isspace_def)

lemma anahtar_ornek [simp]:
  "anahtar eski_masa = py ''71xy''" "anahtar eski_dolap = py ''92xy''"
  "anahtar yeni_masa = py ''71xy''" "anahtar yeni_sandalye = py ''83xy''"
  "anahtar eksik_masa = py ''71xy''"
  by (simp_all add: eski_masa_def eski_dolap_def yeni_masa_def yeni_sandalye_def eksik_masa_def
      anahtar_def anahtar_sutunlar_def satir_Cons satir_Nil)
    (simp_all add: py_def)

lemma rows_ornek [simp]:
  "rows O_ornek = [eski_masa, eski_dolap]" "rows N_ornek = [yeni_masa, yeni_sandalye]"
  "rows N_eksik = [eksik_masa]"
  by (simp_all add: O_ornek_def N_ornek_def N_eksik_def)

lemma ornek_var: "anahtar_var O_ornek" "anahtar_var N_ornek" "anahtar_var N_eksik"
  "\<not> empty_df O_ornek"
  by (simp_all add: anahtar_var_def anahtar_sutunlar_def O_ornek_def N_ornek_def N_eksik_def
      empty_df_def)

lemma ornek_dolu: "rows N_ornek \<noteq> []" "rows N_eksik \<noteq> []"
  by simp_all

lemma bos_var: "anahtar_var N_bos" "rows N_bos = []"
  by (simp_all add: anahtar_var_def anahtar_sutunlar_def N_bos_def)

lemma py_neq [simp]: "py ''71xy'' \<noteq> py ''92xy''" "py ''71xy'' \<noteq> py ''83xy''"
  "py ''92xy'' \<noteq> py ''83xy''" "py ''92xy'' \<noteq> py ''71xy''" "py ''83xy'' \<noteq> py ''71xy''"
  "py ''83xy'' \<noteq> py ''92xy''"
  by (simp_all add: py_def)

subsection \<open>The rows of one key\<close>

lemma filter_key_unique:
  "distinct (map f xs) \<Longrightarrow> x \<in> set xs \<Longrightarrow> filter (\<lambda>y. f y = f x) xs = [x]"
proof (induction xs)
  case Nil
  then show ?case by simp
next
  case (Cons a xs)
  show ?case
  proof (cases "a = x")
    case True
    have "filter (\<lambda>y. f y = f x) xs = []"
      using Cons.prems(1) True by (auto simp: filter_empty_conv) (metis imageI)
    with True show ?thesis by simp
  next
    case False
    with Cons.prems have x: "x \<in> set xs" and ne: "f a \<noteq> f x"
      by auto
    with Cons show ?thesis by simp
  qed
qed

lemma merge_rows_of_key:
  assumes "\<not> empty_df mevcut" "anahtar_var yeni" "anahtar_var mevcut" "rows yeni \<noteq> []"
  shows "\<exists>out. verileri_birlestir yeni mevcut = Inr out \<and>
     mset (filter (\<lambda>s. anahtar s = k) (rows out)) =
       mset (map (guncel_satiri yeni mevcut)
              (filter (\<lambda>r. anahtar r \<in> anahtar ` set (rows mevcut))
                 (filter (\<lambda>r. anahtar r = k) (rows yeni))))
     + mset (map (cikti_satiri yeni)
              (filter (\<lambda>r. anahtar r \<notin> anahtar ` set (rows mevcut))
                 (filter (\<lambda>r. anahtar r = k) (rows yeni))))
     + mset (map (cikti_satiri mevcut)
              (filter (\<lambda>r. anahtar r \<notin> anahtar ` set (rows yeni))
                 (filter (\<lambda>r. anahtar r = k) (rows mevcut))))"
proof -
  obtain out where out: "verileri_birlestir yeni mevcut = Inr out"
    "mset (rows out) =
       mset (map (guncel_satiri yeni mevcut)
              (filter (\<lambda>r. anahtar r \<in> anahtar ` set (rows mevcut)) (rows yeni)))
     + mset (map (cikti_satiri yeni)
              (filter (\<lambda>r. anahtar r \<notin> anahtar ` set (rows mevcut)) (rows yeni)))
     + mset (map (cikti_satiri mevcut)
              (filter (\<lambda>r. anahtar r \<notin> anahtar ` set (rows yeni)) (rows mevcut)))"
    using verileri_birlestir_rows [OF assms] by blast
  have f: "filter (\<lambda>s. anahtar s = k) (map g (filter P xs))
      = map g (filter P (filter (\<lambda>r. anahtar r = k) xs))"
    if "\<And>r. anahtar (g r) = anahtar r" for g :: "row \<Rightarrow> row" and P xs
    using that by (induction xs) auto
  have "mset (filter (\<lambda>s. anahtar s = k) (rows out))
      = filter_mset (\<lambda>s. anahtar s = k) (mset (rows out))"
    by simp
  also have "\<dots> =
       mset (filter (\<lambda>s. anahtar s = k) (map (guncel_satiri yeni mevcut)
              (filter (\<lambda>r. anahtar r \<in> anahtar ` set (rows mevcut)) (rows yeni))))
     + mset (filter (\<lambda>s. anahtar s = k) (map (cikti_satiri yeni)
              (filter (\<lambda>r. anahtar r \<notin> anahtar ` set (rows mevcut)) (rows yeni))))
     + mset (filter (\<lambda>s. anahtar s = k) (map (cikti_satiri mevcut)
              (filter (\<lambda>r. anahtar r \<notin> anahtar ` set (rows yeni)) (rows mevcut))))"
    unfolding out(2) by (simp only: filter_union_mset mset_filter)
  finally show ?thesis
    using out(1) by (simp only: f [OF anahtar_guncel] f [OF anahtar_cikti]) blast
qed

lemma anahtar_var_nonempty:
  "anahtar_var df \<Longrightarrow> q \<in> set (rows df) \<Longrightarrow> \<not> empty_df df"
  by (auto simp: anahtar_var_def anahtar_sutunlar_def empty_df_def)

lemma cell_ornek [simp]:
  "eski_masa Parca_Durumu = Str (py ''geldi'')" "eski_dolap Servis_Bakim_ID = Str (py '' 9'')"
  "eksik_masa Servis_Bakim_ID = Str (py '' 7'')" "yeni_masa Urun_Adi = Str (py ''masa yeni'')"
  "eski_dolap Urun_Adi = Str (py ''dolap'')"
  by (simp_all add: eski_masa_def eski_dolap_def eksik_masa_def yeni_masa_def satir_Cons)

lemma columns_ornek [simp]:
  "columns O_ornek = [Parca_Durumu, Urun_Adi, Servis_Bakim_ID, Yedek_Parca_Siparis_No, Urun_ID,
                  Yedek_Parca_Urun_ID]"
  "columns N_ornek = [Parca_Durumu, Urun_Adi, Servis_Bakim_ID, Yedek_Parca_Siparis_No, Urun_ID,
                  Yedek_Parca_Urun_ID]"
  "columns N_eksik = [Urun_Adi, Servis_Bakim_ID, Yedek_Parca_Siparis_No, Urun_ID,
                  Yedek_Parca_Urun_ID]"
  by (simp_all add: O_ornek_def N_ornek_def N_eksik_def)

lemma kayitlar_eksik:
  "kayitlar (py ''71xy'') (verileri_birlestir N_eksik O_ornek)
     = [guncel_satiri N_eksik O_ornek eksik_masa]"
proof -
  obtain out where out: "verileri_birlestir N_eksik O_ornek = Inr out"
    "mset (filter (\<lambda>s. anahtar s = py ''71xy'') (rows out)) =
       mset (map (guncel_satiri N_eksik O_ornek)
              (filter (\<lambda>r. anahtar r \<in> anahtar ` set (rows O_ornek))
                 (filter (\<lambda>x. anahtar x = py ''71xy'') (rows N_eksik))))
     + mset (map (cikti_satiri N_eksik)
              (filter (\<lambda>r. anahtar r \<notin> anahtar ` set (rows O_ornek))
                 (filter (\<lambda>x. anahtar x = py ''71xy'') (rows N_eksik))))
     + mset (map (cikti_satiri O_ornek)
              (filter (\<lambda>r. anahtar r \<notin> anahtar ` set (rows N_eksik))
                 (filter (\<lambda>x. anahtar x = py ''71xy'') (rows O_ornek))))"
    using merge_rows_of_key [OF ornek_var(4) ornek_var(3) ornek_var(1) ornek_dolu(2),
        of "py ''71xy''"]
    by blast
  have "mset (filter (\<lambda>s. anahtar s = py ''71xy'') (rows out))
      = mset [guncel_satiri N_eksik O_ornek eksik_masa]"
    using out(2) by simp
  then have "filter (\<lambda>s. anahtar s = py ''71xy'') (rows out)
      = [guncel_satiri N_eksik O_ornek eksik_masa]"
    by (metis mset_single_iff mset.simps(1,2))
  then show ?thesis by (simp add: kayitlar_def out(1))
qed

lemma kayitlar_dolap:
  "kayitlar (py ''92xy'') (verileri_birlestir N_ornek O_ornek) = [cikti_satiri O_ornek eski_dolap]"
proof -
  obtain out where out: "verileri_birlestir N_ornek O_ornek = Inr out"
    "mset (filter (\<lambda>s. anahtar s = py ''92xy'') (rows out)) =
       mset (map (guncel_satiri N_ornek O_ornek)
              (filter (\<lambda>r. anahtar r \<in> anahtar ` set (rows O_ornek))
                 (filter (\<lambda>x. anahtar x = py ''92xy'') (rows N_ornek))))
     + mset (map (cikti_satiri N_ornek)
              (filter (\<lambda>r. anahtar r \<notin> anahtar ` set (rows O_ornek))
                 (filter (\<lambda>x. anahtar x = py ''92xy'') (rows N_ornek))))
     + mset (map (cikti_satiri O_ornek)
              (filter (\<lambda>r. anahtar r \<notin> anahtar ` set (rows N_ornek))
                 (filter (\<lambda>x. anahtar x = py ''92xy'') (rows O_ornek))))"
    using merge_rows_of_key [OF ornek_var(4) ornek_var(2) ornek_var(1) ornek_dolu(1),
        of "py ''92xy''"]
    by blast
  have "mset (filter (\<lambda>s. anahtar s = py ''92xy'') (rows out))
      = mset [cikti_satiri O_ornek eski_dolap]"
    using out(2) by simp
  then have "filter (\<lambda>s. anahtar s = py ''92xy'') (rows out) = [cikti_satiri O_ornek eski_dolap]"
    by (metis mset_single_iff mset.simps(1,2))
  then show ?thesis by (simp add: kayitlar_def out(1))
qed

subsection \<open>Two lines with one composite key\<close>


lemma cakisma_simps [simp]:
  "rows O_cakisma = [kayit_a]" "rows N_cakisma = [kayit_b]"
  "columns O_cakisma = [Parca_Durumu, Servis_Bakim_ID, Yedek_Parca_Siparis_No, Urun_ID,
                  Yedek_Parca_Urun_ID]"
  "columns N_cakisma = [Parca_Durumu, Servis_Bakim_ID, Yedek_Parca_Siparis_No, Urun_ID,
                  Yedek_Parca_Urun_ID]"
  by (simp_all add: O_cakisma_def N_cakisma_def)

lemma strip_cakisma [simp]:
  "strip (py ''12'') = py ''12''" "strip (py ''23'') = py ''23''"
  by (simp_all add: strip_def py_def py_isspace_def)

lemma anahtar_cakisma [simp]: "anahtar kayit_a = py ''123xy''" "anahtar kayit_b = py ''123xy''"
  by (simp_all add: kayit_a_def kayit_b_def anahtar_def anahtar_sutunlar_def satir_Cons satir_Nil)
    (simp_all add: py_def)


section \<open>SSH.py: the keys of the merged table\<close>




section \<open>SSH.py: a key of both tables\<close>

text \<open>
  C2, as the code has it.  Let both tables have the four key columns and let no composite
  key occur twice in the new table or twice in the stored one.  For a key of both tables
  the result has one row.  If \<open>Parca_Durumu\<close> is a column of both tables, its cell in
  that row is the one of the stored row.  The four key cells are those of the new row,
  turned into strings and stripped of white space at both ends.  Every other column of
  the new table, the merge key column apart, has the cell of the new row.
\<close>

theorem merge_update_row:
  assumes ky: "anahtar_var yeni" and km: "anahtar_var mevcut"
    and dy: "distinct (map anahtar (rows yeni))" and dm: "distinct (map anahtar (rows mevcut))"
    and r: "r \<in> set (rows yeni)" and q: "q \<in> set (rows mevcut)" and k: "anahtar r = anahtar q"
  shows "\<exists>out s. verileri_birlestir yeni mevcut = Inr out \<and>
      filter (\<lambda>s. anahtar s = anahtar r) (rows out) = [s] \<and>
      (Parca_Durumu \<in> set (columns yeni) \<and> Parca_Durumu \<in> set (columns mevcut)
         \<longrightarrow> s Parca_Durumu = q Parca_Durumu) \<and>
      (\<forall>c\<in>set anahtar_sutunlar. s c = Str (strip (astype_str (r c)))) \<and>
      (\<forall>c\<in>set (columns yeni).
          c \<noteq> Parca_Durumu \<and> c \<notin> set anahtar_sutunlar \<and> c \<noteq> birlestirme_anahtari
          \<longrightarrow> s c = r c)"
proof -
  let ?s = "guncel_satiri yeni mevcut r"
  have fy: "filter (\<lambda>x. anahtar x = anahtar r) (rows yeni) = [r]"
    by (rule filter_key_unique [OF dy r])
  have fm: "filter (\<lambda>x. anahtar x = anahtar r) (rows mevcut) = [q]"
    unfolding k by (rule filter_key_unique [OF dm q])
  have in_m: "anahtar r \<in> anahtar ` set (rows mevcut)"
    using q k by auto
  have in_y: "anahtar q \<in> anahtar ` set (rows yeni)"
    using r k by (metis imageI)
  have ney: "rows yeni \<noteq> []"
    using r by auto
  obtain out where out: "verileri_birlestir yeni mevcut = Inr out"
    "mset (filter (\<lambda>s. anahtar s = anahtar r) (rows out)) =
       mset (map (guncel_satiri yeni mevcut)
              (filter (\<lambda>r. anahtar r \<in> anahtar ` set (rows mevcut))
                 (filter (\<lambda>x. anahtar x = anahtar r) (rows yeni))))
     + mset (map (cikti_satiri yeni)
              (filter (\<lambda>r. anahtar r \<notin> anahtar ` set (rows mevcut))
                 (filter (\<lambda>x. anahtar x = anahtar r) (rows yeni))))
     + mset (map (cikti_satiri mevcut)
              (filter (\<lambda>r. anahtar r \<notin> anahtar ` set (rows yeni))
                 (filter (\<lambda>x. anahtar x = anahtar r) (rows mevcut))))"
    using merge_rows_of_key [OF anahtar_var_nonempty [OF km q] ky km ney, of "anahtar r"] by blast
  have "mset (filter (\<lambda>s. anahtar s = anahtar r) (rows out)) = mset [?s]"
    using out(2) unfolding fy fm using in_m in_y by simp
  then have one: "filter (\<lambda>s. anahtar s = anahtar r) (rows out) = [?s]"
    by (metis mset_single_iff mset.simps(1,2))
  have pd: "eski_durum mevcut (anahtar r) = q Parca_Durumu"
    by (simp add: eski_durum_def fm)
  have 1: "Parca_Durumu \<in> set (columns yeni) \<and> Parca_Durumu \<in> set (columns mevcut)
         \<longrightarrow> ?s Parca_Durumu = q Parca_Durumu"
    by (simp add: guncel_satiri_def pd)
  have 2: "\<forall>c\<in>set anahtar_sutunlar. ?s c = Str (strip (astype_str (r c)))"
    by (auto simp: guncel_satiri_def cikti_satiri_def)
  have 3: "\<forall>c\<in>set (columns yeni).
          c \<noteq> Parca_Durumu \<and> c \<notin> set anahtar_sutunlar \<and> c \<noteq> birlestirme_anahtari
          \<longrightarrow> ?s c = r c"
    by (simp add: guncel_satiri_def cikti_satiri_def)
  from out(1) one 1 2 3 show ?thesis by blast
qed

theorem merge_update_row_witness:
  "anahtar_var N_ornek \<and> anahtar_var O_ornek \<and>
   distinct (map anahtar (rows N_ornek)) \<and> distinct (map anahtar (rows O_ornek)) \<and>
   yeni_masa \<in> set (rows N_ornek) \<and> eski_masa \<in> set (rows O_ornek) \<and>
   anahtar yeni_masa = anahtar eski_masa \<and>
   hucreler Parca_Durumu (kayitlar (anahtar yeni_masa) (verileri_birlestir N_ornek O_ornek))
     = [Str (py ''geldi'')] \<and>
   hucreler Urun_Adi (kayitlar (anahtar yeni_masa) (verileri_birlestir N_ornek O_ornek))
     = [Str (py ''masa yeni'')]"
proof -
  have h: "distinct (map anahtar (rows N_ornek))" "distinct (map anahtar (rows O_ornek))"
    "yeni_masa \<in> set (rows N_ornek)" "eski_masa \<in> set (rows O_ornek)"
    "anahtar yeni_masa = anahtar eski_masa"
    by simp_all
  obtain out s where out: "verileri_birlestir N_ornek O_ornek = Inr out"
    "filter (\<lambda>s. anahtar s = anahtar yeni_masa) (rows out) = [s]"
    "Parca_Durumu \<in> set (columns N_ornek) \<and> Parca_Durumu \<in> set (columns O_ornek)
         \<longrightarrow> s Parca_Durumu = eski_masa Parca_Durumu"
    "\<forall>c\<in>set (columns N_ornek).
          c \<noteq> Parca_Durumu \<and> c \<notin> set anahtar_sutunlar \<and> c \<noteq> birlestirme_anahtari
          \<longrightarrow> s c = yeni_masa c"
    using merge_update_row [OF ornek_var(2) ornek_var(1) h] by blast
  have "s Parca_Durumu = Str (py ''geldi'')"
    using out(3) by simp
  moreover have "s Urun_Adi = Str (py ''masa yeni'')"
    using out(4) by (simp add: anahtar_sutunlar_def)
  ultimately show ?thesis
    using h ornek_var out(1,2) by (simp add: kayitlar_def hucreler_def)
qed

text \<open>
  The claim as it is written fails on a new table that lacks the status column and has
  a blank before an id: the row of the shared key has no status (the stored one was
  \<open>geldi\<close>), and its id cell is \<open>7\<close> where the new row has \<open>" 7"\<close>.
\<close>

theorem carried_column_counterexample:
  "anahtar_var N_eksik \<and> anahtar_var O_ornek \<and>
   rows N_eksik = [eksik_masa] \<and> rows O_ornek = [eski_masa, eski_dolap] \<and>
   anahtar eksik_masa = py ''71xy'' \<and> anahtar eski_masa = py ''71xy'' \<and>
   anahtar eski_dolap = py ''92xy'' \<and>
   eski_masa Parca_Durumu = Str (py ''geldi'') \<and>
   eksik_masa Servis_Bakim_ID = Str (py '' 7'') \<and>
   hucreler Parca_Durumu (kayitlar (py ''71xy'') (verileri_birlestir N_eksik O_ornek)) = [NaN] \<and>
   hucreler Servis_Bakim_ID (kayitlar (py ''71xy'') (verileri_birlestir N_eksik O_ornek))
     = [Str (py ''7'')] \<and>
   hucreler Parca_Durumu (kayitlar (py ''71xy'') (verileri_birlestir N_eksik O_ornek))
     \<noteq> [eski_masa Parca_Durumu] \<and>
   hucreler Servis_Bakim_ID (kayitlar (py ''71xy'') (verileri_birlestir N_eksik O_ornek))
     \<noteq> [eksik_masa Servis_Bakim_ID]"
  by (simp add: ornek_var kayitlar_eksik hucreler_def guncel_satiri_def cikti_satiri_def
      anahtar_sutunlar_def)
    (simp add: py_def)

section \<open>SSH.py: a key of the stored table only\<close>

text \<open>
  C3, as the code has it.  Let both tables have the four key columns and let the new
  table have a row.  For a stored row whose composite key is not a key of the new table,
  the result has a row with the same key whose four key cells are those of the stored row turned into strings and stripped
  of white space at both ends, and whose cell under every other column of the stored
  table, the merge key column apart, is the cell of the stored row.
\<close>

theorem merge_retain_row:
  assumes ky: "anahtar_var yeni" and km: "anahtar_var mevcut"
    and q: "q \<in> set (rows mevcut)" and k: "anahtar q \<notin> anahtar ` set (rows yeni)"
    and ney: "rows yeni \<noteq> []"
  shows "\<exists>out s. verileri_birlestir yeni mevcut = Inr out \<and> s \<in> set (rows out) \<and>
      anahtar s = anahtar q \<and>
      (\<forall>c\<in>set anahtar_sutunlar. s c = Str (strip (astype_str (q c)))) \<and>
      (\<forall>c\<in>set (columns mevcut).
          c \<notin> set anahtar_sutunlar \<and> c \<noteq> birlestirme_anahtari \<longrightarrow> s c = q c)"
proof -
  let ?s = "cikti_satiri mevcut q"
  obtain out where out: "verileri_birlestir yeni mevcut = Inr out"
    "mset (rows out) =
       mset (map (guncel_satiri yeni mevcut)
              (filter (\<lambda>r. anahtar r \<in> anahtar ` set (rows mevcut)) (rows yeni)))
     + mset (map (cikti_satiri yeni)
              (filter (\<lambda>r. anahtar r \<notin> anahtar ` set (rows mevcut)) (rows yeni)))
     + mset (map (cikti_satiri mevcut)
              (filter (\<lambda>r. anahtar r \<notin> anahtar ` set (rows yeni)) (rows mevcut)))"
    using verileri_birlestir_rows [OF anahtar_var_nonempty [OF km q] ky km ney] by blast
  have "?s \<in># mset (rows out)"
    unfolding out(2) using q k by simp
  then have 1: "?s \<in> set (rows out)" by simp
  have 2: "\<forall>c\<in>set anahtar_sutunlar. ?s c = Str (strip (astype_str (q c)))"
    by (auto simp: cikti_satiri_def)
  have 3: "\<forall>c\<in>set (columns mevcut).
          c \<notin> set anahtar_sutunlar \<and> c \<noteq> birlestirme_anahtari \<longrightarrow> ?s c = q c"
    by (simp add: cikti_satiri_def)
  have 4: "anahtar ?s = anahtar q" by simp
  from out(1) 1 2 3 4 show ?thesis by blast
qed

theorem merge_retain_row_witness:
  "anahtar_var N_ornek \<and> anahtar_var O_ornek \<and> eski_dolap \<in> set (rows O_ornek) \<and>
   anahtar eski_dolap \<notin> anahtar ` set (rows N_ornek) \<and> rows N_ornek \<noteq> [] \<and>
   (\<exists>out s. verileri_birlestir N_ornek O_ornek = Inr out \<and> s \<in> set (rows out) \<and>
      anahtar s = py ''92xy'' \<and> s Urun_Adi = Str (py ''dolap'') \<and>
      s Servis_Bakim_ID = Str (py ''9''))"
proof -
  have h: "eski_dolap \<in> set (rows O_ornek)" "anahtar eski_dolap \<notin> anahtar ` set (rows N_ornek)"
    by simp_all
  obtain out s where out: "verileri_birlestir N_ornek O_ornek = Inr out" "s \<in> set (rows out)"
    "anahtar s = anahtar eski_dolap"
    "\<forall>c\<in>set anahtar_sutunlar. s c = Str (strip (astype_str (eski_dolap c)))"
    "\<forall>c\<in>set (columns O_ornek).
          c \<notin> set anahtar_sutunlar \<and> c \<noteq> birlestirme_anahtari \<longrightarrow> s c = eski_dolap c"
    using merge_retain_row [OF ornek_var(2) ornek_var(1) h ornek_dolu(1)] by blast
  have "s Urun_Adi = Str (py ''dolap'')"
    using out(5) by (simp add: anahtar_sutunlar_def)
  moreover have "s Servis_Bakim_ID = Str (py ''9'')"
    using out(4) by (simp add: anahtar_sutunlar_def)
  ultimately show ?thesis
    using h ornek_var out(1,2,3) by auto
qed

text \<open>
  The claim as it is written fails on a stored row with a blank before its id: the row
  kept for it has the id cell \<open>9\<close>, not \<open>" 9"\<close>.  It also fails on a new table without
  rows: the result is that table, and no stored row is in it.
\<close>

theorem retained_row_counterexample:
  "anahtar_var N_ornek \<and> anahtar_var O_ornek \<and>
   rows N_ornek = [yeni_masa, yeni_sandalye] \<and> rows O_ornek = [eski_masa, eski_dolap] \<and>
   anahtar yeni_masa = py ''71xy'' \<and> anahtar yeni_sandalye = py ''83xy'' \<and>
   anahtar eski_dolap = py ''92xy'' \<and>
   eski_dolap Servis_Bakim_ID = Str (py '' 9'') \<and>
   hucreler Servis_Bakim_ID (kayitlar (py ''92xy'') (verileri_birlestir N_ornek O_ornek))
     = [Str (py ''9'')] \<and>
   hucreler Servis_Bakim_ID (kayitlar (py ''92xy'') (verileri_birlestir N_ornek O_ornek))
     \<noteq> [eski_dolap Servis_Bakim_ID] \<and>
   anahtar_var N_bos \<and> rows N_bos = [] \<and>
   kayitlar (py ''92xy'') (verileri_birlestir N_bos O_ornek) = []"
proof -
  have "verileri_birlestir N_bos O_ornek = Inr N_bos"
    by (rule verileri_birlestir_empty_new [OF ornek_var(4) bos_var(1) ornek_var(1) bos_var(2)])
  then have e: "kayitlar (py ''92xy'') (verileri_birlestir N_bos O_ornek) = []"
    by (simp add: kayitlar_def bos_var)
  show ?thesis
    by (simp add: ornek_var kayitlar_dolap hucreler_def cikti_satiri_def anahtar_sutunlar_def
        bos_var e)
      (simp add: py_def)
qed

section \<open>SSH.py: the composite key is not injective\<close>


section \<open>SSH.py: a key column is missing\<close>

lemma degrade_returns_new:
  assumes "list_ex (\<lambda>s. not_in s (columns yeni) \<or> not_in s (columns mevcut)) anahtar_sutunlar"
  shows "verileri_birlestir yeni mevcut = sort_values_desc Servis_Bakim_ID yeni"
  using assms by (simp add: verileri_birlestir_def)

text \<open>
  C5. When a key column is missing on either side, \<open>verileri_birlestir\<close> returns the new
  table sorted by \<open>Servis_Bakim_ID\<close>, whatever the stored table holds.  The sort needs
  that column: a new table without it makes the call raise \<open>KeyError\<close>, both when the
  stored table has rows and when it is empty.
\<close>

theorem missing_id_column_raises:
  "Servis_Bakim_ID \<notin> set (columns N_idsiz) \<and> anahtar_var O_ornek \<and>
   \<not> empty_df N_idsiz \<and> \<not> empty_df O_ornek \<and>
   verileri_birlestir N_idsiz O_ornek = Inl KeyError \<and>
   verileri_birlestir N_idsiz \<lparr>columns = [], rows = []\<rparr> = Inl KeyError"
  by (simp add: verileri_birlestir_def sort_values_desc_def N_idsiz_def empty_df_def
      anahtar_sutunlar_def not_in_def ornek_var)

section \<open>Stok.py: surplus and deficit\<close>

lemma sint_where_pozitif: "sint (where_pozitif x) = max 0 (sint x)"
  by (simp add: where_pozitif_def word_sless_alt max_def)

lemma ver_is_minus: "ver_hesaplama d b p bo = - fazla_hesaplama d b p bo"
  by (simp add: ver_hesaplama_def fazla_hesaplama_def)

lemma pos_neg_word:
  fixes x :: "'a::len word"
  assumes "0 <s x"
  shows "\<not> 0 <s - x"
proof -
  have p: "0 < sint x" using assms by (simp add: word_sless_alt)
  have "sint x < 2 ^ (LENGTH('a) - 1)" by (rule sint_lt)
  with p have "signed_take_bit (LENGTH('a) - 1) (- sint x) = - sint x"
    by (simp add: signed_take_bit_int_eq_self)
  then have "sint (- x) = - sint x" by (simp add: sint_word_minus)
  with p show ?thesis by (simp add: word_sless_alt)
qed

lemma sint_fazla_exact:
  fixes d :: "'a::len word"
  assumes "sigar TYPE('a) (sint d + sint b + sint p - sint bo)"
  shows "sint (fazla_hesaplama d b p bo) = sint d + sint b + sint p - sint bo"
    and "sint (ver_hesaplama d b p bo) = sint bo - sint d - sint b - sint p"
proof -
  let ?n = "LENGTH('a) - 1"
  let ?i = "sint d + sint b + sint p - sint bo"
  have "fazla_hesaplama d b p bo = word_of_int ?i"
    by (simp add: fazla_hesaplama_def)
  then have "sint (fazla_hesaplama d b p bo) = signed_take_bit ?n ?i"
    by (simp only: sint_sbintrunc')
  also have "\<dots> = ?i"
    using assms by (intro signed_take_bit_int_eq_self) (simp_all add: sigar_def)
  finally show "sint (fazla_hesaplama d b p bo) = ?i" .
  have "ver_hesaplama d b p bo = word_of_int (- ?i)"
    by (simp add: ver_hesaplama_def)
  then have "sint (ver_hesaplama d b p bo) = signed_take_bit ?n (- ?i)"
    by (simp only: sint_sbintrunc')
  also have "\<dots> = - ?i"
    using assms by (intro signed_take_bit_int_eq_self) (simp_all add: sigar_def)
  finally show "sint (ver_hesaplama d b p bo) = sint bo - sint d - sint b - sint p" by simp
qed

text \<open>
  C6. In every row, \<open>Fazla\<close> is the value of \<open>DEPO + Bekleyen + Plan - Borc\<close> floored
  at zero and \<open>Ver\<close> is the value of \<open>Borc - DEPO - Bekleyen - Plan\<close> floored at zero,
  both read as signed integers, and the two are never both positive.  Where the exact
  integer \<open>DEPO + Bekleyen + Plan - Borc\<close> and its negation are values of the integer
  type, the two columns are the floored exact integers.
\<close>

theorem surplus_deficit:
  fixes d b p bo :: "'a::len word"
  shows "sint (Fazla d b p bo) = max 0 (sint (d + b + p - bo)) \<and>
     sint (Ver d b p bo) = max 0 (sint (bo - d - b - p)) \<and>
     \<not> (0 <s Fazla d b p bo \<and> 0 <s Ver d b p bo) \<and>
     (sigar TYPE('a) (sint d + sint b + sint p - sint bo) \<longrightarrow>
        sint (Fazla d b p bo) = max 0 (sint d + sint b + sint p - sint bo) \<and>
        sint (Ver d b p bo) = max 0 (sint bo - sint d - sint b - sint p))"
proof -
  have 1: "sint (Fazla d b p bo) = max 0 (sint (d + b + p - bo))"
    by (simp add: Fazla_def sint_where_pozitif fazla_hesaplama_def)
  have 2: "sint (Ver d b p bo) = max 0 (sint (bo - d - b - p))"
    by (simp add: Ver_def sint_where_pozitif ver_hesaplama_def)
  have 3: "\<not> (0 <s Fazla d b p bo \<and> 0 <s Ver d b p bo)"
  proof
    assume a: "0 <s Fazla d b p bo \<and> 0 <s Ver d b p bo"
    then have "0 <s fazla_hesaplama d b p bo"
      by (auto simp: Fazla_def where_pozitif_def split: if_splits)
    moreover from a have "0 <s - fazla_hesaplama d b p bo"
      by (auto simp: Ver_def where_pozitif_def ver_is_minus split: if_splits)
    ultimately show False using pos_neg_word by blast
  qed
  have 4: "sigar TYPE('a) (sint d + sint b + sint p - sint bo) \<longrightarrow>
        sint (Fazla d b p bo) = max 0 (sint d + sint b + sint p - sint bo) \<and>
        sint (Ver d b p bo) = max 0 (sint bo - sint d - sint b - sint p)"
    by (simp add: Fazla_def Ver_def sint_where_pozitif sint_fazla_exact)
  from 1 2 3 4 show ?thesis by blast
qed

theorem surplus_deficit_witness:
  "sigar TYPE(64) (sint (10 :: 64 word) + sint (2 :: 64 word) + sint (0 :: 64 word) - sint (15 :: 64 word)) \<and>
   sint (Fazla (10 :: 64 word) 2 0 15) = 0 \<and> sint (Ver (10 :: 64 word) 2 0 15) = 3"
proof -
  have h: "sigar TYPE(64) (sint (10 :: 64 word) + sint (2 :: 64 word) + sint (0 :: 64 word) - sint (15 :: 64 word))"
    by (simp add: sigar_def)
  from surplus_deficit [of "10 :: 64 word" 2 0 15] h
  have "sint (Fazla (10 :: 64 word) 2 0 15) = max 0 (sint (10 :: 64 word) + sint (2 :: 64 word) + sint (0 :: 64 word) - sint (15 :: 64 word))"
    "sint (Ver (10 :: 64 word) 2 0 15) = max 0 (sint (15 :: 64 word) - sint (10 :: 64 word) - sint (2 :: 64 word) - sint (0 :: 64 word))"
    by blast+
  then show ?thesis using h by simp
qed

section \<open>BekleyenFast.py: filtering and appending\<close>

lemma filter_new_records_eq:
  "filter_new_records processed_orders existing_codes
     = filter (\<lambda>order. bag_kodu order \<notin> existing_codes) processed_orders"
  by (auto simp: filter_new_records_def)

lemma Tutar_neq [simp]: "Tutar \<noteq> BagKoduBekleyen" "BagKoduBekleyen \<noteq> Tutar"
  "py ''Siparis'' \<noteq> BagKoduBekleyen" "BagKoduBekleyen \<noteq> py ''Siparis''"
  by (simp_all add: Tutar_def BagKoduBekleyen_def py_def)

lemma bag_kodu_ornek [simp]: "bag_kodu kayit_A10 = py ''A10''" "bag_kodu kayit_B20 = py ''B20''"
  by (simp_all add: bag_kodu_def dict_get_def kayit_A10_def kayit_B20_def astype_str_def)

lemma df_ornek [simp]:
  "df_columns [kayit_A10] = [BagKoduBekleyen, Tutar]"
  "map (map goster) (df_values [kayit_A10]) = [[py ''A10'', py ''5'']]"
  by (simp_all add: df_columns_def df_values_def union_columns_def kayit_A10_def dict_get_def
      goster_def)

lemma existing_ornek [simp]:
  "get_existing_data False (Some sayfa_kodsuz) = {}"
  "get_existing_data True (Some sayfa_kodlu) = {}"
  "get_existing_data False (Some sayfa_kodlu) = {py ''B20''}"
  by (simp_all add: get_existing_data_def sayfa_kodsuz_def sayfa_kodlu_def)

lemma save_appends:
  assumes "get_existing_data okuma_hatasi (Some grid) \<noteq> {}"
  shows "\<exists>eklenen. save_to_sheets okuma_hatasi processed_orders (Some grid) = Some (grid @ eklenen)
     \<and> length eklenen =
         length (filter (\<lambda>order. bag_kodu order \<notin> get_existing_data okuma_hatasi (Some grid))
                   processed_orders)"
proof -
  let ?new = "filter (\<lambda>order. bag_kodu order \<notin> get_existing_data okuma_hatasi (Some grid))
                   processed_orders"
  show ?thesis
  proof (cases "?new = []")
    case True
    then have "save_to_sheets okuma_hatasi processed_orders (Some grid) = Some (grid @ [])"
      by (simp add: save_to_sheets_def filter_new_records_eq Let_def)
    with True show ?thesis by (metis list.size(3))
  next
    case False
    then have p: "processed_orders \<noteq> []" by auto
    have "save_to_sheets okuma_hatasi processed_orders (Some grid)
        = Some (grid @ map (map goster) (df_values ?new))"
      using False p assms
      by (simp add: save_to_sheets_def filter_new_records_eq Let_def append_rows_def)
    moreover have "length (map (map goster) (df_values ?new)) = length ?new"
      by (simp add: df_values_def)
    ultimately show ?thesis by blast
  qed
qed

text \<open>
  C9. \<open>_filter_new_records\<close> keeps, in their order, the orders whose key is not among
  the existing ones (lemma \<open>filter_new_records_eq\<close>), and when existing keys were read
  the kept orders go below the stored rows (lemma \<open>save_appends\<close>).  When no existing
  key was read, \<open>save_to_sheets\<close> writes header and orders from cell \<open>A1\<close> on: on a
  worksheet whose header has no \<open>BagKoduBekleyen\<close>, and on any worksheet after a failed
  read, the stored rows at the top are overwritten.
\<close>

theorem first_write_overwrites:
  "save_to_sheets False [kayit_A10] (Some sayfa_kodsuz)
     = Some [[BagKoduBekleyen, Tutar], [py ''A10'', py ''5'']] \<and>
   sayfa_kodsuz = [[py ''Siparis'', Tutar], [py ''S1'', py ''100'']] \<and>
   save_to_sheets True [kayit_A10] (Some sayfa_kodlu)
     = Some [[BagKoduBekleyen, Tutar], [py ''A10'', py ''5'']] \<and>
   sayfa_kodlu = [[BagKoduBekleyen, Tutar], [py ''B20'', py ''7'']] \<and>
   save_to_sheets False [kayit_A10] (Some sayfa_kodlu)
     = Some [[BagKoduBekleyen, Tutar], [py ''B20'', py ''7''], [py ''A10'', py ''5'']]"
proof -
  have n: "py ''A10'' \<noteq> py ''B20''" by (simp add: py_def)
  have 1: "save_to_sheets False [kayit_A10] (Some sayfa_kodsuz)
     = Some [[BagKoduBekleyen, Tutar], [py ''A10'', py ''5'']]"
    by (simp add: save_to_sheets_def filter_new_records_eq Let_def)
      (simp add: sayfa_kodsuz_def)
  have 2: "save_to_sheets True [kayit_A10] (Some sayfa_kodlu)
     = Some [[BagKoduBekleyen, Tutar], [py ''A10'', py ''5'']]"
    by (simp add: save_to_sheets_def filter_new_records_eq Let_def)
      (simp add: sayfa_kodlu_def)
  have 3: "save_to_sheets False [kayit_A10] (Some sayfa_kodlu)
     = Some [[BagKoduBekleyen, Tutar], [py ''B20'', py ''7''], [py ''A10'', py ''5'']]"
    using n by (simp add: save_to_sheets_def filter_new_records_eq Let_def append_rows_def)
      (simp add: sayfa_kodlu_def)
  show ?thesis using 1 2 3 by (simp add: sayfa_kodsuz_def sayfa_kodlu_def)
qed

section \<open>Stok.py and Irsaliye.py: joins\<close>

lemma stok_neq [simp]:
  "Malzeme_Kodu \<noteq> DEPO" "Malzeme_Kodu \<noteq> Bekleyen_Adet"
  "Malzeme_Kodu \<noteq> Toplam_Borc" "Malzeme_Kodu \<noteq> Adet"
  "Malzeme_Kodu \<noteq> SAP_Kodu" "Malzeme_Kodu \<noteq> TOPTAN"
  "Malzeme_Kodu \<noteq> PERAKENDE" "Malzeme_Kodu \<noteq> LISTE" "DEPO \<noteq> Malzeme_Kodu"
  "DEPO \<noteq> Bekleyen_Adet" "DEPO \<noteq> Toplam_Borc" "DEPO \<noteq> Adet"
  "DEPO \<noteq> SAP_Kodu" "DEPO \<noteq> TOPTAN" "DEPO \<noteq> PERAKENDE"
  "DEPO \<noteq> LISTE" "Bekleyen_Adet \<noteq> Malzeme_Kodu" "Bekleyen_Adet \<noteq> DEPO"
  "Bekleyen_Adet \<noteq> Toplam_Borc" "Bekleyen_Adet \<noteq> Adet"
  "Bekleyen_Adet \<noteq> SAP_Kodu" "Bekleyen_Adet \<noteq> TOPTAN"
  "Bekleyen_Adet \<noteq> PERAKENDE" "Bekleyen_Adet \<noteq> LISTE"
  "Toplam_Borc \<noteq> Malzeme_Kodu" "Toplam_Borc \<noteq> DEPO"
  "Toplam_Borc \<noteq> Bekleyen_Adet" "Toplam_Borc \<noteq> Adet"
  "Toplam_Borc \<noteq> SAP_Kodu" "Toplam_Borc \<noteq> TOPTAN"
  "Toplam_Borc \<noteq> PERAKENDE" "Toplam_Borc \<noteq> LISTE" "Adet \<noteq> Malzeme_Kodu"
  "Adet \<noteq> DEPO" "Adet \<noteq> Bekleyen_Adet" "Adet \<noteq> Toplam_Borc"
  "Adet \<noteq> SAP_Kodu" "Adet \<noteq> TOPTAN" "Adet \<noteq> PERAKENDE"
  "Adet \<noteq> LISTE" "SAP_Kodu \<noteq> Malzeme_Kodu" "SAP_Kodu \<noteq> DEPO"
  "SAP_Kodu \<noteq> Bekleyen_Adet" "SAP_Kodu \<noteq> Toplam_Borc" "SAP_Kodu \<noteq> Adet"
  "SAP_Kodu \<noteq> TOPTAN" "SAP_Kodu \<noteq> PERAKENDE" "SAP_Kodu \<noteq> LISTE"
  "TOPTAN \<noteq> Malzeme_Kodu" "TOPTAN \<noteq> DEPO" "TOPTAN \<noteq> Bekleyen_Adet"
  "TOPTAN \<noteq> Toplam_Borc" "TOPTAN \<noteq> Adet" "TOPTAN \<noteq> SAP_Kodu"
  "TOPTAN \<noteq> PERAKENDE" "TOPTAN \<noteq> LISTE" "PERAKENDE \<noteq> Malzeme_Kodu"
  "PERAKENDE \<noteq> DEPO" "PERAKENDE \<noteq> Bekleyen_Adet"
  "PERAKENDE \<noteq> Toplam_Borc" "PERAKENDE \<noteq> Adet" "PERAKENDE \<noteq> SAP_Kodu"
  "PERAKENDE \<noteq> TOPTAN" "PERAKENDE \<noteq> LISTE" "LISTE \<noteq> Malzeme_Kodu"
  "LISTE \<noteq> DEPO" "LISTE \<noteq> Bekleyen_Adet" "LISTE \<noteq> Toplam_Borc"
  "LISTE \<noteq> Adet" "LISTE \<noteq> SAP_Kodu" "LISTE \<noteq> TOPTAN"
  "LISTE \<noteq> PERAKENDE"
  by (simp_all add: Malzeme_Kodu_def Bekleyen_Adet_def Toplam_Borc_def Adet_def SAP_Kodu_def
      TOPTAN_def PERAKENDE_def LISTE_def DEPO_def py_def)

lemma irsaliye_neq [simp]:
  "Esle \<noteq> Tayin" "Esle \<noteq> Odeme_Kosulu_Tanimi" "Esle \<noteq> UPB_Tutari"
  "Esle \<noteq> Kullanicinin_adi" "Esle \<noteq> Referans" "Esle \<noteq> SIRA_NO"
  "Esle \<noteq> TARIH" "Esle \<noteq> Vergili_TUTAR" "Esle \<noteq> Fark"
  "Esle \<noteq> Fatura_No" "Esle \<noteq> Odeme_Karti" "Esle \<noteq> Tutar"
  "Esle \<noteq> Irsaliye_No" "Esle \<noteq> Tarih" "Tayin \<noteq> Esle"
  "Tayin \<noteq> Odeme_Kosulu_Tanimi" "Tayin \<noteq> UPB_Tutari"
  "Tayin \<noteq> Kullanicinin_adi" "Tayin \<noteq> Referans" "Tayin \<noteq> SIRA_NO"
  "Tayin \<noteq> TARIH" "Tayin \<noteq> Vergili_TUTAR" "Tayin \<noteq> Fark"
  "Tayin \<noteq> Fatura_No" "Tayin \<noteq> Odeme_Karti" "Tayin \<noteq> Tutar"
  "Tayin \<noteq> Irsaliye_No" "Tayin \<noteq> Tarih" "Odeme_Kosulu_Tanimi \<noteq> Esle"
  "Odeme_Kosulu_Tanimi \<noteq> Tayin" "Odeme_Kosulu_Tanimi \<noteq> UPB_Tutari"
  "Odeme_Kosulu_Tanimi \<noteq> Kullanicinin_adi" "Odeme_Kosulu_Tanimi \<noteq> Referans"
  "Odeme_Kosulu_Tanimi \<noteq> SIRA_NO" "Odeme_Kosulu_Tanimi \<noteq> TARIH"
  "Odeme_Kosulu_Tanimi \<noteq> Vergili_TUTAR" "Odeme_Kosulu_Tanimi \<noteq> Fark"
  "Odeme_Kosulu_Tanimi \<noteq> Fatura_No" "Odeme_Kosulu_Tanimi \<noteq> Odeme_Karti"
  "Odeme_Kosulu_Tanimi \<noteq> Tutar" "Odeme_Kosulu_Tanimi \<noteq> Irsaliye_No"
  "Odeme_Kosulu_Tanimi \<noteq> Tarih" "UPB_Tutari \<noteq> Esle" "UPB_Tutari \<noteq> Tayin"
  "UPB_Tutari \<noteq> Odeme_Kosulu_Tanimi" "UPB_Tutari \<noteq> Kullanicinin_adi"
  "UPB_Tutari \<noteq> Referans" "UPB_Tutari \<noteq> SIRA_NO" "UPB_Tutari \<noteq> TARIH"
  "UPB_Tutari \<noteq> Vergili_TUTAR" "UPB_Tutari \<noteq> Fark"
  "UPB_Tutari \<noteq> Fatura_No" "UPB_Tutari \<noteq> Odeme_Karti"
  "UPB_Tutari \<noteq> Tutar" "UPB_Tutari \<noteq> Irsaliye_No" "UPB_Tutari \<noteq> Tarih"
  "Kullanicinin_adi \<noteq> Esle" "Kullanicinin_adi \<noteq> Tayin"
  "Kullanicinin_adi \<noteq> Odeme_Kosulu_Tanimi" "Kullanicinin_adi \<noteq> UPB_Tutari"
  "Kullanicinin_adi \<noteq> Referans" "Kullanicinin_adi \<noteq> SIRA_NO"
  "Kullanicinin_adi \<noteq> TARIH" "Kullanicinin_adi \<noteq> Vergili_TUTAR"
  "Kullanicinin_adi \<noteq> Fark" "Kullanicinin_adi \<noteq> Fatura_No"
  "Kullanicinin_adi \<noteq> Odeme_Karti" "Kullanicinin_adi \<noteq> Tutar"
  "Kullanicinin_adi \<noteq> Irsaliye_No" "Kullanicinin_adi \<noteq> Tarih"
  "Referans \<noteq> Esle" "Referans \<noteq> Tayin" "Referans \<noteq> Odeme_Kosulu_Tanimi"
  "Referans \<noteq> UPB_Tutari" "Referans \<noteq> Kullanicinin_adi"
  "Referans \<noteq> SIRA_NO" "Referans \<noteq> TARIH" "Referans \<noteq> Vergili_TUTAR"
  "Referans \<noteq> Fark" "Referans \<noteq> Fatura_No" "Referans \<noteq> Odeme_Karti"
  "Referans \<noteq> Tutar" "Referans \<noteq> Irsaliye_No" "Referans \<noteq> Tarih"
  "SIRA_NO \<noteq> Esle" "SIRA_NO \<noteq> Tayin" "SIRA_NO \<noteq> Odeme_Kosulu_Tanimi"
  "SIRA_NO \<noteq> UPB_Tutari" "SIRA_NO \<noteq> Kullanicinin_adi"
  "SIRA_NO \<noteq> Referans" "SIRA_NO \<noteq> TARIH" "SIRA_NO \<noteq> Vergili_TUTAR"
  "SIRA_NO \<noteq> Fark" "SIRA_NO \<noteq> Fatura_No" "SIRA_NO \<noteq> Odeme_Karti"
  "SIRA_NO \<noteq> Tutar" "SIRA_NO \<noteq> Irsaliye_No" "SIRA_NO \<noteq> Tarih"
  "TARIH \<noteq> Esle" "TARIH \<noteq> Tayin" "TARIH \<noteq> Odeme_Kosulu_Tanimi"
  "TARIH \<noteq> UPB_Tutari" "TARIH \<noteq> Kullanicinin_adi" "TARIH \<noteq> Referans"
  "TARIH \<noteq> SIRA_NO" "TARIH \<noteq> Vergili_TUTAR" "TARIH \<noteq> Fark"
  "TARIH \<noteq> Fatura_No" "TARIH \<noteq> Odeme_Karti" "TARIH \<noteq> Tutar"
  "TARIH \<noteq> Irsaliye_No" "TARIH \<noteq> Tarih" "Vergili_TUTAR \<noteq> Esle"
  "Vergili_TUTAR \<noteq> Tayin" "Vergili_TUTAR \<noteq> Odeme_Kosulu_Tanimi"
  "Vergili_TUTAR \<noteq> UPB_Tutari" "Vergili_TUTAR \<noteq> Kullanicinin_adi"
  "Vergili_TUTAR \<noteq> Referans" "Vergili_TUTAR \<noteq> SIRA_NO"
  "Vergili_TUTAR \<noteq> TARIH" "Vergili_TUTAR \<noteq> Fark"
  "Vergili_TUTAR \<noteq> Fatura_No" "Vergili_TUTAR \<noteq> Odeme_Karti"
  "Vergili_TUTAR \<noteq> Tutar" "Vergili_TUTAR \<noteq> Irsaliye_No"
  "Vergili_TUTAR \<noteq> Tarih" "Fark \<noteq> Esle" "Fark \<noteq> Tayin"
  "Fark \<noteq> Odeme_Kosulu_Tanimi" "Fark \<noteq> UPB_Tutari"
  "Fark \<noteq> Kullanicinin_adi" "Fark \<noteq> Referans" "Fark \<noteq> SIRA_NO"
  "Fark \<noteq> TARIH" "Fark \<noteq> Vergili_TUTAR" "Fark \<noteq> Fatura_No"
  "Fark \<noteq> Odeme_Karti" "Fark \<noteq> Tutar" "Fark \<noteq> Irsaliye_No"
  "Fark \<noteq> Tarih" "Fatura_No \<noteq> Esle" "Fatura_No \<noteq> Tayin"
  "Fatura_No \<noteq> Odeme_Kosulu_Tanimi" "Fatura_No \<noteq> UPB_Tutari"
  "Fatura_No \<noteq> Kullanicinin_adi" "Fatura_No \<noteq> Referans"
  "Fatura_No \<noteq> SIRA_NO" "Fatura_No \<noteq> TARIH" "Fatura_No \<noteq> Vergili_TUTAR"
  "Fatura_No \<noteq> Fark" "Fatura_No \<noteq> Odeme_Karti" "Fatura_No \<noteq> Tutar"
  "Fatura_No \<noteq> Irsaliye_No" "Fatura_No \<noteq> Tarih" "Odeme_Karti \<noteq> Esle"
  "Odeme_Karti \<noteq> Tayin" "Odeme_Karti \<noteq> Odeme_Kosulu_Tanimi"
  "Odeme_Karti \<noteq> UPB_Tutari" "Odeme_Karti \<noteq> Kullanicinin_adi"
  "Odeme_Karti \<noteq> Referans" "Odeme_Karti \<noteq> SIRA_NO" "Odeme_Karti \<noteq> TARIH"
  "Odeme_Karti \<noteq> Vergili_TUTAR" "Odeme_Karti \<noteq> Fark"
  "Odeme_Karti \<noteq> Fatura_No" "Odeme_Karti \<noteq> Tutar"
  "Odeme_Karti \<noteq> Irsaliye_No" "Odeme_Karti \<noteq> Tarih" "Tutar \<noteq> Esle"
  "Tutar \<noteq> Tayin" "Tutar \<noteq> Odeme_Kosulu_Tanimi" "Tutar \<noteq> UPB_Tutari"
  "Tutar \<noteq> Kullanicinin_adi" "Tutar \<noteq> Referans" "Tutar \<noteq> SIRA_NO"
  "Tutar \<noteq> TARIH" "Tutar \<noteq> Vergili_TUTAR" "Tutar \<noteq> Fark"
  "Tutar \<noteq> Fatura_No" "Tutar \<noteq> Odeme_Karti" "Tutar \<noteq> Irsaliye_No"
  "Tutar \<noteq> Tarih" "Irsaliye_No \<noteq> Esle" "Irsaliye_No \<noteq> Tayin"
  "Irsaliye_No \<noteq> Odeme_Kosulu_Tanimi" "Irsaliye_No \<noteq> UPB_Tutari"
  "Irsaliye_No \<noteq> Kullanicinin_adi" "Irsaliye_No \<noteq> Referans"
  "Irsaliye_No \<noteq> SIRA_NO" "Irsaliye_No \<noteq> TARIH"
  "Irsaliye_No \<noteq> Vergili_TUTAR" "Irsaliye_No \<noteq> Fark"
  "Irsaliye_No \<noteq> Fatura_No" "Irsaliye_No \<noteq> Odeme_Karti"
  "Irsaliye_No \<noteq> Tutar" "Irsaliye_No \<noteq> Tarih" "Tarih \<noteq> Esle"
  "Tarih \<noteq> Tayin" "Tarih \<noteq> Odeme_Kosulu_Tanimi" "Tarih \<noteq> UPB_Tutari"
  "Tarih \<noteq> Kullanicinin_adi" "Tarih \<noteq> Referans" "Tarih \<noteq> SIRA_NO"
  "Tarih \<noteq> TARIH" "Tarih \<noteq> Vergili_TUTAR" "Tarih \<noteq> Fark"
  "Tarih \<noteq> Fatura_No" "Tarih \<noteq> Odeme_Karti" "Tarih \<noteq> Tutar"
  "Tarih \<noteq> Irsaliye_No"
  by (simp_all add: Esle_def Tayin_def Odeme_Kosulu_Tanimi_def UPB_Tutari_def Kullanicinin_adi_def Referans_def SIRA_NO_def TARIH_def Vergili_TUTAR_def Fark_def Fatura_No_def Odeme_Karti_def Tutar_def Irsaliye_No_def Tarih_def
      py_def)

lemma pd_merge_Inr:
  assumes "pd_merge h L R key = Inr M"
  shows "key \<in> set (columns L)" "key \<in> set (columns R)" "distinct (merge_columns L R key)"
    "columns M = merge_columns L R key"
    "rows M = sol_satirlar L R key @ (if h = how_outer then sag_satirlar L R key else [])"
  using assms by (auto simp: pd_merge_def not_in_def split: if_splits)

lemma satir_distinct:
  assumes "distinct (map fst kvs)" "(k, v) \<in> set kvs"
  shows "satir kvs k = v"
  using assms by (simp add: satir_def)

lemma merge_row_left:
  assumes d: "distinct (merge_columns L R key)" and c: "c \<in> set (columns L)"
  shows "merge_row L R key l r (sol_etiket L R key c) = l c"
proof -
  let ?kvs = "map (\<lambda>c. (sol_etiket L R key c, l c)) (columns L) @
            map (\<lambda>c. (sag_etiket L R key c, r c)) (sag_sutunlar R key)"
  have "map fst ?kvs = merge_columns L R key"
    by (simp add: merge_columns_def o_def)
  moreover have "(sol_etiket L R key c, l c) \<in> set ?kvs"
    using c by auto
  ultimately show ?thesis
    unfolding merge_row_def using d satir_distinct by metis
qed

lemma merge_row_right:
  assumes d: "distinct (merge_columns L R key)" and c: "c \<in> set (sag_sutunlar R key)"
  shows "merge_row L R key l r (sag_etiket L R key c) = r c"
proof -
  let ?kvs = "map (\<lambda>c. (sol_etiket L R key c, l c)) (columns L) @
            map (\<lambda>c. (sag_etiket L R key c, r c)) (sag_sutunlar R key)"
  have "map fst ?kvs = merge_columns L R key"
    by (simp add: merge_columns_def o_def)
  moreover have "(sag_etiket L R key c, r c) \<in> set ?kvs"
    using c by auto
  ultimately show ?thesis
    unfolding merge_row_def using d satir_distinct by metis
qed

lemma merge_row_key:
  assumes "distinct (merge_columns L R key)" "key \<in> set (columns L)"
  shows "merge_row L R key l r key = l key"
  using merge_row_left [OF assms, of l r] by (simp add: sol_etiket_def ortak_def)

lemma merge_row_left_only:
  assumes "distinct (merge_columns L R key)" "c \<in> set (columns L)" "c \<notin> set (columns R)"
  shows "merge_row L R key l r c = l c"
  using merge_row_left [OF assms(1,2), of l r] assms(3) by (simp add: sol_etiket_def ortak_def)

lemma merge_row_right_only:
  assumes "distinct (merge_columns L R key)" "c \<in> set (columns R)" "c \<notin> set (columns L)"
    "c \<noteq> key"
  shows "merge_row L R key l r c = r c"
proof -
  have "c \<in> set (sag_sutunlar R key)"
    using assms by (simp add: sag_sutunlar_def)
  from merge_row_right [OF assms(1) this, of l r] assms(3) show ?thesis
    by (simp add: sag_etiket_def ortak_def)
qed

lemma sol_satirlar_keys:
  assumes "distinct (merge_columns L R key)" "key \<in> set (columns L)"
  shows "map (\<lambda>m. m key) (sol_satirlar L R key)
     = concat (map (\<lambda>l. replicate (max 1 (length (eslesen R key l))) (l key)) (rows L))"
proof -
  have "map (\<lambda>m. m key) (case eslesen R key l of
                          [] \<Rightarrow> [merge_row L R key l bos]
                        | m # ms \<Rightarrow> map (merge_row L R key l) (m # ms))
      = replicate (max 1 (length (eslesen R key l))) (l key)" for l
    by (cases "eslesen R key l")
      (simp_all add: merge_row_key [OF assms] o_def map_replicate_const)
  then show ?thesis
    by (simp add: sol_satirlar_def map_concat o_def)
qed

lemma sag_satirlar_keys:
  assumes "distinct (merge_columns L R key)" "key \<in> set (columns L)"
  shows "map (\<lambda>m. m key) (sag_satirlar L R key)
     = map (\<lambda>r. r key) (filter (\<lambda>r. r key \<notin> set (sutun L key)) (rows R))"
  by (simp add: sag_satirlar_def o_def merge_row_key [OF assms] not_in_def)

lemma set_sol_keys:
  "set (concat (map (\<lambda>l. replicate (max 1 (length (eslesen R key l))) (l key)) (rows L)))
     = set (sutun L key)"
  by (auto simp: sutun_def)

lemma left_keys:
  assumes "pd_merge how_left L R key = Inr M"
  shows "sutun M key
     = concat (map (\<lambda>l. replicate (max 1 (length (eslesen R key l))) (l key)) (rows L))"
    and "set (sutun M key) = set (sutun L key)"
proof -
  note f = pd_merge_Inr [OF assms]
  show 1: "sutun M key
     = concat (map (\<lambda>l. replicate (max 1 (length (eslesen R key l))) (l key)) (rows L))"
    using sol_satirlar_keys [OF f(3) f(1)] by (simp add: sutun_def f(5))
  show "set (sutun M key) = set (sutun L key)"
    unfolding 1 by (rule set_sol_keys)
qed

lemma eslesen_le_one:
  assumes "distinct (sutun R key)"
  shows "length (eslesen R key l) \<le> 1"
proof -
  have "distinct (map (\<lambda>r. r key) (filter (\<lambda>r. r key = l key) (rows R)))"
    using assms by (simp add: sutun_def distinct_map_filter)
  moreover have "map (\<lambda>r. r key) (filter (\<lambda>r. r key = l key) (rows R))
      = replicate (length (filter (\<lambda>r. r key = l key) (rows R))) (l key)"
    by (induction "rows R") (auto simp: map_replicate_const intro: replicate_eqI)
  ultimately have "distinct (replicate (length (eslesen R key l)) (l key))"
    by (simp add: eslesen_def)
  then show ?thesis
    by (cases "length (eslesen R key l)") (auto simp: Suc_le_eq)
qed

lemma sol_keys_unique:
  assumes "distinct (sutun R key)"
  shows "concat (map (\<lambda>l. replicate (max 1 (length (eslesen R key l))) (l key)) (rows L))
     = sutun L key"
proof -
  have "max 1 (length (eslesen R key l)) = 1" for l
    using eslesen_le_one [OF assms, of l] by simp
  then show ?thesis by (simp add: sutun_def)
qed

lemma outer_keys:
  assumes "pd_merge how_outer L R key = Inr M"
  shows "set (sutun M key) = set (sutun L key) \<union> set (sutun R key)"
    and "distinct (sutun L key) \<Longrightarrow> distinct (sutun R key) \<Longrightarrow> distinct (sutun M key)"
proof -
  note f = pd_merge_Inr [OF assms]
  have k: "sutun M key
     = concat (map (\<lambda>l. replicate (max 1 (length (eslesen R key l))) (l key)) (rows L))
       @ map (\<lambda>r. r key) (filter (\<lambda>r. r key \<notin> set (sutun L key)) (rows R))"
    using sol_satirlar_keys [OF f(3) f(1)] sag_satirlar_keys [OF f(3) f(1)]
    by (simp add: sutun_def f(5))
  show "set (sutun M key) = set (sutun L key) \<union> set (sutun R key)"
    unfolding k set_append set_sol_keys by (auto simp: sutun_def)
  assume d: "distinct (sutun L key)" "distinct (sutun R key)"
  have "distinct (sutun L key
       @ map (\<lambda>r. r key) (filter (\<lambda>r. r key \<notin> set (sutun L key)) (rows R)))"
    using d by (auto simp: sutun_def distinct_map_filter) (metis imageI)
  then show "distinct (sutun M key)"
    unfolding k sol_keys_unique [OF d(2)] .
qed

lemma sol_satirlar_column:
  assumes d: "distinct (merge_columns L R key)" and c: "c \<in> set (columns L)"
    and u: "c = key \<or> c \<notin> set (columns R)"
  shows "map (\<lambda>m. m c) (sol_satirlar L R key)
     = concat (map (\<lambda>l. replicate (max 1 (length (eslesen R key l))) (l c)) (rows L))"
proof -
  have e: "sol_etiket L R key c = c"
    using u by (auto simp: sol_etiket_def ortak_def)
  have v: "merge_row L R key l r c = l c" for l r
    using merge_row_left [OF d c, of l r] by (simp add: e)
  have "map (\<lambda>m. m c) (case eslesen R key l of
                          [] \<Rightarrow> [merge_row L R key l bos]
                        | m # ms \<Rightarrow> map (merge_row L R key l) (m # ms))
      = replicate (max 1 (length (eslesen R key l))) (l c)" for l
    by (cases "eslesen R key l") (simp_all add: v o_def map_replicate_const)
  then show ?thesis
    by (simp add: sol_satirlar_def map_concat o_def)
qed

lemma left_column:
  assumes m: "pd_merge how_left L R key = Inr M" and c: "c \<in> set (columns L)"
    and u: "c = key \<or> c \<notin> set (columns R)"
  shows "set (sutun M c) = set (sutun L c)"
    and "distinct (sutun R key) \<Longrightarrow> sutun M c = sutun L c"
    and "c \<in> set (columns M)"
proof -
  note f = pd_merge_Inr [OF m]
  have k: "sutun M c
     = concat (map (\<lambda>l. replicate (max 1 (length (eslesen R key l))) (l c)) (rows L))"
    using sol_satirlar_column [OF f(3) c u] by (simp add: sutun_def f(5))
  show "set (sutun M c) = set (sutun L c)"
    unfolding k by (auto simp: sutun_def)
  show "c \<in> set (columns M)"
  proof -
    have "sol_etiket L R key c = c"
      using u by (auto simp: sol_etiket_def ortak_def)
    then have "c \<in> sol_etiket L R key ` set (columns L)"
      using c by (metis imageI)
    then show ?thesis by (simp add: f(4) merge_columns_def)
  qed
  assume d: "distinct (sutun R key)"
  have "max 1 (length (eslesen R key l)) = 1" for l
    using eslesen_le_one [OF d, of l] by simp
  then show "sutun M c = sutun L c"
    unfolding k by (simp add: sutun_def)
qed

lemma unmatched_left:
  assumes m: "pd_merge h L R key = Inr M" and l: "l \<in> set (rows L)"
    and n: "l key \<notin> set (sutun R key)"
  shows "\<exists>s\<in>set (rows M). s key = l key \<and>
            (\<forall>c\<in>set (columns R). c \<notin> set (columns L) \<longrightarrow> s c = NaN)"
proof -
  note f = pd_merge_Inr [OF m]
  have "eslesen R key l = []"
    using n by (auto simp: eslesen_def sutun_def filter_empty_conv) (metis imageI)
  then have "merge_row L R key l bos \<in> set (sol_satirlar L R key)"
    using l by (auto simp: sol_satirlar_def intro!: bexI [of _ l])
  then have 1: "merge_row L R key l bos \<in> set (rows M)"
    by (simp add: f(5))
  have 2: "merge_row L R key l bos key = l key"
    by (rule merge_row_key [OF f(3) f(1)])
  have 3: "\<forall>c\<in>set (columns R). c \<notin> set (columns L) \<longrightarrow> merge_row L R key l bos c = NaN"
  proof (intro ballI impI)
    fix c assume c: "c \<in> set (columns R)" "c \<notin> set (columns L)"
    then have "c \<noteq> key" using f(1) by auto
    from merge_row_right_only [OF f(3) c this, of l bos] show "merge_row L R key l bos c = NaN"
      by (simp add: bos_def)
  qed
  from 1 2 3 show ?thesis by blast
qed

lemma unmatched_right:
  assumes m: "pd_merge how_outer L R key = Inr M" and r: "r \<in> set (rows R)"
    and n: "r key \<notin> set (sutun L key)"
  shows "\<exists>s\<in>set (rows M). s key = r key \<and>
            (\<forall>c\<in>set (columns L). c \<notin> set (columns R) \<longrightarrow> s c = NaN)"
proof -
  note f = pd_merge_Inr [OF m]
  let ?s = "merge_row L R key (bos(key := r key)) r"
  have "?s \<in> set (sag_satirlar L R key)"
    using r n by (auto simp: sag_satirlar_def not_in_def)
  then have 1: "?s \<in> set (rows M)"
    by (simp add: f(5))
  have 2: "?s key = r key"
    using merge_row_key [OF f(3) f(1), of "bos(key := r key)" r] by simp
  have 3: "\<forall>c\<in>set (columns L). c \<notin> set (columns R) \<longrightarrow> ?s c = NaN"
  proof (intro ballI impI)
    fix c assume c: "c \<in> set (columns L)" "c \<notin> set (columns R)"
    then have "c \<noteq> key" using f(2) by auto
    with merge_row_left_only [OF f(3) c, of "bos(key := r key)" r] show "?s c = NaN"
      by (simp add: bos_def)
  qed
  from 1 2 3 show ?thesis by blast
qed

lemma sonra_Inr: "sonra m f = Inr y \<longleftrightarrow> (\<exists>x. m = Inr x \<and> f x = Inr y)"
  by (cases m) (simp_all add: sonra_def)

lemma fillna0_Inr:
  assumes "fillna0 c df = Inr df'"
  shows "columns df' = columns df" "k \<noteq> c \<Longrightarrow> sutun df' k = sutun df k"
  using assms by (auto simp: fillna0_def set_column_def sutun_def split: if_splits)

lemma sutun_set_column: "k \<noteq> c \<Longrightarrow> sutun (set_column c f df) k = sutun df k"
  by (simp add: set_column_def sutun_def)

lemma columns_set_column: "set (columns df) \<subseteq> set (columns (set_column c f df))"
  by (auto simp: set_column_def)

lemma select_columns_Inr:
  assumes "select_columns cs df = Inr df'"
  shows "columns df' = cs" "k \<in> set cs \<Longrightarrow> sutun df' k = sutun df k"
  using assms by (auto simp: select_columns_def sutun_def reindex_row_def split: if_splits)

lemma stok_keys:
  assumes "stok_birlestir malzeme g b p liste = Inr S"
  shows "set (sutun S Malzeme_Kodu) = set (sutun malzeme Malzeme_Kodu)"
    and "distinct (sutun g Malzeme_Kodu) \<Longrightarrow> distinct (sutun b Malzeme_Kodu) \<Longrightarrow>
         distinct (sutun p Malzeme_Kodu) \<Longrightarrow> distinct (sutun liste SAP_Kodu) \<Longrightarrow>
         sutun S Malzeme_Kodu = sutun malzeme Malzeme_Kodu"
proof -
  let ?k = Malzeme_Kodu
  from assms obtain m1 m2 m3 m4 m5 m6 fiyat m8 m9 m10 where
    s1: "pd_merge how_left malzeme g ?k = Inr m1" and
    s2: "fillna0 Bekleyen_Adet m1 = Inr m2" and
    s3: "pd_merge how_left m2 b ?k = Inr m3" and
    s4: "fillna0 Toplam_Borc m3 = Inr m4" and
    s5: "pd_merge how_left m4 p ?k = Inr m5" and
    s6: "fillna0 Adet m5 = Inr m6" and
    s7: "select_columns [SAP_Kodu, TOPTAN, PERAKENDE, LISTE] liste = Inr fiyat" and
    s8: "pd_merge how_left (set_column SAP_Kodu (\<lambda>r. Str (sap_kodu (astype_str (r ?k)))) m6)
           fiyat SAP_Kodu = Inr m8" and
    s9: "fillna0 TOPTAN m8 = Inr m9" and
    s10: "fillna0 PERAKENDE m9 = Inr m10" and
    s11: "fillna0 LISTE m10 = Inr S"
    unfolding stok_birlestir_def sonra_Inr by auto
  let ?m7 = "set_column SAP_Kodu (\<lambda>r. Str (sap_kodu (astype_str (r ?k)))) m6"
  have k0: "?k \<in> set (columns malzeme)" by (rule pd_merge_Inr(1) [OF s1])
  have k2: "?k \<in> set (columns m2)" by (rule pd_merge_Inr(1) [OF s3])
  have k4: "?k \<in> set (columns m4)" by (rule pd_merge_Inr(1) [OF s5])
  have k5: "?k \<in> set (columns m5)"
    by (rule left_column(3) [OF s5 k4]) simp
  have k7: "?k \<in> set (columns ?m7)"
    using k5 fillna0_Inr(1) [OF s6] columns_set_column by fastforce
  have nf: "?k \<notin> set (columns fiyat)"
    by (simp add: select_columns_Inr(1) [OF s7])
  have e2: "sutun m2 ?k = sutun m1 ?k" by (rule fillna0_Inr(2) [OF s2]) simp
  have e4: "sutun m4 ?k = sutun m3 ?k" by (rule fillna0_Inr(2) [OF s4]) simp
  have e6: "sutun m6 ?k = sutun m5 ?k" by (rule fillna0_Inr(2) [OF s6]) simp
  have e7: "sutun ?m7 ?k = sutun m6 ?k" by (rule sutun_set_column) simp
  have e9: "sutun m9 ?k = sutun m8 ?k" by (rule fillna0_Inr(2) [OF s9]) simp
  have e10: "sutun m10 ?k = sutun m9 ?k" by (rule fillna0_Inr(2) [OF s10]) simp
  have e11: "sutun S ?k = sutun m10 ?k" by (rule fillna0_Inr(2) [OF s11]) simp
  have "set (sutun m1 ?k) = set (sutun malzeme ?k)"
    by (rule left_column(1) [OF s1 k0]) simp
  moreover have "set (sutun m3 ?k) = set (sutun m2 ?k)"
    by (rule left_column(1) [OF s3 k2]) simp
  moreover have "set (sutun m5 ?k) = set (sutun m4 ?k)"
    by (rule left_column(1) [OF s5 k4]) simp
  moreover have "set (sutun m8 ?k) = set (sutun ?m7 ?k)"
    by (rule left_column(1) [OF s8 k7]) (simp add: nf)
  ultimately show "set (sutun S ?k) = set (sutun malzeme ?k)"
    by (simp add: e2 e4 e6 e7 e9 e10 e11)
  assume d: "distinct (sutun g ?k)" "distinct (sutun b ?k)" "distinct (sutun p ?k)"
    "distinct (sutun liste SAP_Kodu)"
  have df: "distinct (sutun fiyat SAP_Kodu)"
    using d(4) select_columns_Inr(2) [OF s7, of SAP_Kodu] by simp
  have "sutun m1 ?k = sutun malzeme ?k"
    by (rule left_column(2) [OF s1 k0 _ d(1)]) simp
  moreover have "sutun m3 ?k = sutun m2 ?k"
    by (rule left_column(2) [OF s3 k2 _ d(2)]) simp
  moreover have "sutun m5 ?k = sutun m4 ?k"
    by (rule left_column(2) [OF s5 k4 _ d(3)]) simp
  moreover have "sutun m8 ?k = sutun ?m7 ?k"
    by (rule left_column(2) [OF s8 k7 _ df]) (simp add: nf)
  ultimately show "sutun S ?k = sutun malzeme ?k"
    by (simp add: e2 e4 e6 e7 e9 e10 e11)
qed

lemma merge_columns_disjoint:
  assumes "set (columns L) \<inter> set (columns R) \<subseteq> {key}"
  shows "merge_columns L R key = columns L @ sag_sutunlar R key"
proof -
  have "map (sol_etiket L R key) (columns L) = columns L"
    using assms by (intro map_idI) (auto simp: sol_etiket_def ortak_def)
  moreover have "map (sag_etiket L R key) (sag_sutunlar R key) = sag_sutunlar R key"
    using assms by (intro map_idI) (auto simp: sag_etiket_def ortak_def sag_sutunlar_def)
  ultimately show ?thesis by (simp add: merge_columns_def)
qed

lemma pd_merge_ok:
  assumes "key \<in> set (columns L)" "key \<in> set (columns R)"
    "set (columns L) \<inter> set (columns R) \<subseteq> {key}"
    "distinct (columns L @ sag_sutunlar R key)"
  shows "\<exists>M. pd_merge h L R key = Inr M \<and> columns M = columns L @ sag_sutunlar R key"
  using assms by (simp add: pd_merge_def not_in_def merge_columns_disjoint)

lemma fillna0_ok:
  assumes "c \<in> set (columns df)"
  shows "\<exists>df'. fillna0 c df = Inr df' \<and> columns df' = columns df"
  using assms by (simp add: fillna0_def set_column_def)

lemma sutun_ornek [simp]:
  "sutun malzeme_ornek Malzeme_Kodu = [Str (py ''M1''), Str (py ''M3'')]"
  "sutun grouped_ornek Malzeme_Kodu = [Str (py ''M1''), Str (py ''M2'')]"
  "sutun borc_ornek Malzeme_Kodu = []" "sutun plan_ornek Malzeme_Kodu = []"
  "sutun liste_ornek SAP_Kodu = []"
  "sutun plan_cift Malzeme_Kodu = [Str (py ''M1''), Str (py ''M1'')]"
  by (simp_all add: sutun_def malzeme_ornek_def grouped_ornek_def borc_ornek_def plan_ornek_def
      liste_ornek_def plan_cift_def satir_Cons)

lemma M_neq [simp]: "py ''M1'' \<noteq> py ''M2''" "py ''M2'' \<noteq> py ''M1''"
  "py ''M1'' \<noteq> py ''M3''" "py ''M3'' \<noteq> py ''M1''"
  "py ''M2'' \<noteq> py ''M3''" "py ''M3'' \<noteq> py ''M2''"
  by (simp_all add: py_def)

subsection \<open>The cells of a left join and of the filled columns\<close>

lemma left_rows:
  assumes m: "pd_merge how_left L R key = Inr M" and s: "s \<in> set (rows M)"
  shows "\<exists>l\<in>set (rows L). \<exists>r. s = merge_row L R key l r \<and>
           (r = bos \<and> l key \<notin> set (sutun R key) \<or> r \<in> set (rows R) \<and> r key = l key)"
proof -
  note f = pd_merge_Inr [OF m]
  from s obtain l where l: "l \<in> set (rows L)"
    and sl: "s \<in> set (case eslesen R key l of [] \<Rightarrow> [merge_row L R key l bos]
                        | m # ms \<Rightarrow> map (merge_row L R key l) (m # ms))"
    by (auto simp: f(5) sol_satirlar_def)
  show ?thesis
  proof (cases "eslesen R key l")
    case Nil
    then have "l key \<notin> set (sutun R key)"
      by (auto simp: eslesen_def sutun_def filter_empty_conv)
    with sl Nil l show ?thesis by auto
  next
    case (Cons a as)
    with sl obtain r where "r \<in> set (eslesen R key l)" "s = merge_row L R key l r"
      by auto
    then show ?thesis using l by (auto simp: eslesen_def)
  qed
qed

lemma left_inv:
  assumes m: "pd_merge how_left L R key = Inr M"
    and a: "a \<in> set (columns L)" "a = key \<or> a \<notin> set (columns R)"
    and c: "c \<in> set (columns L)" "c = key \<or> c \<notin> set (columns R)"
    and q: "\<And>l. l \<in> set (rows L) \<Longrightarrow> Q (l a) (l c)"
    and s: "s \<in> set (rows M)"
  shows "Q (s a) (s c)"
proof -
  note f = pd_merge_Inr [OF m]
  obtain l r where l: "l \<in> set (rows L)" and sl: "s = merge_row L R key l r"
    using left_rows [OF m s] by blast
  have "s a = l a"
    using a merge_row_key [OF f(3) f(1)] merge_row_left_only [OF f(3)] sl by metis
  moreover have "s c = l c"
    using c merge_row_key [OF f(3) f(1)] merge_row_left_only [OF f(3)] sl by metis
  ultimately show ?thesis using q [OF l] by simp
qed

lemma left_empty:
  assumes m: "pd_merge how_left L R key = Inr M"
    and c: "c \<in> set (columns R)" "c \<notin> set (columns L)"
    and s: "s \<in> set (rows M)" and n: "s key \<notin> set (sutun R key)"
  shows "s c = NaN"
proof -
  note f = pd_merge_Inr [OF m]
  obtain l r where l: "l \<in> set (rows L)" and sl: "s = merge_row L R key l r"
    and r: "r = bos \<and> l key \<notin> set (sutun R key) \<or> r \<in> set (rows R) \<and> r key = l key"
    using left_rows [OF m s] by blast
  have k: "s key = l key"
    using merge_row_key [OF f(3) f(1)] sl by simp
  have "r = bos"
  proof (rule ccontr)
    assume "r \<noteq> bos"
    with r have "r \<in> set (rows R)" "r key = s key" using k by auto
    then have "s key \<in> set (sutun R key)"
      unfolding sutun_def by (metis imageI set_map)
    with n show False by simp
  qed
  moreover have "c \<noteq> key" using c f(1) by auto
  ultimately show ?thesis
    using merge_row_right_only [OF f(3) c, of l bos] sl by (simp add: bos_def)
qed

lemma fillna0_rows:
  assumes "fillna0 d df = Inr df'"
  shows "rows df' = map (\<lambda>l. l(d := if l d = NaN then Num 0 else l d)) (rows df)"
  using assms by (auto simp: fillna0_def set_column_def split: if_splits)

lemma fillna0_inv:
  assumes f: "fillna0 d df = Inr df'" and n: "d \<noteq> a" "d \<noteq> c"
    and q: "\<And>l. l \<in> set (rows df) \<Longrightarrow> Q (l a) (l c)"
    and s: "s \<in> set (rows df')"
  shows "Q (s a) (s c)"
  using s n q unfolding fillna0_rows [OF f] by auto

lemma fillna0_zero:
  assumes f: "fillna0 d df = Inr df'" and s: "s \<in> set (rows df')"
    and q: "\<And>l. l \<in> set (rows df) \<Longrightarrow> l a \<notin> K \<Longrightarrow> l d = NaN" and n: "d \<noteq> a"
    and k: "s a \<notin> K"
  shows "s d = Num 0"
  using s n q k unfolding fillna0_rows [OF f] by auto

lemma merge_columns_cases:
  assumes "c \<in> set (merge_columns L R key)"
  shows "c \<in> set (columns L) \<or> c \<in> set (columns R) \<or> last (butlast c) = 95"
  using assms
  by (auto simp: merge_columns_def sol_etiket_def sag_etiket_def sag_sutunlar_def py_def
      butlast_append split: if_splits)


lemma fillna0_col:
  assumes "fillna0 d df = Inr df'"
  shows "d \<in> set (columns df)" "columns df' = columns df"
  using assms by (auto simp: fillna0_def set_column_def split: if_splits)

lemma set_column_inv:
  assumes n: "d \<noteq> a" "d \<noteq> c"
    and q: "\<And>l. l \<in> set (rows df) \<Longrightarrow> Q (l a) (l c)"
    and s: "s \<in> set (rows (set_column d f df))"
  shows "Q (s a) (s c)"
  using s n q by (auto simp: set_column_def)

lemma stok_son_ek [simp]:
  "last (butlast Bekleyen_Adet) \<noteq> 95" "last (butlast Toplam_Borc) \<noteq> 95"
  "last (butlast Adet) \<noteq> 95" "last (butlast TOPTAN) \<noteq> 95"
  "last (butlast PERAKENDE) \<noteq> 95" "last (butlast LISTE) \<noteq> 95"
  "last (butlast Malzeme_Kodu) \<noteq> 95"
  by (simp_all add: Bekleyen_Adet_def Toplam_Borc_def Adet_def TOPTAN_def PERAKENDE_def
      LISTE_def Malzeme_Kodu_def py_def)

lemma stok_sifir:
  assumes S: "stok_birlestir malzeme g b p liste = Inr S" and s: "s \<in> set (rows S)"
  shows "Bekleyen_Adet \<in> set (columns g) \<Longrightarrow> Bekleyen_Adet \<notin> set (columns malzeme) \<Longrightarrow>
         Bekleyen_Adet \<notin> set (columns b) \<Longrightarrow> Bekleyen_Adet \<notin> set (columns p) \<Longrightarrow>
         s Malzeme_Kodu \<notin> set (sutun g Malzeme_Kodu) \<Longrightarrow> s Bekleyen_Adet = Num 0"
    and "Toplam_Borc \<in> set (columns b) \<Longrightarrow> Toplam_Borc \<notin> set (columns malzeme) \<Longrightarrow>
         Toplam_Borc \<notin> set (columns g) \<Longrightarrow> Toplam_Borc \<notin> set (columns p) \<Longrightarrow>
         s Malzeme_Kodu \<notin> set (sutun b Malzeme_Kodu) \<Longrightarrow> s Toplam_Borc = Num 0"
    and "Adet \<in> set (columns p) \<Longrightarrow> Adet \<notin> set (columns malzeme) \<Longrightarrow>
         Adet \<notin> set (columns g) \<Longrightarrow> Adet \<notin> set (columns b) \<Longrightarrow>
         s Malzeme_Kodu \<notin> set (sutun p Malzeme_Kodu) \<Longrightarrow> s Adet = Num 0"
    and "c \<in> {TOPTAN, PERAKENDE, LISTE} \<Longrightarrow> c \<notin> set (columns malzeme) \<Longrightarrow>
         c \<notin> set (columns g) \<Longrightarrow> c \<notin> set (columns b) \<Longrightarrow> c \<notin> set (columns p) \<Longrightarrow>
         s SAP_Kodu \<notin> set (sutun liste SAP_Kodu) \<Longrightarrow> s c = Num 0"
proof -
  let ?k = Malzeme_Kodu
  from S obtain m1 m2 m3 m4 m5 m6 fiyat m8 m9 m10 where
    s1: "pd_merge how_left malzeme g ?k = Inr m1" and
    s2: "fillna0 Bekleyen_Adet m1 = Inr m2" and
    s3: "pd_merge how_left m2 b ?k = Inr m3" and
    s4: "fillna0 Toplam_Borc m3 = Inr m4" and
    s5: "pd_merge how_left m4 p ?k = Inr m5" and
    s6: "fillna0 Adet m5 = Inr m6" and
    s7: "select_columns [SAP_Kodu, TOPTAN, PERAKENDE, LISTE] liste = Inr fiyat" and
    s8: "pd_merge how_left (set_column SAP_Kodu (\<lambda>r. Str (sap_kodu (astype_str (r ?k)))) m6)
           fiyat SAP_Kodu = Inr m8" and
    s9: "fillna0 TOPTAN m8 = Inr m9" and
    s10: "fillna0 PERAKENDE m9 = Inr m10" and
    s11: "fillna0 LISTE m10 = Inr S"
    unfolding stok_birlestir_def sonra_Inr by auto
  let ?m7 = "set_column SAP_Kodu (\<lambda>r. Str (sap_kodu (astype_str (r ?k)))) m6"
  have cf: "columns fiyat = [SAP_Kodu, TOPTAN, PERAKENDE, LISTE]"
    by (rule select_columns_Inr(1) [OF s7])
  have c1: "columns m1 = merge_columns malzeme g ?k" by (rule pd_merge_Inr(4) [OF s1])
  have c2: "columns m2 = columns m1" by (rule fillna0_col(2) [OF s2])
  have c3: "columns m3 = merge_columns m2 b ?k" by (rule pd_merge_Inr(4) [OF s3])
  have c4: "columns m4 = columns m3" by (rule fillna0_col(2) [OF s4])
  have c5: "columns m5 = merge_columns m4 p ?k" by (rule pd_merge_Inr(4) [OF s5])
  have c6: "columns m6 = columns m5" by (rule fillna0_col(2) [OF s6])
  have c7: "set (columns ?m7) = insert SAP_Kodu (set (columns m6))"
    by (auto simp: set_column_def)
  have c9: "columns m9 = columns m8" by (rule fillna0_col(2) [OF s9])
  have c10: "columns m10 = columns m9" by (rule fillna0_col(2) [OF s10])
  have n2: "x \<notin> set (columns m2)"
    if "x \<notin> set (columns malzeme)" "x \<notin> set (columns g)" "last (butlast x) \<noteq> 95" for x
    using that merge_columns_cases [of x malzeme g ?k] by (auto simp: c2 c1)
  have n4: "x \<notin> set (columns m4)"
    if "x \<notin> set (columns m2)" "x \<notin> set (columns b)" "last (butlast x) \<noteq> 95" for x
    using that merge_columns_cases [of x m2 b ?k] by (auto simp: c4 c3)
  have n6: "x \<notin> set (columns m6)"
    if "x \<notin> set (columns m4)" "x \<notin> set (columns p)" "last (butlast x) \<noteq> 95" for x
    using that merge_columns_cases [of x m4 p ?k] by (auto simp: c6 c5)
  have k2: "?k \<in> set (columns m2)" by (rule pd_merge_Inr(1) [OF s3])
  have k4: "?k \<in> set (columns m4)" by (rule pd_merge_Inr(1) [OF s5])
  have k6: "?k \<in> set (columns m6)"
    using left_column(3) [OF s5 k4, of ] by (simp add: c6)
  have k7: "?k \<in> set (columns ?m7)" using k6 by (simp add: c7)
  have p3: "x \<in> set (columns m4)" if "x \<in> set (columns m2)" "x \<notin> set (columns b)" for x
    using left_column(3) [OF s3 that(1)] that(2) by (simp add: c4)
  have p5: "x \<in> set (columns m6)" if "x \<in> set (columns m4)" "x \<notin> set (columns p)" for x
    using left_column(3) [OF s5 that(1)] that(2) by (simp add: c6)
  have tail: "Q (s ?k) (s x)"
    if x: "x \<in> set (columns m6)" "x \<notin> {SAP_Kodu, TOPTAN, PERAKENDE, LISTE}"
      and q: "\<And>l. l \<in> set (rows m6) \<Longrightarrow> Q (l ?k) (l x)" for x Q
  proof -
    have q7: "Q (l ?k) (l x)" if "l \<in> set (rows ?m7)" for l
      by (rule set_column_inv [OF _ _ q that]) (use x(2) in auto)
    have x7: "x \<in> set (columns ?m7)" using x(1) by (simp add: c7)
    have q8: "Q (l ?k) (l x)" if "l \<in> set (rows m8)" for l
      by (rule left_inv [OF s8 k7 _ x7 _ q7 that]) (use x(2) in \<open>simp_all add: cf\<close>)
    have q9: "Q (l ?k) (l x)" if "l \<in> set (rows m9)" for l
      by (rule fillna0_inv [OF s9 _ _ q8 that]) (use x(2) in auto)
    have q10: "Q (l ?k) (l x)" if "l \<in> set (rows m10)" for l
      by (rule fillna0_inv [OF s10 _ _ q9 that]) (use x(2) in auto)
    show ?thesis
      by (rule fillna0_inv [OF s11 _ _ q10 s]) (use x(2) in auto)
  qed
  {
    let ?x = Bekleyen_Adet
    let ?Q = "\<lambda>v w. v \<notin> set (sutun g ?k) \<longrightarrow> w = Num 0"
    assume h: "?x \<in> set (columns g)" "?x \<notin> set (columns malzeme)" "?x \<notin> set (columns b)"
      "?x \<notin> set (columns p)" and n: "s ?k \<notin> set (sutun g ?k)"
    have q2: "?Q (l ?k) (l ?x)" if "l \<in> set (rows m2)" for l
      using fillna0_zero [OF s2 that, of ?k "set (sutun g ?k)"] left_empty [OF s1 h(1,2)]
      by auto
    have x2: "?x \<in> set (columns m2)" using fillna0_col(1) [OF s2] by (simp add: c2)
    have q3: "?Q (l ?k) (l ?x)" if "l \<in> set (rows m3)" for l
      by (rule left_inv [OF s3 k2 _ x2 _ q2 that]) (use h in simp_all)
    have q4: "?Q (l ?k) (l ?x)" if "l \<in> set (rows m4)" for l
      by (rule fillna0_inv [OF s4 _ _ q3 that]) simp_all
    have x4: "?x \<in> set (columns m4)" by (rule p3 [OF x2 h(3)])
    have q5: "?Q (l ?k) (l ?x)" if "l \<in> set (rows m5)" for l
      by (rule left_inv [OF s5 k4 _ x4 _ q4 that]) (use h in simp_all)
    have q6: "?Q (l ?k) (l ?x)" if "l \<in> set (rows m6)" for l
      by (rule fillna0_inv [OF s6 _ _ q5 that]) simp_all
    have "?Q (s ?k) (s ?x)"
      by (rule tail [OF p5 [OF x4 h(4)] _ q6]) simp_all
    with n show "s ?x = Num 0" by simp
  }
  {
    let ?x = Toplam_Borc
    let ?Q = "\<lambda>v w. v \<notin> set (sutun b ?k) \<longrightarrow> w = Num 0"
    assume h: "?x \<in> set (columns b)" "?x \<notin> set (columns malzeme)" "?x \<notin> set (columns g)"
      "?x \<notin> set (columns p)" and n: "s ?k \<notin> set (sutun b ?k)"
    have y2: "?x \<notin> set (columns m2)" by (rule n2 [OF h(2,3)]) simp
    have q4: "?Q (l ?k) (l ?x)" if "l \<in> set (rows m4)" for l
      using fillna0_zero [OF s4 that, of ?k "set (sutun b ?k)"] left_empty [OF s3 h(1) y2]
      by auto
    have x4: "?x \<in> set (columns m4)" using fillna0_col(1) [OF s4] by (simp add: c4)
    have q5: "?Q (l ?k) (l ?x)" if "l \<in> set (rows m5)" for l
      by (rule left_inv [OF s5 k4 _ x4 _ q4 that]) (use h in simp_all)
    have q6: "?Q (l ?k) (l ?x)" if "l \<in> set (rows m6)" for l
      by (rule fillna0_inv [OF s6 _ _ q5 that]) simp_all
    have "?Q (s ?k) (s ?x)"
      by (rule tail [OF p5 [OF x4 h(4)] _ q6]) simp_all
    with n show "s ?x = Num 0" by simp
  }
  {
    let ?x = Adet
    let ?Q = "\<lambda>v w. v \<notin> set (sutun p ?k) \<longrightarrow> w = Num 0"
    assume h: "?x \<in> set (columns p)" "?x \<notin> set (columns malzeme)" "?x \<notin> set (columns g)"
      "?x \<notin> set (columns b)" and n: "s ?k \<notin> set (sutun p ?k)"
    have y2: "?x \<notin> set (columns m2)" by (rule n2 [OF h(2,3)]) simp
    have y4: "?x \<notin> set (columns m4)" by (rule n4 [OF y2 h(4)]) simp
    have q6: "?Q (l ?k) (l ?x)" if "l \<in> set (rows m6)" for l
      using fillna0_zero [OF s6 that, of ?k "set (sutun p ?k)"] left_empty [OF s5 h(1) y4]
      by auto
    have x6: "?x \<in> set (columns m6)" using fillna0_col(1) [OF s6] by (simp add: c6)
    have "?Q (s ?k) (s ?x)"
      by (rule tail [OF x6 _ q6]) simp_all
    with n show "s ?x = Num 0" by simp
  }
  {
    assume c: "c \<in> {TOPTAN, PERAKENDE, LISTE}" and h: "c \<notin> set (columns malzeme)"
      "c \<notin> set (columns g)" "c \<notin> set (columns b)" "c \<notin> set (columns p)"
      and n: "s SAP_Kodu \<notin> set (sutun liste SAP_Kodu)"
    have e: "last (butlast c) \<noteq> 95" "c \<noteq> SAP_Kodu" using c by auto
    have y2: "c \<notin> set (columns m2)" by (rule n2 [OF h(1,2) e(1)])
    have y4: "c \<notin> set (columns m4)" by (rule n4 [OF y2 h(3) e(1)])
    have y6: "c \<notin> set (columns m6)" by (rule n6 [OF y4 h(4) e(1)])
    have y7: "c \<notin> set (columns ?m7)" using y6 e(2) by (simp add: c7)
    have cfi: "c \<in> set (columns fiyat)" using c by (auto simp: cf)
    have sf: "sutun fiyat SAP_Kodu = sutun liste SAP_Kodu"
      by (rule select_columns_Inr(2) [OF s7]) simp
    let ?K = "set (sutun liste SAP_Kodu)"
    have q8: "l c = NaN" if "l \<in> set (rows m8)" "l SAP_Kodu \<notin> ?K" for l
      using left_empty [OF s8 cfi y7 that(1)] that(2) by (simp add: sf)
    have r9: "rows m9 = map (\<lambda>l. l(TOPTAN := if l TOPTAN = NaN then Num 0 else l TOPTAN)) (rows m8)"
      by (rule fillna0_rows [OF s9])
    have r10: "rows m10
        = map (\<lambda>l. l(PERAKENDE := if l PERAKENDE = NaN then Num 0 else l PERAKENDE)) (rows m9)"
      by (rule fillna0_rows [OF s10])
    have r11: "rows S = map (\<lambda>l. l(LISTE := if l LISTE = NaN then Num 0 else l LISTE)) (rows m10)"
      by (rule fillna0_rows [OF s11])
    from s obtain l where l: "l \<in> set (rows m8)"
      and sl: "s = l(TOPTAN := if l TOPTAN = NaN then Num 0 else l TOPTAN,
                     PERAKENDE := if l PERAKENDE = NaN then Num 0 else l PERAKENDE,
                     LISTE := if l LISTE = NaN then Num 0 else l LISTE)"
      unfolding r11 r10 r9 by auto
    have "l SAP_Kodu = s SAP_Kodu" by (simp add: sl)
    with n have "l c = NaN" using q8 [OF l] by simp
    then show "s c = Num 0" using c by (auto simp: sl)
  }
qed

lemma left_keys_list:
  assumes m: "pd_merge how_left L R key = Inr M"
  shows "sutun M key
     = concat (map (\<lambda>k. replicate (max 1 (length (filter (\<lambda>v. v = k) (sutun R key)))) k)
                 (sutun L key))"
proof -
  note f = pd_merge_Inr [OF m]
  have "length (eslesen R key l) = length (filter (\<lambda>v. v = l key) (sutun R key))" for l
    by (simp add: eslesen_def sutun_def filter_map o_def)
  then show ?thesis
    using sol_satirlar_keys [OF f(3) f(1)] by (simp add: sutun_def f(5) o_def)
qed

lemma stok_ok:
  assumes c: "columns malzeme = [Malzeme_Kodu, DEPO]" "columns g = [Malzeme_Kodu, Bekleyen_Adet]"
    "columns b = [Malzeme_Kodu, Toplam_Borc]" "columns p = [Malzeme_Kodu, Adet]"
    "columns liste = [SAP_Kodu, TOPTAN, PERAKENDE, LISTE]"
  shows "\<exists>S. stok_birlestir malzeme g b p liste = Inr S"
proof -
  note [simp] = sag_sutunlar_def c
  obtain m1 where m1: "pd_merge how_left malzeme g Malzeme_Kodu = Inr m1"
    "columns m1 = [Malzeme_Kodu, DEPO, Bekleyen_Adet]"
    using pd_merge_ok [of Malzeme_Kodu malzeme g how_left] by auto
  obtain m2 where m2: "fillna0 Bekleyen_Adet m1 = Inr m2"
    "columns m2 = [Malzeme_Kodu, DEPO, Bekleyen_Adet]"
    using fillna0_ok [of Bekleyen_Adet m1] m1(2) by auto
  obtain m3 where m3: "pd_merge how_left m2 b Malzeme_Kodu = Inr m3"
    "columns m3 = [Malzeme_Kodu, DEPO, Bekleyen_Adet, Toplam_Borc]"
    using pd_merge_ok [of Malzeme_Kodu m2 b how_left] m2(2) by auto
  obtain m4 where m4: "fillna0 Toplam_Borc m3 = Inr m4"
    "columns m4 = [Malzeme_Kodu, DEPO, Bekleyen_Adet, Toplam_Borc]"
    using fillna0_ok [of Toplam_Borc m3] m3(2) by auto
  obtain m5 where m5: "pd_merge how_left m4 p Malzeme_Kodu = Inr m5"
    "columns m5 = [Malzeme_Kodu, DEPO, Bekleyen_Adet, Toplam_Borc, Adet]"
    using pd_merge_ok [of Malzeme_Kodu m4 p how_left] m4(2) by auto
  obtain m6 where m6: "fillna0 Adet m5 = Inr m6"
    "columns m6 = [Malzeme_Kodu, DEPO, Bekleyen_Adet, Toplam_Borc, Adet]"
    using fillna0_ok [of Adet m5] m5(2) by auto
  let ?m7 = "set_column SAP_Kodu (\<lambda>r. Str (sap_kodu (astype_str (r Malzeme_Kodu)))) m6"
  have m7: "columns ?m7 = [Malzeme_Kodu, DEPO, Bekleyen_Adet, Toplam_Borc, Adet, SAP_Kodu]"
    by (auto simp: set_column_def m6(2))
  let ?cs = "[SAP_Kodu, TOPTAN, PERAKENDE, LISTE]"
  let ?f = "\<lparr>columns = ?cs, rows = map (reindex_row ?cs) (rows liste)\<rparr>"
  have f: "select_columns ?cs liste = Inr ?f"
    by (simp add: select_columns_def)
  obtain m8 where m8: "pd_merge how_left ?m7 ?f SAP_Kodu = Inr m8"
    "columns m8 = [Malzeme_Kodu, DEPO, Bekleyen_Adet, Toplam_Borc, Adet, SAP_Kodu, TOPTAN,
       PERAKENDE, LISTE]"
    using pd_merge_ok [of SAP_Kodu ?m7 ?f how_left] m7 by auto
  obtain m9 where m9: "fillna0 TOPTAN m8 = Inr m9" "columns m9 = columns m8"
    using fillna0_ok [of TOPTAN m8] m8(2) by auto
  obtain m10 where m10: "fillna0 PERAKENDE m9 = Inr m10" "columns m10 = columns m8"
    using fillna0_ok [of PERAKENDE m9] m9(2) m8(2) by auto
  obtain S where S: "fillna0 LISTE m10 = Inr S"
    using fillna0_ok [of LISTE m10] m10(2) m8(2) by auto
  have "stok_birlestir malzeme g b p liste = Inr S"
    unfolding stok_birlestir_def
    by (simp only: sonra_def sum.case m1(1) m2(1) m3(1) m4(1) m5(1) m6(1) f m8(1) m9(1) m10(1) S)
  then show ?thesis by blast
qed

lemma stok_keys_list:
  assumes "stok_birlestir malzeme g b p liste = Inr S"
    and d: "distinct (sutun g Malzeme_Kodu)" "distinct (sutun b Malzeme_Kodu)"
      "distinct (sutun liste SAP_Kodu)"
  shows "sutun S Malzeme_Kodu
     = concat (map (\<lambda>k. replicate (max 1 (length (filter (\<lambda>v. v = k) (sutun p Malzeme_Kodu)))) k)
                 (sutun malzeme Malzeme_Kodu))"
proof -
  let ?k = Malzeme_Kodu
  from assms obtain m1 m2 m3 m4 m5 m6 fiyat m8 m9 m10 where
    s1: "pd_merge how_left malzeme g ?k = Inr m1" and
    s2: "fillna0 Bekleyen_Adet m1 = Inr m2" and
    s3: "pd_merge how_left m2 b ?k = Inr m3" and
    s4: "fillna0 Toplam_Borc m3 = Inr m4" and
    s5: "pd_merge how_left m4 p ?k = Inr m5" and
    s6: "fillna0 Adet m5 = Inr m6" and
    s7: "select_columns [SAP_Kodu, TOPTAN, PERAKENDE, LISTE] liste = Inr fiyat" and
    s8: "pd_merge how_left (set_column SAP_Kodu (\<lambda>r. Str (sap_kodu (astype_str (r ?k)))) m6)
           fiyat SAP_Kodu = Inr m8" and
    s9: "fillna0 TOPTAN m8 = Inr m9" and
    s10: "fillna0 PERAKENDE m9 = Inr m10" and
    s11: "fillna0 LISTE m10 = Inr S"
    unfolding stok_birlestir_def sonra_Inr by auto
  let ?m7 = "set_column SAP_Kodu (\<lambda>r. Str (sap_kodu (astype_str (r ?k)))) m6"
  have k0: "?k \<in> set (columns malzeme)" by (rule pd_merge_Inr(1) [OF s1])
  have k2: "?k \<in> set (columns m2)" by (rule pd_merge_Inr(1) [OF s3])
  have k4: "?k \<in> set (columns m4)" by (rule pd_merge_Inr(1) [OF s5])
  have k5: "?k \<in> set (columns m5)"
    by (rule left_column(3) [OF s5 k4]) simp
  have k7: "?k \<in> set (columns ?m7)"
    using k5 fillna0_Inr(1) [OF s6] columns_set_column by fastforce
  have nf: "?k \<notin> set (columns fiyat)"
    by (simp add: select_columns_Inr(1) [OF s7])
  have e2: "sutun m2 ?k = sutun m1 ?k" by (rule fillna0_Inr(2) [OF s2]) simp
  have e4: "sutun m4 ?k = sutun m3 ?k" by (rule fillna0_Inr(2) [OF s4]) simp
  have e6: "sutun m6 ?k = sutun m5 ?k" by (rule fillna0_Inr(2) [OF s6]) simp
  have e7: "sutun ?m7 ?k = sutun m6 ?k" by (rule sutun_set_column) simp
  have e9: "sutun m9 ?k = sutun m8 ?k" by (rule fillna0_Inr(2) [OF s9]) simp
  have e10: "sutun m10 ?k = sutun m9 ?k" by (rule fillna0_Inr(2) [OF s10]) simp
  have e11: "sutun S ?k = sutun m10 ?k" by (rule fillna0_Inr(2) [OF s11]) simp
  have df: "distinct (sutun fiyat SAP_Kodu)"
    using d(3) select_columns_Inr(2) [OF s7, of SAP_Kodu] by simp
  have "sutun m1 ?k = sutun malzeme ?k"
    by (rule left_column(2) [OF s1 k0 _ d(1)]) simp
  moreover have "sutun m3 ?k = sutun m2 ?k"
    by (rule left_column(2) [OF s3 k2 _ d(2)]) simp
  moreover note left_keys_list [OF s5]
  moreover have "sutun m8 ?k = sutun ?m7 ?k"
    by (rule left_column(2) [OF s8 k7 _ df]) (simp add: nf)
  ultimately show ?thesis
    by (simp add: e2 e4 e6 e7 e9 e10 e11)
qed

lemma stok_ornek_cols [simp]:
  "columns malzeme_ornek = [Malzeme_Kodu, DEPO]" "columns grouped_ornek = [Malzeme_Kodu, Bekleyen_Adet]"
  "columns borc_ornek = [Malzeme_Kodu, Toplam_Borc]" "columns plan_ornek = [Malzeme_Kodu, Adet]"
  "columns plan_cift = [Malzeme_Kodu, Adet]"
  "columns liste_ornek = [SAP_Kodu, TOPTAN, PERAKENDE, LISTE]"
  by (simp_all add: malzeme_ornek_def grouped_ornek_def borc_ornek_def plan_ornek_def
      plan_cift_def liste_ornek_def)

lemma stok_cift:
  "hucreler Malzeme_Kodu
     (satirlar (stok_birlestir malzeme_ornek grouped_ornek borc_ornek plan_cift liste_ornek))
     = [Str (py ''M1''), Str (py ''M1''), Str (py ''M3'')]"
proof -
  obtain S where S: "stok_birlestir malzeme_ornek grouped_ornek borc_ornek plan_cift liste_ornek
      = Inr S"
    using stok_ok [of malzeme_ornek grouped_ornek borc_ornek plan_cift liste_ornek] by auto
  have "sutun S Malzeme_Kodu = [Str (py ''M1''), Str (py ''M1''), Str (py ''M3'')]"
    using stok_keys_list [OF S] by simp
  then show ?thesis
    by (simp add: S satirlar_def hucreler_def sutun_def)
qed

lemma stok_ornek_sonuc:
  "hucreler Malzeme_Kodu
     (satirlar (stok_birlestir malzeme_ornek grouped_ornek borc_ornek plan_ornek liste_ornek))
     = [Str (py ''M1''), Str (py ''M3'')]"
  "hucreler Toplam_Borc
     (satirlar (stok_birlestir malzeme_ornek grouped_ornek borc_ornek plan_ornek liste_ornek))
     = [Num 0, Num 0]"
  "hucreler LISTE
     (satirlar (stok_birlestir malzeme_ornek grouped_ornek borc_ornek plan_ornek liste_ornek))
     = [Num 0, Num 0]"
proof -
  obtain S where S: "stok_birlestir malzeme_ornek grouped_ornek borc_ornek plan_ornek liste_ornek
      = Inr S"
    using stok_ok [of malzeme_ornek grouped_ornek borc_ornek plan_ornek liste_ornek] by auto
  have k: "sutun S Malzeme_Kodu = [Str (py ''M1''), Str (py ''M3'')]"
    using stok_keys(2) [OF S] by simp
  then obtain s1 s2 where s: "rows S = [s1, s2]"
    by (auto simp: sutun_def)
  have 1: "s Toplam_Borc = Num 0" if "s \<in> set (rows S)" for s
    by (rule stok_sifir(2) [OF S that]) simp_all
  have 2: "s LISTE = Num 0" if "s \<in> set (rows S)" for s
    by (rule stok_sifir(4) [OF S that]) simp_all
  show "hucreler Malzeme_Kodu
     (satirlar (stok_birlestir malzeme_ornek grouped_ornek borc_ornek plan_ornek liste_ornek))
     = [Str (py ''M1''), Str (py ''M3'')]"
    using k by (simp add: S satirlar_def hucreler_def sutun_def)
  show "hucreler Toplam_Borc
     (satirlar (stok_birlestir malzeme_ornek grouped_ornek borc_ornek plan_ornek liste_ornek))
     = [Num 0, Num 0]"
    using 1 by (simp add: S satirlar_def hucreler_def s)
  show "hucreler LISTE
     (satirlar (stok_birlestir malzeme_ornek grouped_ornek borc_ornek plan_ornek liste_ornek))
     = [Num 0, Num 0]"
    using 2 by (simp add: S satirlar_def hucreler_def s)
qed

subsection \<open>The rows that \<open>merge_and_analyze_differences\<close> returns\<close>

lemma map_err_deger:
  assumes "map_err f xs = Inr vs"
  shows "vs = map (\<lambda>x. deger (f x)) xs" "\<And>x. x \<in> set xs \<Longrightarrow> \<exists>v. f x = Inr v"
  using assms
  by (induction xs arbitrary: vs) (auto simp: deger_def split: sum.splits)

lemma map2_same: "map2 f xs (map g xs) = map (\<lambda>x. f x (g x)) xs"
  by (induction xs) auto

lemma hesapla_Inr:
  assumes "hesapla c f df = Inr df'"
  shows "df' = set_column c (\<lambda>r. deger (f r)) df" "\<And>r. r \<in> set (rows df) \<Longrightarrow> \<exists>v. f r = Inr v"
proof -
  from assms obtain vs where vs: "map_err f (rows df) = Inr vs" and y: "sutun_yaz c vs df = Inr df'"
    by (auto simp: hesapla_def sonra_Inr)
  show "df' = set_column c (\<lambda>r. deger (f r)) df"
    using y unfolding map_err_deger(1) [OF vs]
    by (simp add: sutun_yaz_def set_column_def map2_same)
  show "\<And>r. r \<in> set (rows df) \<Longrightarrow> \<exists>v. f r = Inr v"
    by (rule map_err_deger(2) [OF vs])
qed

lemma sutun_yaz_Inr:
  assumes "sutun_yaz c vs df = Inr df'"
  shows "length vs = length (rows df)" "rows df' = map2 (\<lambda>r v. r(c := v)) (rows df) vs"
  using assms by (auto simp: sutun_yaz_def split: if_splits)

lemma map2_upd_map:
  assumes "length vs = length rs" "\<And>r v. g (r(c := v)) = g r"
  shows "map g (map2 (\<lambda>r v. r(c := v)) rs vs) = map g rs"
  using assms by (induction rs vs rule: list_induct2') auto

lemma irsaliye_columns:
  assumes "columns prosap = prosap_sutunlari" "columns mikro = mikro_sutunlari"
  shows "merge_columns prosap mikro Esle = prosap_sutunlari @ [SIRA_NO, TARIH, Vergili_TUTAR]"
    "distinct (merge_columns prosap mikro Esle)"
proof -
  have "set (columns prosap) \<inter> set (columns mikro) \<subseteq> {Esle}"
    by (auto simp: assms prosap_sutunlari_def mikro_sutunlari_def)
  from merge_columns_disjoint [OF this]
  show 1: "merge_columns prosap mikro Esle = prosap_sutunlari @ [SIRA_NO, TARIH, Vergili_TUTAR]"
    by (simp add: assms sag_sutunlar_def mikro_sutunlari_def)
  show "distinct (merge_columns prosap mikro Esle)"
    unfolding 1 by (simp add: prosap_sutunlari_def)
qed


lemma yeni_etiket_irsaliye:
  fixes M defines "M \<equiv> [(Tayin, Fatura_No), (Odeme_Kosulu_Tanimi, Odeme_Karti), (UPB_Tutari, Tutar),
                    (SIRA_NO, Irsaliye_No), (TARIH, Tarih)]"
  shows "map (yeni_etiket M) (prosap_sutunlari @ [SIRA_NO, TARIH, Vergili_TUTAR, Fark])
     = [Esle, Fatura_No, Odeme_Karti, Tutar, Kullanicinin_adi, Referans, Irsaliye_No, Tarih,
        Vergili_TUTAR, Fark]"
  by (simp add: M_def yeni_etiket_def prosap_sutunlari_def)

lemma rename_irsaliye:
  fixes M cs defines "M \<equiv> [(Tayin, Fatura_No), (Odeme_Kosulu_Tanimi, Odeme_Karti), (UPB_Tutari, Tutar),
                    (SIRA_NO, Irsaliye_No), (TARIH, Tarih)]"
  assumes c: "columns df = prosap_sutunlari @ [SIRA_NO, TARIH, Vergili_TUTAR, Fark]"
  shows "columns (rename_columns M df)
     = [Esle, Fatura_No, Odeme_Karti, Tutar, Kullanicinin_adi, Referans, Irsaliye_No, Tarih,
        Vergili_TUTAR, Fark]"
    and "\<exists>g. rows (rename_columns M df) = map g (rows df) \<and>
           (\<forall>r. g r Esle = r Esle \<and> g r Vergili_TUTAR = r Vergili_TUTAR \<and> g r Fark = r Fark \<and>
                g r Irsaliye_No = r SIRA_NO)"
proof -
  show "columns (rename_columns M df)
     = [Esle, Fatura_No, Odeme_Karti, Tutar, Kullanicinin_adi, Referans, Irsaliye_No, Tarih,
        Vergili_TUTAR, Fark]"
    using yeni_etiket_irsaliye by (simp add: rename_columns_def c M_def)
  let ?g = "\<lambda>r c. case filter (\<lambda>d. yeni_etiket M d = c) (columns df) of [] \<Rightarrow> NaN | d # ds \<Rightarrow> r d"
  have "rows (rename_columns M df) = map ?g (rows df)"
    by (simp add: rename_columns_def)
  moreover have "?g r Esle = r Esle" for r
    by (simp add: c M_def yeni_etiket_def prosap_sutunlari_def)
  moreover have "?g r Vergili_TUTAR = r Vergili_TUTAR" for r
    by (simp add: c M_def yeni_etiket_def prosap_sutunlari_def)
  moreover have "?g r Fark = r Fark" for r
    by (simp add: c M_def yeni_etiket_def prosap_sutunlari_def)
  moreover have "?g r Irsaliye_No = r SIRA_NO" for r
    by (simp add: c M_def yeni_etiket_def prosap_sutunlari_def)
  ultimately show "\<exists>g. rows (rename_columns M df) = map g (rows df) \<and>
           (\<forall>r. g r Esle = r Esle \<and> g r Vergili_TUTAR = r Vergili_TUTAR \<and> g r Fark = r Fark \<and>
                g r Irsaliye_No = r SIRA_NO)"
    by blast
qed


lemma merged_df_Inr:
  assumes cp: "columns prosap = prosap_sutunlari" and cm: "columns mikro = mikro_sutunlari"
    and r: "merged_df int_str prosap mikro = Inr mg"
  shows "columns mg = prosap_sutunlari @ [SIRA_NO, TARIH, Vergili_TUTAR, Fark]"
    and "rows mg = map (islenmis int_str)
                     (sol_satirlar prosap mikro Esle @ sag_satirlar prosap mikro Esle)"
proof -
  let ?R = "sol_satirlar prosap mikro Esle @ sag_satirlar prosap mikro Esle"
  let ?cs = "prosap_sutunlari @ [SIRA_NO, TARIH, Vergili_TUTAR]"
  from r obtain m1 m2 where
    s1: "pd_merge how_outer prosap mikro Esle = Inr m1" and
    s2: "(if Vergili_TUTAR \<in> set (columns m1)
            then hesapla Vergili_TUTAR (\<lambda>r. tamsayi int_str (r Vergili_TUTAR)) m1
            else Inl KeyError) = Inr m2" and
    s3: "(if UPB_Tutari \<in> set (columns m2)
            then hesapla Fark (\<lambda>r. fark (r UPB_Tutari) (r Vergili_TUTAR)) m2
            else Inl KeyError) = Inr mg"
    unfolding merged_df_def sonra_Inr by blast
  note f = pd_merge_Inr [OF s1]
  have c1: "columns m1 = ?cs"
    by (simp add: f(4) irsaliye_columns(1) [OF cp cm])
  have r1: "rows m1 = ?R"
    by (simp add: f(5))
  have m2: "m2 = set_column Vergili_TUTAR (\<lambda>r. deger (tamsayi int_str (r Vergili_TUTAR))) m1"
    using s2 hesapla_Inr(1) by (simp add: c1 split: if_splits)
  have c2: "columns m2 = ?cs"
    by (simp add: m2 set_column_def c1)
  have mg: "mg = set_column Fark (\<lambda>r. deger (fark (r UPB_Tutari) (r Vergili_TUTAR))) m2"
    using s3 hesapla_Inr(1) by (simp add: c2 prosap_sutunlari_def split: if_splits)
  show "columns mg = prosap_sutunlari @ [SIRA_NO, TARIH, Vergili_TUTAR, Fark]"
    by (simp add: mg set_column_def c2 prosap_sutunlari_def)
  show "rows mg = map (islenmis int_str) ?R"
    by (simp add: mg m2 set_column_def r1 islenmis_def Let_def)
qed

lemma irsaliye_rows:
  assumes cp: "columns prosap = prosap_sutunlari" and cm: "columns mikro = mikro_sutunlari"
    and r: "merge_and_analyze_differences int_str to_date prosap mikro = Inr out"
  shows "\<exists>vs H.
     rows out = map2 (\<lambda>r v. r(Tarih := v))
                  (map H (filter (\<lambda>t. en_az_7 (islenmis int_str t Fark))
                            (sol_satirlar prosap mikro Esle @ sag_satirlar prosap mikro Esle))) vs \<and>
     length vs = length (filter (\<lambda>t. en_az_7 (islenmis int_str t Fark))
                            (sol_satirlar prosap mikro Esle @ sag_satirlar prosap mikro Esle)) \<and>
     (\<forall>t. H t Esle = t Esle \<and> H t Vergili_TUTAR = islenmis int_str t Vergili_TUTAR \<and>
          H t Fark = islenmis int_str t Fark \<and>
          H t Irsaliye_No = Str (nokta_sifir_sil (astype_str (t SIRA_NO))))"
proof -
  let ?M = "[(Tayin, Fatura_No), (Odeme_Kosulu_Tanimi, Odeme_Karti), (UPB_Tutari, Tutar),
             (SIRA_NO, Irsaliye_No), (TARIH, Tarih)]"
  let ?ref = "\<lambda>r. r(Referans := Str (astype_str (r Referans)))"
  let ?irs = "\<lambda>r. r(Irsaliye_No := Str (nokta_sifir_sil (astype_str (r Irsaliye_No))))"
  let ?R = "sol_satirlar prosap mikro Esle @ sag_satirlar prosap mikro Esle"
  from r obtain mg where
    s3: "merged_df int_str prosap mikro = Inr mg" and
    s4: "(let significant_diff = select_rows (\<lambda>r. en_az_7 (r Fark)) mg;
         diff1 = (if Referans \<in> set (columns significant_diff)
                  then set_column Referans (\<lambda>r. Str (astype_str (r Referans))) significant_diff
                  else significant_diff);
         diff2 = rename_columns ?M diff1
     in
     sonra (if Irsaliye_No \<in> set (columns diff2)
            then (if count_list (columns diff2) Irsaliye_No = 1
                  then Inr (set_column Irsaliye_No
                              (\<lambda>r. Str (nokta_sifir_sil (astype_str (r Irsaliye_No)))) diff2)
                  else Inl AttributeError)
            else Inr diff2) (\<lambda>diff3.
     if Tarih \<in> set (columns diff3)
     then (if count_list (columns diff3) Tarih = 1
           then sonra (to_date (sutun diff3 Tarih)) (\<lambda>vs. sutun_yaz Tarih vs diff3)
           else Inl ValueError)
     else Inr diff3)) = Inr out"
    unfolding merge_and_analyze_differences_def sonra_Inr by blast
  note cg = merged_df_Inr(1) [OF cp cm s3]
  note rg = merged_df_Inr(2) [OF cp cm s3]
  define sd where "sd = select_rows (\<lambda>r. en_az_7 (r Fark)) mg"
  define d1 where "d1 = set_column Referans (\<lambda>r. Str (astype_str (r Referans))) sd"
  define d2 where "d2 = rename_columns ?M d1"
  define d3 where "d3 = set_column Irsaliye_No (\<lambda>r. Str (nokta_sifir_sil (astype_str (r Irsaliye_No)))) d2"
  have csd: "columns sd = prosap_sutunlari @ [SIRA_NO, TARIH, Vergili_TUTAR, Fark]"
    by (simp add: sd_def select_rows_def cg)
  have rsd: "rows sd = map (islenmis int_str) (filter (\<lambda>t. en_az_7 (islenmis int_str t Fark)) ?R)"
    by (simp add: sd_def select_rows_def rg filter_map o_def)
  have cd1: "columns d1 = prosap_sutunlari @ [SIRA_NO, TARIH, Vergili_TUTAR, Fark]"
    by (simp add: d1_def set_column_def csd prosap_sutunlari_def)
  have rd1: "rows d1 = map ?ref (rows sd)"
    by (simp add: d1_def set_column_def)
  note rn = rename_irsaliye [OF cd1]
  have cd2: "columns d2 = [Esle, Fatura_No, Odeme_Karti, Tutar, Kullanicinin_adi, Referans,
      Irsaliye_No, Tarih, Vergili_TUTAR, Fark]"
    unfolding d2_def by (rule rn(1))
  obtain g where g: "rows d2 = map g (rows d1)"
    "\<And>r. g r Esle = r Esle" "\<And>r. g r Vergili_TUTAR = r Vergili_TUTAR" "\<And>r. g r Fark = r Fark"
    "\<And>r. g r Irsaliye_No = r SIRA_NO"
    using rn(2) unfolding d2_def by blast
  have cd3: "columns d3 = columns d2"
    by (simp add: d3_def set_column_def cd2)
  have rd3: "rows d3 = map ?irs (rows d2)"
    by (simp add: d3_def set_column_def)
  have "sonra (Inr d3) (\<lambda>diff3.
     if Tarih \<in> set (columns diff3)
     then (if count_list (columns diff3) Tarih = 1
           then sonra (to_date (sutun diff3 Tarih)) (\<lambda>vs. sutun_yaz Tarih vs diff3)
           else Inl ValueError)
     else Inr diff3) = Inr out"
    using s4 unfolding Let_def sd_def [symmetric]
    by (simp add: csd prosap_sutunlari_def d1_def [symmetric] d2_def [symmetric] cd2
        d3_def [symmetric])
  then have "sonra (to_date (sutun d3 Tarih)) (\<lambda>vs. sutun_yaz Tarih vs d3) = Inr out"
    by (simp add: sonra_def cd3 cd2)
  then obtain vs where vs: "sutun_yaz Tarih vs d3 = Inr out"
    by (auto simp: sonra_Inr)
  let ?H = "\<lambda>t. ?irs (g (?ref (islenmis int_str t)))"
  have rows3: "rows d3 = map ?H (filter (\<lambda>t. en_az_7 (islenmis int_str t Fark)) ?R)"
    by (simp add: rd3 g(1) rd1 rsd o_def)
  have 1: "rows out = map2 (\<lambda>r v. r(Tarih := v))
                  (map ?H (filter (\<lambda>t. en_az_7 (islenmis int_str t Fark)) ?R)) vs"
    using sutun_yaz_Inr(2) [OF vs] by (simp only: rows3)
  have 2: "length vs = length (filter (\<lambda>t. en_az_7 (islenmis int_str t Fark)) ?R)"
    using sutun_yaz_Inr(1) [OF vs] by (simp only: rows3 length_map)
  have 3: "?H t Esle = t Esle \<and> ?H t Vergili_TUTAR = islenmis int_str t Vergili_TUTAR \<and>
          ?H t Fark = islenmis int_str t Fark \<and>
          ?H t Irsaliye_No = Str (nokta_sifir_sil (astype_str (t SIRA_NO)))" for t
    by (simp add: g(2-5) islenmis_def Let_def)
  from 1 2 3 show ?thesis by blast
qed

lemma sol_rows:
  assumes "s \<in> set (sol_satirlar L R key)"
  shows "\<exists>l\<in>set (rows L). \<exists>r. s = merge_row L R key l r \<and>
           (r = bos \<and> l key \<notin> set (sutun R key) \<or> r \<in> set (rows R) \<and> r key = l key)"
proof -
  from assms obtain l where l: "l \<in> set (rows L)"
    and sl: "s \<in> set (case eslesen R key l of [] \<Rightarrow> [merge_row L R key l bos]
                        | m # ms \<Rightarrow> map (merge_row L R key l) (m # ms))"
    by (auto simp: sol_satirlar_def)
  show ?thesis
  proof (cases "eslesen R key l")
    case Nil
    then have "l key \<notin> set (sutun R key)"
      by (auto simp: eslesen_def sutun_def filter_empty_conv)
    with sl Nil l show ?thesis by auto
  next
    case (Cons a as)
    with sl obtain r where "r \<in> set (eslesen R key l)" "s = merge_row L R key l r"
      by auto
    then show ?thesis using l by (auto simp: eslesen_def)
  qed
qed

lemma sag_rows:
  assumes "s \<in> set (sag_satirlar L R key)"
  shows "\<exists>r\<in>set (rows R). r key \<notin> set (sutun L key) \<and> s = merge_row L R key (bos(key := r key)) r"
  using assms by (auto simp: sag_satirlar_def not_in_def)

lemma sol_unmatched:
  assumes "l \<in> set (rows L)" "l key \<notin> set (sutun R key)"
  shows "merge_row L R key l bos \<in> set (sol_satirlar L R key)"
proof -
  have "eslesen R key l = []"
    using assms(2) by (auto simp: eslesen_def sutun_def filter_empty_conv) (metis imageI)
  then show ?thesis
    using assms(1) by (auto simp: sol_satirlar_def intro!: bexI [of _ l])
qed

lemma irsaliye_cells:
  assumes cp: "columns prosap = prosap_sutunlari" and cm: "columns mikro = mikro_sutunlari"
  shows "merge_row prosap mikro Esle l r Esle = l Esle"
    "merge_row prosap mikro Esle l r UPB_Tutari = l UPB_Tutari"
    "merge_row prosap mikro Esle l r Vergili_TUTAR = r Vergili_TUTAR"
    "merge_row prosap mikro Esle l r SIRA_NO = r SIRA_NO"
proof -
  note d = irsaliye_columns(2) [OF cp cm]
  show "merge_row prosap mikro Esle l r Esle = l Esle"
    by (rule merge_row_key [OF d]) (simp add: cp prosap_sutunlari_def)
  show "merge_row prosap mikro Esle l r UPB_Tutari = l UPB_Tutari"
    by (rule merge_row_left_only [OF d]) (simp_all add: cp cm prosap_sutunlari_def mikro_sutunlari_def)
  show "merge_row prosap mikro Esle l r Vergili_TUTAR = r Vergili_TUTAR"
    by (rule merge_row_right_only [OF d]) (simp_all add: cp cm prosap_sutunlari_def mikro_sutunlari_def)
  show "merge_row prosap mikro Esle l r SIRA_NO = r SIRA_NO"
    by (rule merge_row_right_only [OF d]) (simp_all add: cp cm prosap_sutunlari_def mikro_sutunlari_def)
qed

lemma tamsayi_cases:
  "(\<exists>i. deger (tamsayi int_str v) = Num i) \<or> deger (tamsayi int_str v) = NaN"
  by (cases v; cases "int_str (the_Str v)") (simp_all add: tamsayi_def deger_def)

lemma fark_NaN [simp]: "deger (fark NaN (deger (tamsayi int_str v))) = NaN"
  using tamsayi_cases [of int_str v] by (auto simp: deger_def)

lemma islenmis_cells:
  assumes cp: "columns prosap = prosap_sutunlari" and cm: "columns mikro = mikro_sutunlari"
  shows "islenmis int_str (merge_row prosap mikro Esle l r) Vergili_TUTAR
           = deger (tamsayi int_str (r Vergili_TUTAR))"
    "islenmis int_str (merge_row prosap mikro Esle l r) Fark
           = deger (fark (l UPB_Tutari) (deger (tamsayi int_str (r Vergili_TUTAR))))"
  by (simp_all add: islenmis_def Let_def irsaliye_cells [OF cp cm])

lemma in_map2:
  assumes "s \<in> set (map2 f xs ys)"
  shows "\<exists>x\<in>set xs. \<exists>y. s = f x y"
  using assms by (auto dest: set_zip_leftD)

lemma map2_in:
  assumes "length ys = length xs" "x \<in> set xs"
  shows "\<exists>y. f x y \<in> set (map2 f xs ys)"
proof -
  from assms(2) obtain i where i: "i < length xs" "xs ! i = x"
    by (auto simp: in_set_conv_nth)
  then have "(x, ys ! i) \<in> set (zip xs ys)"
    using assms(1) by (auto simp: set_zip)
  then have "f x (ys ! i) \<in> set (map2 f xs ys)"
    by force
  then show ?thesis by blast
qed

lemma irsaliye_sonuc:
  assumes cp: "columns prosap = prosap_sutunlari" and cm: "columns mikro = mikro_sutunlari"
    and r: "merge_and_analyze_differences int_str to_date prosap mikro = Inr out"
  shows "set (sutun out Esle) \<subseteq> set (sutun prosap Esle)"
    and "\<And>s. s \<in> set (rows out) \<Longrightarrow> \<exists>f. s Fark = Num f \<and> 7 \<le> f"
    and "\<And>s. s \<in> set (rows out) \<Longrightarrow> s Esle \<notin> set (sutun mikro Esle) \<Longrightarrow>
           s Vergili_TUTAR = Num 0"
    and "\<And>l u. l \<in> set (rows prosap) \<Longrightarrow> l Esle \<notin> set (sutun mikro Esle) \<Longrightarrow>
           l UPB_Tutari = Num u \<Longrightarrow> 7 \<le> \<bar>u\<bar> \<Longrightarrow>
           \<exists>s\<in>set (rows out). s Esle = l Esle \<and> s Vergili_TUTAR = Num 0 \<and> s Fark = Num \<bar>u\<bar> \<and>
              s Irsaliye_No = Str (py ''nan'')"
proof -
  let ?R = "sol_satirlar prosap mikro Esle @ sag_satirlar prosap mikro Esle"
  let ?F = "filter (\<lambda>t. en_az_7 (islenmis int_str t Fark)) ?R"
  note ic = irsaliye_cells [OF cp cm]
  note isl = islenmis_cells [OF cp cm]
  obtain vs H where o: "rows out = map2 (\<lambda>r v. r(Tarih := v)) (map H ?F) vs"
    "length vs = length ?F"
    and H: "\<And>t. H t Esle = t Esle" "\<And>t. H t Vergili_TUTAR = islenmis int_str t Vergili_TUTAR"
      "\<And>t. H t Fark = islenmis int_str t Fark"
      "\<And>t. H t Irsaliye_No = Str (nokta_sifir_sil (astype_str (t SIRA_NO)))"
    using irsaliye_rows [OF cp cm r] by blast
  have geri: "\<exists>t\<in>set ?F. s Esle = t Esle \<and> s Vergili_TUTAR = islenmis int_str t Vergili_TUTAR \<and>
      s Fark = islenmis int_str t Fark" if "s \<in> set (rows out)" for s
  proof -
    from that obtain x v where "x \<in> set (map H ?F)" "s = x(Tarih := v)"
      unfolding o(1) using in_map2 [of s "\<lambda>r v. r(Tarih := v)" "map H ?F" vs] by blast
    then obtain t where "t \<in> set ?F" "s = (H t)(Tarih := v)" by auto
    then show ?thesis using H by (auto intro!: bexI [of _ t])
  qed
  have sag: "\<not> en_az_7 (islenmis int_str t Fark)" if "t \<in> set (sag_satirlar prosap mikro Esle)" for t
  proof -
    from sag_rows [OF that] obtain r where "t = merge_row prosap mikro Esle (bos(Esle := r Esle)) r"
      by blast
    then show ?thesis by (simp add: isl bos_def)
  qed
  have sol: "\<exists>l\<in>set (rows prosap). \<exists>r. t = merge_row prosap mikro Esle l r \<and>
           (r = bos \<and> l Esle \<notin> set (sutun mikro Esle) \<or> r \<in> set (rows mikro) \<and> r Esle = l Esle)"
    if "t \<in> set ?F" for t
    using that sag sol_rows [of t prosap mikro Esle] by auto
  show "set (sutun out Esle) \<subseteq> set (sutun prosap Esle)"
  proof
    fix k assume "k \<in> set (sutun out Esle)"
    then obtain s where s: "s \<in> set (rows out)" "k = s Esle" by (auto simp: sutun_def)
    from geri [OF s(1)] obtain t where t: "t \<in> set ?F" "s Esle = t Esle" by blast
    from sol [OF t(1)] obtain l r0 where "l \<in> set (rows prosap)" "t = merge_row prosap mikro Esle l r0"
      by blast
    then show "k \<in> set (sutun prosap Esle)"
      using s(2) t(2) by (simp add: ic sutun_def)
  qed
  show "\<exists>f. s Fark = Num f \<and> 7 \<le> f" if "s \<in> set (rows out)" for s
  proof -
    from geri [OF that] obtain t where t: "t \<in> set ?F" "s Fark = islenmis int_str t Fark" by blast
    then have "en_az_7 (s Fark)" by auto
    then show ?thesis by (cases "s Fark") simp_all
  qed
  show "s Vergili_TUTAR = Num 0"
    if s: "s \<in> set (rows out)" and n: "s Esle \<notin> set (sutun mikro Esle)" for s
  proof -
    from geri [OF s] obtain t where t: "t \<in> set ?F" "s Esle = t Esle"
      "s Vergili_TUTAR = islenmis int_str t Vergili_TUTAR" by blast
    from sol [OF t(1)] obtain l r0 where l: "l \<in> set (rows prosap)"
      "t = merge_row prosap mikro Esle l r0"
      "r0 = bos \<and> l Esle \<notin> set (sutun mikro Esle) \<or> r0 \<in> set (rows mikro) \<and> r0 Esle = l Esle"
      by blast
    have e: "l Esle = s Esle" using t(2) l(2) by (simp add: ic)
    have "r0 = bos"
    proof (rule ccontr)
      assume "r0 \<noteq> bos"
      with l(3) have "r0 \<in> set (rows mikro)" "r0 Esle = s Esle" using e by auto
      then have "s Esle \<in> set (sutun mikro Esle)"
        unfolding sutun_def by (metis imageI set_map)
      with n show False by simp
    qed
    then show ?thesis
      using t(3) l(2) by (simp add: isl bos_def tamsayi_def deger_def)
  qed
  show "\<exists>s\<in>set (rows out). s Esle = l Esle \<and> s Vergili_TUTAR = Num 0 \<and> s Fark = Num \<bar>u\<bar> \<and>
              s Irsaliye_No = Str (py ''nan'')"
    if l: "l \<in> set (rows prosap)" and n: "l Esle \<notin> set (sutun mikro Esle)"
      and u: "l UPB_Tutari = Num u" "7 \<le> \<bar>u\<bar>" for l u
  proof -
    let ?t = "merge_row prosap mikro Esle l bos"
    have v: "islenmis int_str ?t Vergili_TUTAR = Num 0"
      by (simp add: isl bos_def tamsayi_def deger_def)
    have f: "islenmis int_str ?t Fark = Num \<bar>u\<bar>"
      by (simp add: isl bos_def tamsayi_def deger_def u(1))
    have "?t \<in> set ?F"
      using sol_unmatched [OF l n] f u(2) by simp
    then have "H ?t \<in> set (map H ?F)"
      unfolding set_map by (rule imageI)
    moreover have "length vs = length (map H ?F)"
      using o(2) by (simp only: length_map)
    ultimately obtain y where
      "(H ?t)(Tarih := y) \<in> set (map2 (\<lambda>r v. r(Tarih := v)) (map H ?F) vs)"
      using map2_in [of vs "map H ?F" "H ?t" "\<lambda>r v. r(Tarih := v)"] by blast
    then have "(H ?t)(Tarih := y) \<in> set (rows out)"
      by (simp only: o(1))
    moreover have "nokta_sifir_sil (py ''nan'') = py ''nan''"
      by (simp add: nokta_sifir_sil_def py_def)
    ultimately show ?thesis
      using H v f by (intro bexI [of _ "(H ?t)(Tarih := y)"])
        (simp_all add: ic bos_def astype_str_def)
  qed
qed

lemma irsaliye_sutun:
  assumes cp: "columns prosap = prosap_sutunlari" and cm: "columns mikro = mikro_sutunlari"
    and r: "merge_and_analyze_differences int_str to_date prosap mikro = Inr out"
  shows "sutun out Esle
     = map (\<lambda>t. t Esle) (filter (\<lambda>t. en_az_7 (islenmis int_str t Fark))
         (sol_satirlar prosap mikro Esle @ sag_satirlar prosap mikro Esle))"
    and "sutun out Vergili_TUTAR
     = map (\<lambda>t. islenmis int_str t Vergili_TUTAR) (filter (\<lambda>t. en_az_7 (islenmis int_str t Fark))
         (sol_satirlar prosap mikro Esle @ sag_satirlar prosap mikro Esle))"
    and "sutun out Fark
     = map (\<lambda>t. islenmis int_str t Fark) (filter (\<lambda>t. en_az_7 (islenmis int_str t Fark))
         (sol_satirlar prosap mikro Esle @ sag_satirlar prosap mikro Esle))"
    and "sutun out Irsaliye_No
     = map (\<lambda>t. Str (nokta_sifir_sil (astype_str (t SIRA_NO))))
         (filter (\<lambda>t. en_az_7 (islenmis int_str t Fark))
         (sol_satirlar prosap mikro Esle @ sag_satirlar prosap mikro Esle))"
proof -
  let ?R = "sol_satirlar prosap mikro Esle @ sag_satirlar prosap mikro Esle"
  let ?F = "filter (\<lambda>t. en_az_7 (islenmis int_str t Fark)) ?R"
  obtain vs H where o: "rows out = map2 (\<lambda>r v. r(Tarih := v)) (map H ?F) vs"
    "length vs = length ?F"
    and H: "\<And>t. H t Esle = t Esle" "\<And>t. H t Vergili_TUTAR = islenmis int_str t Vergili_TUTAR"
      "\<And>t. H t Fark = islenmis int_str t Fark"
      "\<And>t. H t Irsaliye_No = Str (nokta_sifir_sil (astype_str (t SIRA_NO)))"
    using irsaliye_rows [OF cp cm r] by blast
  have len: "length vs = length (map H ?F)"
    using o(2) by (simp only: length_map)
  have c: "sutun out c = map (\<lambda>t. H t c) ?F" if "c \<noteq> Tarih" for c
  proof -
    have "sutun out c = map (\<lambda>s. s c) (map2 (\<lambda>r v. r(Tarih := v)) (map H ?F) vs)"
      by (simp only: sutun_def o(1))
    also have "\<dots> = map (\<lambda>s. s c) (map H ?F)"
      by (rule map2_upd_map [OF len]) (use that in simp)
    finally show ?thesis by (simp add: o_def)
  qed
  show "sutun out Esle = map (\<lambda>t. t Esle) ?F"
    using c [of Esle] by (simp add: H)
  show "sutun out Vergili_TUTAR = map (\<lambda>t. islenmis int_str t Vergili_TUTAR) ?F"
    using c [of Vergili_TUTAR] by (simp add: H)
  show "sutun out Fark = map (\<lambda>t. islenmis int_str t Fark) ?F"
    using c [of Fark] by (simp add: H)
  show "sutun out Irsaliye_No = map (\<lambda>t. Str (nokta_sifir_sil (astype_str (t SIRA_NO)))) ?F"
    using c [of Irsaliye_No] by (simp add: H)
qed

lemma map_err_ok:
  assumes "\<And>x. x \<in> set xs \<Longrightarrow> \<exists>v. f x = Inr v"
  shows "map_err f xs = Inr (map (\<lambda>x. deger (f x)) xs)"
  using assms
proof (induction xs)
  case (Cons a xs)
  from Cons.prems [of a] obtain v where "f a = Inr v" by auto
  moreover have "map_err f xs = Inr (map (\<lambda>x. deger (f x)) xs)"
    using Cons by simp
  ultimately show ?case by (simp add: deger_def)
qed simp

lemma hesapla_ok:
  assumes "\<And>r. r \<in> set (rows df) \<Longrightarrow> \<exists>v. f r = Inr v"
  shows "hesapla c f df = Inr (set_column c (\<lambda>r. deger (f r)) df)"
  by (simp add: hesapla_def map_err_ok [OF assms] sonra_def sutun_yaz_def set_column_def
      map2_same)

lemma tamsayi_ok: "\<not> is_Str v \<Longrightarrow> \<exists>i. tamsayi int_str v = Inr (Num i)"
  by (cases v) (simp_all add: tamsayi_def)

lemma fark_ok: "\<not> is_Str a \<Longrightarrow> \<exists>v. fark a (Num i) = Inr v"
  by (cases a) simp_all

lemma irsaliye_ok:
  assumes cp: "columns prosap = prosap_sutunlari" and cm: "columns mikro = mikro_sutunlari"
    and nv: "\<And>r. r \<in> set (rows mikro) \<Longrightarrow> \<not> is_Str (r Vergili_TUTAR)"
    and nu: "\<And>l. l \<in> set (rows prosap) \<Longrightarrow> \<not> is_Str (l UPB_Tutari)"
    and td: "\<And>vs. \<exists>ws. to_date vs = Inr ws \<and> length ws = length vs"
  shows "\<exists>out. merge_and_analyze_differences int_str to_date prosap mikro = Inr out"
proof -
  let ?M = "[(Tayin, Fatura_No), (Odeme_Kosulu_Tanimi, Odeme_Karti), (UPB_Tutari, Tutar),
             (SIRA_NO, Irsaliye_No), (TARIH, Tarih)]"
  let ?R = "sol_satirlar prosap mikro Esle @ sag_satirlar prosap mikro Esle"
  let ?cs = "prosap_sutunlari @ [SIRA_NO, TARIH, Vergili_TUTAR]"
  note ic = irsaliye_cells [OF cp cm]
  define m1 where "m1 = \<lparr>columns = ?cs, rows = ?R\<rparr>"
  have s1: "pd_merge how_outer prosap mikro Esle = Inr m1"
    using irsaliye_columns [OF cp cm]
    by (simp add: pd_merge_def not_in_def cp cm prosap_sutunlari_def mikro_sutunlari_def m1_def)
  have c1: "columns m1 = ?cs"
    by (simp add: m1_def)
  have cell: "\<not> is_Str (t Vergili_TUTAR) \<and> \<not> is_Str (t UPB_Tutari)" if "t \<in> set ?R" for t
  proof (cases "t \<in> set (sol_satirlar prosap mikro Esle)")
    case True
    from sol_rows [OF True] obtain l r0 where "l \<in> set (rows prosap)"
      "t = merge_row prosap mikro Esle l r0" "r0 = bos \<or> r0 \<in> set (rows mikro)"
      by blast
    then show ?thesis using nv nu by (auto simp: ic bos_def)
  next
    case False
    with that have "t \<in> set (sag_satirlar prosap mikro Esle)" by simp
    from sag_rows [OF this] obtain r0 where "r0 \<in> set (rows mikro)"
      "t = merge_row prosap mikro Esle (bos(Esle := r0 Esle)) r0"
      by blast
    then show ?thesis using nv by (auto simp: ic bos_def)
  qed
  define m2 where "m2 = set_column Vergili_TUTAR (\<lambda>r. deger (tamsayi int_str (r Vergili_TUTAR))) m1"
  have s2: "hesapla Vergili_TUTAR (\<lambda>r. tamsayi int_str (r Vergili_TUTAR)) m1 = Inr m2"
    unfolding m2_def
    by (rule hesapla_ok) (use cell tamsayi_ok in \<open>fastforce simp: m1_def\<close>)
  have c2: "columns m2 = ?cs"
    by (simp add: m2_def set_column_def m1_def)
  have r2: "rows m2 = map (\<lambda>t. t(Vergili_TUTAR := deger (tamsayi int_str (t Vergili_TUTAR)))) ?R"
    by (simp add: m2_def set_column_def m1_def)
  define mg where "mg = set_column Fark (\<lambda>r. deger (fark (r UPB_Tutari) (r Vergili_TUTAR))) m2"
  have s3: "hesapla Fark (\<lambda>r. fark (r UPB_Tutari) (r Vergili_TUTAR)) m2 = Inr mg"
    unfolding mg_def
  proof (rule hesapla_ok)
    fix u assume "u \<in> set (rows m2)"
    then obtain t where t: "t \<in> set ?R"
      "u = t(Vergili_TUTAR := deger (tamsayi int_str (t Vergili_TUTAR)))"
      unfolding r2 by auto
    from tamsayi_ok [of "t Vergili_TUTAR" int_str] cell [OF t(1)]
    obtain i where "tamsayi int_str (t Vergili_TUTAR) = Inr (Num i)" by blast
    then have "u Vergili_TUTAR = Num i" "u UPB_Tutari = t UPB_Tutari"
      by (simp_all add: t(2) deger_def)
    then show "\<exists>v. fark (u UPB_Tutari) (u Vergili_TUTAR) = Inr v"
      using fark_ok cell [OF t(1)] by simp
  qed
  have cg: "columns mg = prosap_sutunlari @ [SIRA_NO, TARIH, Vergili_TUTAR, Fark]"
    by (simp add: mg_def set_column_def c2 prosap_sutunlari_def)
  define sd where "sd = select_rows (\<lambda>r. en_az_7 (r Fark)) mg"
  define d1 where "d1 = set_column Referans (\<lambda>r. Str (astype_str (r Referans))) sd"
  define d2 where "d2 = rename_columns ?M d1"
  define d3 where "d3 = set_column Irsaliye_No (\<lambda>r. Str (nokta_sifir_sil (astype_str (r Irsaliye_No)))) d2"
  have csd: "columns sd = prosap_sutunlari @ [SIRA_NO, TARIH, Vergili_TUTAR, Fark]"
    by (simp add: sd_def select_rows_def cg)
  have cd1: "columns d1 = prosap_sutunlari @ [SIRA_NO, TARIH, Vergili_TUTAR, Fark]"
    by (simp add: d1_def set_column_def csd prosap_sutunlari_def)
  have cd2: "columns d2 = [Esle, Fatura_No, Odeme_Karti, Tutar, Kullanicinin_adi, Referans,
      Irsaliye_No, Tarih, Vergili_TUTAR, Fark]"
    unfolding d2_def by (rule rename_irsaliye(1) [OF cd1])
  have cd3: "columns d3 = columns d2"
    by (simp add: d3_def set_column_def cd2)
  obtain ws where ws: "to_date (sutun d3 Tarih) = Inr ws" "length ws = length (sutun d3 Tarih)"
    using td by blast
  define out where "out = \<lparr>columns = columns d3, rows = map2 (\<lambda>r v. r(Tarih := v)) (rows d3) ws\<rparr>"
  have s5: "sutun_yaz Tarih ws d3 = Inr out"
    using ws(2) by (simp add: sutun_yaz_def out_def cd3 cd2 sutun_def)
  have "merge_and_analyze_differences int_str to_date prosap mikro = Inr out"
    unfolding merge_and_analyze_differences_def merged_df_def Let_def
    by (simp add: s1 sonra_def c1 s2 c2 s3 sd_def [symmetric] csd
        prosap_sutunlari_def d1_def [symmetric] d2_def [symmetric] cd2 d3_def [symmetric] cd3
        ws(1) s5)
  then show ?thesis by blast
qed

lemma E_neq [simp]:
  "py ''E1'' \<noteq> py ''E2''" "py ''E1'' \<noteq> py ''E3''" "py ''E1'' \<noteq> py ''E4''"
  "py ''E2'' \<noteq> py ''E1''" "py ''E2'' \<noteq> py ''E3''" "py ''E2'' \<noteq> py ''E4''"
  "py ''E3'' \<noteq> py ''E1''" "py ''E3'' \<noteq> py ''E2''" "py ''E3'' \<noteq> py ''E4''"
  "py ''E4'' \<noteq> py ''E1''" "py ''E4'' \<noteq> py ''E2''" "py ''E4'' \<noteq> py ''E3''"
  by (simp_all add: py_def)

lemma irsaliye_ornek_simps [simp]:
  "columns prosap_ornek = prosap_sutunlari" "columns prosap_cift = prosap_sutunlari"
  "columns mikro_ornek = mikro_sutunlari"
  "rows prosap_ornek = [fatura_esit, fatura_yalniz, fatura_kucuk]"
  "rows prosap_cift = [fatura_yalniz, fatura_ikinci]"
  "rows mikro_ornek = [irsaliye_esit, irsaliye_yalniz]"
  by (simp_all add: prosap_ornek_def prosap_cift_def mikro_ornek_def)

lemma fatura_simps [simp]:
  "fatura_esit Esle = Str (py ''E1'')" "fatura_esit UPB_Tutari = Num 100"
  "fatura_yalniz Esle = Str (py ''E2'')" "fatura_yalniz UPB_Tutari = Num 50"
  "fatura_kucuk Esle = Str (py ''E3'')" "fatura_kucuk UPB_Tutari = Num 5"
  "fatura_ikinci Esle = Str (py ''E2'')" "fatura_ikinci UPB_Tutari = Num 60"
  "irsaliye_esit Esle = Str (py ''E1'')" "irsaliye_esit Vergili_TUTAR = Num 100"
  "irsaliye_yalniz Esle = Str (py ''E4'')" "irsaliye_yalniz Vergili_TUTAR = Num 30"
  by (simp_all add: fatura_esit_def fatura_yalniz_def fatura_kucuk_def fatura_ikinci_def
      irsaliye_esit_def irsaliye_yalniz_def satir_Cons)

lemma irsaliye_ornek_satirlar:
  "sol_satirlar prosap_ornek mikro_ornek Esle
     = [merge_row prosap_ornek mikro_ornek Esle fatura_esit irsaliye_esit,
        merge_row prosap_ornek mikro_ornek Esle fatura_yalniz bos,
        merge_row prosap_ornek mikro_ornek Esle fatura_kucuk bos]"
  "sag_satirlar prosap_ornek mikro_ornek Esle
     = [merge_row prosap_ornek mikro_ornek Esle (bos(Esle := Str (py ''E4''))) irsaliye_yalniz]"
  "sol_satirlar prosap_cift mikro_ornek Esle
     = [merge_row prosap_cift mikro_ornek Esle fatura_yalniz bos,
        merge_row prosap_cift mikro_ornek Esle fatura_ikinci bos]"
  "sag_satirlar prosap_cift mikro_ornek Esle
     = [merge_row prosap_cift mikro_ornek Esle (bos(Esle := Str (py ''E1''))) irsaliye_esit,
        merge_row prosap_cift mikro_ornek Esle (bos(Esle := Str (py ''E4''))) irsaliye_yalniz]"
  by (simp_all add: sol_satirlar_def sag_satirlar_def eslesen_def not_in_def sutun_def)

lemma tamsayi_simps [simp]:
  "deger (tamsayi int_str NaN) = Num 0" "deger (tamsayi int_str (Num i)) = Num i"
  by (simp_all add: tamsayi_def deger_def)

lemma deger_Inr [simp]: "deger (Inr v) = v"
  by (simp add: deger_def)

lemma nan_sil [simp]: "nokta_sifir_sil (py ''nan'') = py ''nan''"
  by (simp add: nokta_sifir_sil_def py_def)

lemma ornek_ok:
  "\<exists>out. merge_and_analyze_differences int_yok tarih_ayni prosap_ornek mikro_ornek = Inr out"
  "\<exists>out. merge_and_analyze_differences int_yok tarih_ayni prosap_cift mikro_ornek = Inr out"
  by (rule irsaliye_ok; auto simp: tarih_ayni_def)+

lemma irsaliye_ornek_sonuc:
  "hucreler Esle (satirlar (merge_and_analyze_differences int_yok tarih_ayni prosap_ornek mikro_ornek))
     = [Str (py ''E2'')]"
  "hucreler Vergili_TUTAR
     (satirlar (merge_and_analyze_differences int_yok tarih_ayni prosap_ornek mikro_ornek))
     = [Num 0]"
  "hucreler Fark (satirlar (merge_and_analyze_differences int_yok tarih_ayni prosap_ornek mikro_ornek))
     = [Num 50]"
  "hucreler Irsaliye_No
     (satirlar (merge_and_analyze_differences int_yok tarih_ayni prosap_ornek mikro_ornek))
     = [Str (py ''nan'')]"
proof -
  obtain out where out:
    "merge_and_analyze_differences int_yok tarih_ayni prosap_ornek mikro_ornek = Inr out"
    using ornek_ok(1) by blast
  have c: "columns prosap_ornek = prosap_sutunlari" "columns mikro_ornek = mikro_sutunlari"
    by simp_all
  note isl = islenmis_cells [OF c]
  note ic = irsaliye_cells [OF c]
  note su = irsaliye_sutun [OF c out]
  have h: "hucreler x (satirlar (merge_and_analyze_differences int_yok tarih_ayni prosap_ornek
      mikro_ornek)) = sutun out x" for x
    by (simp add: out satirlar_def hucreler_def sutun_def)
  show "hucreler Esle (satirlar (merge_and_analyze_differences int_yok tarih_ayni prosap_ornek mikro_ornek))
     = [Str (py ''E2'')]"
    unfolding h su(1) by (simp add: irsaliye_ornek_satirlar isl ic bos_def)
  show "hucreler Vergili_TUTAR
     (satirlar (merge_and_analyze_differences int_yok tarih_ayni prosap_ornek mikro_ornek))
     = [Num 0]"
    unfolding h su(2) by (simp add: irsaliye_ornek_satirlar isl ic bos_def)
  show "hucreler Fark (satirlar (merge_and_analyze_differences int_yok tarih_ayni prosap_ornek mikro_ornek))
     = [Num 50]"
    unfolding h su(3) by (simp add: irsaliye_ornek_satirlar isl ic bos_def)
  show "hucreler Irsaliye_No
     (satirlar (merge_and_analyze_differences int_yok tarih_ayni prosap_ornek mikro_ornek))
     = [Str (py ''nan'')]"
    unfolding h su(4) by (simp add: irsaliye_ornek_satirlar isl ic bos_def astype_str_def)
qed

lemma irsaliye_cift_sonuc:
  "hucreler Esle (satirlar (merge_and_analyze_differences int_yok tarih_ayni prosap_cift mikro_ornek))
     = [Str (py ''E2''), Str (py ''E2'')]"
proof -
  obtain out where out:
    "merge_and_analyze_differences int_yok tarih_ayni prosap_cift mikro_ornek = Inr out"
    using ornek_ok(2) by blast
  have c: "columns prosap_cift = prosap_sutunlari" "columns mikro_ornek = mikro_sutunlari"
    by simp_all
  note isl = islenmis_cells [OF c]
  note ic = irsaliye_cells [OF c]
  have "sutun out Esle = [Str (py ''E2''), Str (py ''E2'')]"
    unfolding irsaliye_sutun(1) [OF c out]
    by (simp add: irsaliye_ornek_satirlar isl ic bos_def)
  then show ?thesis
    by (simp add: out satirlar_def hucreler_def sutun_def)
qed

lemma irsaliye_cells_all:
  assumes cp: "columns prosap = prosap_sutunlari" and cm: "columns mikro = mikro_sutunlari"
  shows "c \<in> set prosap_sutunlari \<Longrightarrow> merge_row prosap mikro Esle l r c = l c"
    and "c \<in> {SIRA_NO, TARIH, Vergili_TUTAR} \<Longrightarrow> merge_row prosap mikro Esle l r c = r c"
proof -
  note d = irsaliye_columns(2) [OF cp cm]
  show "merge_row prosap mikro Esle l r c = l c" if c: "c \<in> set prosap_sutunlari"
  proof (cases "c = Esle")
    case True
    then show ?thesis using irsaliye_cells(1) [OF cp cm] by simp
  next
    case False
    show ?thesis
      by (rule merge_row_left_only [OF d])
        (use c False in \<open>auto simp: cp cm prosap_sutunlari_def mikro_sutunlari_def\<close>)
  qed
  show "merge_row prosap mikro Esle l r c = r c" if c: "c \<in> {SIRA_NO, TARIH, Vergili_TUTAR}"
    by (rule merge_row_right_only [OF d])
      (use c in \<open>auto simp: cp cm prosap_sutunlari_def mikro_sutunlari_def\<close>)
qed

lemma islenmis_other [simp]:
  "c \<noteq> Vergili_TUTAR \<Longrightarrow> c \<noteq> Fark \<Longrightarrow> islenmis int_str t c = t c"
  by (simp add: islenmis_def Let_def)

lemma merged_df_sonuc:
  assumes cp: "columns prosap = prosap_sutunlari" and cm: "columns mikro = mikro_sutunlari"
    and r: "merged_df int_str prosap mikro = Inr M"
  shows "set (sutun M Esle) = set (sutun prosap Esle) \<union> set (sutun mikro Esle)"
    and "distinct (sutun prosap Esle) \<Longrightarrow> distinct (sutun mikro Esle) \<Longrightarrow> distinct (sutun M Esle)"
    and "\<And>s. s \<in> set (rows M) \<Longrightarrow> s Esle \<notin> set (sutun mikro Esle) \<Longrightarrow>
           s Vergili_TUTAR = Num 0 \<and> s SIRA_NO = NaN \<and> s TARIH = NaN"
    and "\<And>s c. s \<in> set (rows M) \<Longrightarrow> s Esle \<notin> set (sutun prosap Esle) \<Longrightarrow>
           s Fark = NaN \<and> (c \<in> set prosap_sutunlari \<and> c \<noteq> Esle \<longrightarrow> s c = NaN)"
proof -
  let ?R = "sol_satirlar prosap mikro Esle @ sag_satirlar prosap mikro Esle"
  note ic = irsaliye_cells [OF cp cm]
  note ia = irsaliye_cells_all [OF cp cm]
  note isl = islenmis_cells [OF cp cm]
  note rM = merged_df_Inr(2) [OF cp cm r]
  from r obtain m1 where s1: "pd_merge how_outer prosap mikro Esle = Inr m1"
    unfolding merged_df_def sonra_Inr by blast
  have "rows m1 = ?R" by (simp add: pd_merge_Inr(5) [OF s1])
  then have e: "sutun M Esle = sutun m1 Esle"
    by (simp add: sutun_def rM)
  show "set (sutun M Esle) = set (sutun prosap Esle) \<union> set (sutun mikro Esle)"
    unfolding e by (rule outer_keys(1) [OF s1])
  show "distinct (sutun prosap Esle) \<Longrightarrow> distinct (sutun mikro Esle) \<Longrightarrow> distinct (sutun M Esle)"
    unfolding e by (rule outer_keys(2) [OF s1])
  show "s Vergili_TUTAR = Num 0 \<and> s SIRA_NO = NaN \<and> s TARIH = NaN"
    if s: "s \<in> set (rows M)" and n: "s Esle \<notin> set (sutun mikro Esle)" for s
  proof -
    from s obtain t where t: "t \<in> set ?R" "s = islenmis int_str t"
      unfolding rM by auto
    have k: "t Esle = s Esle" by (simp add: t(2))
    have "t \<notin> set (sag_satirlar prosap mikro Esle)"
    proof
      assume "t \<in> set (sag_satirlar prosap mikro Esle)"
      from sag_rows [OF this] obtain r0 where "r0 \<in> set (rows mikro)"
        "t = merge_row prosap mikro Esle (bos(Esle := r0 Esle)) r0" by blast
      then have "r0 \<in> set (rows mikro)" "r0 Esle = s Esle" using k by (simp_all add: ic)
      then have "s Esle \<in> set (sutun mikro Esle)"
        unfolding sutun_def by (metis imageI set_map)
      with n show False by simp
    qed
    with t(1) have "t \<in> set (sol_satirlar prosap mikro Esle)" by simp
    from sol_rows [OF this] obtain l r0 where l: "l \<in> set (rows prosap)"
      "t = merge_row prosap mikro Esle l r0"
      "r0 = bos \<and> l Esle \<notin> set (sutun mikro Esle) \<or> r0 \<in> set (rows mikro) \<and> r0 Esle = l Esle"
      by blast
    have "r0 = bos"
    proof (rule ccontr)
      assume "r0 \<noteq> bos"
      with l(3) have "r0 \<in> set (rows mikro)" "r0 Esle = s Esle" using k l(2) by (auto simp: ic)
      then have "s Esle \<in> set (sutun mikro Esle)"
        unfolding sutun_def by (metis imageI set_map)
      with n show False by simp
    qed
    then show ?thesis
      using l(2) by (simp add: t(2) isl ia bos_def tamsayi_def deger_def)
  qed
  show "s Fark = NaN \<and> (c \<in> set prosap_sutunlari \<and> c \<noteq> Esle \<longrightarrow> s c = NaN)"
    if s: "s \<in> set (rows M)" and n: "s Esle \<notin> set (sutun prosap Esle)" for s c
  proof -
    from s obtain t where t: "t \<in> set ?R" "s = islenmis int_str t"
      unfolding rM by auto
    have k: "t Esle = s Esle" by (simp add: t(2))
    have "t \<notin> set (sol_satirlar prosap mikro Esle)"
    proof
      assume "t \<in> set (sol_satirlar prosap mikro Esle)"
      from sol_rows [OF this] obtain l r0 where "l \<in> set (rows prosap)"
        "t = merge_row prosap mikro Esle l r0" by blast
      then have "l \<in> set (rows prosap)" "l Esle = s Esle" using k by (simp_all add: ic)
      then have "s Esle \<in> set (sutun prosap Esle)"
        unfolding sutun_def by (metis imageI set_map)
      with n show False by simp
    qed
    with t(1) have "t \<in> set (sag_satirlar prosap mikro Esle)" by simp
    from sag_rows [OF this] obtain r0 where
      r0: "t = merge_row prosap mikro Esle (bos(Esle := r0 Esle)) r0" by blast
    have 1: "s Fark = NaN"
      by (simp add: t(2) r0 isl bos_def)
    have 2: "s c = NaN" if "c \<in> set prosap_sutunlari" "c \<noteq> Esle"
    proof -
      have "c \<noteq> Vergili_TUTAR" "c \<noteq> Fark"
        using that(1) by (auto simp: prosap_sutunlari_def)
      then show ?thesis
        using that by (simp add: t(2) r0 ia bos_def)
    qed
    from 1 2 show ?thesis by blast
  qed
qed

lemma merged_ornek_ok:
  "\<exists>M. merged_df int_yok prosap_ornek mikro_ornek = Inr M"
  using ornek_ok(1) unfolding merge_and_analyze_differences_def sonra_Inr by blast

lemma sutun_irsaliye_ornek [simp]:
  "sutun prosap_ornek Esle = [Str (py ''E1''), Str (py ''E2''), Str (py ''E3'')]"
  "sutun mikro_ornek Esle = [Str (py ''E1''), Str (py ''E4'')]"
  "sutun prosap_cift Esle = [Str (py ''E2''), Str (py ''E2'')]"
  by (simp_all add: sutun_def)

subsection \<open>The joins\<close>

text \<open>
  C4, as the code has it.  \<open>Stok.py\<close> joins the material table with left joins and
  fills the joined columns with 0: the keys of the result are those of the material table
  (the same column when no key occurs twice in a right-hand table), and a row whose key a
  right-hand table lacks has 0, not an empty cell, under the columns of that table.
  \<open>Irsaliye.py\<close> joins its two tables with an outer join: the keys of \<open>merged_df\<close> are
  the keys of both tables, each once when no key occurs twice in a table; a row that only
  \<open>prosap_df\<close> has carries 0 under \<open>Vergili TUTAR\<close> and empty cells under the other
  columns of \<open>mikro_df\<close>, and a row that only \<open>mikro_df\<close> has carries empty cells under
  the columns of \<open>prosap_df\<close> and under \<open>Fark\<close>.  The function returns the rows of
  \<open>merged_df\<close> whose \<open>Fark\<close> is at least 7: every key it returns is a key of
  \<open>prosap_df\<close>, and a row that only \<open>prosap_df\<close> has is returned when its amount is at
  least 7 in absolute value, with 0 under \<open>Vergili TUTAR\<close>.
\<close>

theorem join_keys:
  "(stok_birlestir malzeme g b p liste = Inr S \<longrightarrow>
      set (sutun S Malzeme_Kodu) = set (sutun malzeme Malzeme_Kodu) \<and>
      (distinct (sutun g Malzeme_Kodu) \<and> distinct (sutun b Malzeme_Kodu) \<and>
       distinct (sutun p Malzeme_Kodu) \<and> distinct (sutun liste SAP_Kodu)
         \<longrightarrow> sutun S Malzeme_Kodu = sutun malzeme Malzeme_Kodu) \<and>
      (Bekleyen_Adet \<in> set (columns g) \<and> Bekleyen_Adet \<notin> set (columns malzeme) \<and>
       Bekleyen_Adet \<notin> set (columns b) \<and> Bekleyen_Adet \<notin> set (columns p)
         \<longrightarrow> (\<forall>s\<in>set (rows S). s Malzeme_Kodu \<notin> set (sutun g Malzeme_Kodu)
                \<longrightarrow> s Bekleyen_Adet = Num 0)) \<and>
      (Toplam_Borc \<in> set (columns b) \<and> Toplam_Borc \<notin> set (columns malzeme) \<and>
       Toplam_Borc \<notin> set (columns g) \<and> Toplam_Borc \<notin> set (columns p)
         \<longrightarrow> (\<forall>s\<in>set (rows S). s Malzeme_Kodu \<notin> set (sutun b Malzeme_Kodu)
                \<longrightarrow> s Toplam_Borc = Num 0)) \<and>
      (Adet \<in> set (columns p) \<and> Adet \<notin> set (columns malzeme) \<and>
       Adet \<notin> set (columns g) \<and> Adet \<notin> set (columns b)
         \<longrightarrow> (\<forall>s\<in>set (rows S). s Malzeme_Kodu \<notin> set (sutun p Malzeme_Kodu)
                \<longrightarrow> s Adet = Num 0)) \<and>
      (\<forall>c\<in>{TOPTAN, PERAKENDE, LISTE}.
         c \<notin> set (columns malzeme) \<and> c \<notin> set (columns g) \<and> c \<notin> set (columns b) \<and>
         c \<notin> set (columns p)
         \<longrightarrow> (\<forall>s\<in>set (rows S). s SAP_Kodu \<notin> set (sutun liste SAP_Kodu) \<longrightarrow> s c = Num 0))) \<and>
   (columns prosap = prosap_sutunlari \<and> columns mikro = mikro_sutunlari \<and>
    merged_df int_str prosap mikro = Inr M \<longrightarrow>
      set (sutun M Esle) = set (sutun prosap Esle) \<union> set (sutun mikro Esle) \<and>
      (distinct (sutun prosap Esle) \<and> distinct (sutun mikro Esle) \<longrightarrow> distinct (sutun M Esle)) \<and>
      (\<forall>s\<in>set (rows M). s Esle \<notin> set (sutun mikro Esle)
         \<longrightarrow> s Vergili_TUTAR = Num 0 \<and> s SIRA_NO = NaN \<and> s TARIH = NaN) \<and>
      (\<forall>s\<in>set (rows M). s Esle \<notin> set (sutun prosap Esle)
         \<longrightarrow> s Fark = NaN \<and> (\<forall>c\<in>set prosap_sutunlari. c \<noteq> Esle \<longrightarrow> s c = NaN))) \<and>
   (columns prosap = prosap_sutunlari \<and> columns mikro = mikro_sutunlari \<and>
    merge_and_analyze_differences int_str to_date prosap mikro = Inr out \<longrightarrow>
      set (sutun out Esle) \<subseteq> set (sutun prosap Esle) \<and>
      (\<forall>s\<in>set (rows out). \<exists>f. s Fark = Num f \<and> 7 \<le> f) \<and>
      (\<forall>s\<in>set (rows out). s Esle \<notin> set (sutun mikro Esle) \<longrightarrow> s Vergili_TUTAR = Num 0) \<and>
      (\<forall>l\<in>set (rows prosap). \<forall>u.
         l Esle \<notin> set (sutun mikro Esle) \<and> l UPB_Tutari = Num u \<and> 7 \<le> \<bar>u\<bar>
         \<longrightarrow> (\<exists>s\<in>set (rows out). s Esle = l Esle \<and> s Vergili_TUTAR = Num 0 \<and>
                s Fark = Num \<bar>u\<bar> \<and> s Irsaliye_No = Str (py ''nan''))))"
proof (intro conjI impI)
  assume S: "stok_birlestir malzeme g b p liste = Inr S"
  show "set (sutun S Malzeme_Kodu) = set (sutun malzeme Malzeme_Kodu)"
    by (rule stok_keys(1) [OF S])
  show "sutun S Malzeme_Kodu = sutun malzeme Malzeme_Kodu"
    if "distinct (sutun g Malzeme_Kodu) \<and> distinct (sutun b Malzeme_Kodu) \<and>
       distinct (sutun p Malzeme_Kodu) \<and> distinct (sutun liste SAP_Kodu)"
    using stok_keys(2) [OF S] that by blast
  show "\<forall>s\<in>set (rows S). s Malzeme_Kodu \<notin> set (sutun g Malzeme_Kodu) \<longrightarrow> s Bekleyen_Adet = Num 0"
    if "Bekleyen_Adet \<in> set (columns g) \<and> Bekleyen_Adet \<notin> set (columns malzeme) \<and>
       Bekleyen_Adet \<notin> set (columns b) \<and> Bekleyen_Adet \<notin> set (columns p)"
    using stok_sifir(1) [OF S] that by blast
  show "\<forall>s\<in>set (rows S). s Malzeme_Kodu \<notin> set (sutun b Malzeme_Kodu) \<longrightarrow> s Toplam_Borc = Num 0"
    if "Toplam_Borc \<in> set (columns b) \<and> Toplam_Borc \<notin> set (columns malzeme) \<and>
       Toplam_Borc \<notin> set (columns g) \<and> Toplam_Borc \<notin> set (columns p)"
    using stok_sifir(2) [OF S] that by blast
  show "\<forall>s\<in>set (rows S). s Malzeme_Kodu \<notin> set (sutun p Malzeme_Kodu) \<longrightarrow> s Adet = Num 0"
    if "Adet \<in> set (columns p) \<and> Adet \<notin> set (columns malzeme) \<and>
       Adet \<notin> set (columns g) \<and> Adet \<notin> set (columns b)"
    using stok_sifir(3) [OF S] that by blast
  show "\<forall>c\<in>{TOPTAN, PERAKENDE, LISTE}.
         c \<notin> set (columns malzeme) \<and> c \<notin> set (columns g) \<and> c \<notin> set (columns b) \<and>
         c \<notin> set (columns p)
         \<longrightarrow> (\<forall>s\<in>set (rows S). s SAP_Kodu \<notin> set (sutun liste SAP_Kodu) \<longrightarrow> s c = Num 0)"
    using stok_sifir(4) [OF S] by blast
next
  assume h: "columns prosap = prosap_sutunlari \<and> columns mikro = mikro_sutunlari \<and>
    merged_df int_str prosap mikro = Inr M"
  then have cp: "columns prosap = prosap_sutunlari" and cm: "columns mikro = mikro_sutunlari"
    and r: "merged_df int_str prosap mikro = Inr M"
    by simp_all
  note m = merged_df_sonuc [OF cp cm r]
  show "set (sutun M Esle) = set (sutun prosap Esle) \<union> set (sutun mikro Esle)"
    by (rule m(1))
  show "distinct (sutun M Esle)" if "distinct (sutun prosap Esle) \<and> distinct (sutun mikro Esle)"
    using m(2) that by blast
  show "\<forall>s\<in>set (rows M). s Esle \<notin> set (sutun mikro Esle)
         \<longrightarrow> s Vergili_TUTAR = Num 0 \<and> s SIRA_NO = NaN \<and> s TARIH = NaN"
    using m(3) by blast
  show "\<forall>s\<in>set (rows M). s Esle \<notin> set (sutun prosap Esle)
         \<longrightarrow> s Fark = NaN \<and> (\<forall>c\<in>set prosap_sutunlari. c \<noteq> Esle \<longrightarrow> s c = NaN)"
    using m(4) by blast
next
  assume h: "columns prosap = prosap_sutunlari \<and> columns mikro = mikro_sutunlari \<and>
    merge_and_analyze_differences int_str to_date prosap mikro = Inr out"
  then have cp: "columns prosap = prosap_sutunlari" and cm: "columns mikro = mikro_sutunlari"
    and r: "merge_and_analyze_differences int_str to_date prosap mikro = Inr out"
    by simp_all
  note m = irsaliye_sonuc [OF cp cm r]
  show "set (sutun out Esle) \<subseteq> set (sutun prosap Esle)"
    by (rule m(1))
  show "\<forall>s\<in>set (rows out). \<exists>f. s Fark = Num f \<and> 7 \<le> f"
    using m(2) by blast
  show "\<forall>s\<in>set (rows out). s Esle \<notin> set (sutun mikro Esle) \<longrightarrow> s Vergili_TUTAR = Num 0"
    using m(3) by blast
  show "\<forall>l\<in>set (rows prosap). \<forall>u.
         l Esle \<notin> set (sutun mikro Esle) \<and> l UPB_Tutari = Num u \<and> 7 \<le> \<bar>u\<bar>
         \<longrightarrow> (\<exists>s\<in>set (rows out). s Esle = l Esle \<and> s Vergili_TUTAR = Num 0 \<and>
                s Fark = Num \<bar>u\<bar> \<and> s Irsaliye_No = Str (py ''nan''))"
    using m(4) by blast
qed

theorem join_keys_witness:
  "(\<exists>S s. stok_birlestir malzeme_ornek grouped_ornek borc_ornek plan_ornek liste_ornek = Inr S \<and>
      distinct (sutun grouped_ornek Malzeme_Kodu) \<and> distinct (sutun borc_ornek Malzeme_Kodu) \<and>
      distinct (sutun plan_ornek Malzeme_Kodu) \<and> distinct (sutun liste_ornek SAP_Kodu) \<and>
      sutun S Malzeme_Kodu = [Str (py ''M1''), Str (py ''M3'')] \<and>
      Bekleyen_Adet \<in> set (columns grouped_ornek) \<and> Bekleyen_Adet \<notin> set (columns malzeme_ornek) \<and>
      Bekleyen_Adet \<notin> set (columns borc_ornek) \<and> Bekleyen_Adet \<notin> set (columns plan_ornek) \<and>
      Toplam_Borc \<in> set (columns borc_ornek) \<and> Toplam_Borc \<notin> set (columns malzeme_ornek) \<and>
      Toplam_Borc \<notin> set (columns grouped_ornek) \<and> Toplam_Borc \<notin> set (columns plan_ornek) \<and>
      Adet \<in> set (columns plan_ornek) \<and> Adet \<notin> set (columns malzeme_ornek) \<and>
      Adet \<notin> set (columns grouped_ornek) \<and> Adet \<notin> set (columns borc_ornek) \<and>
      LISTE \<notin> set (columns malzeme_ornek) \<and> LISTE \<notin> set (columns grouped_ornek) \<and>
      LISTE \<notin> set (columns borc_ornek) \<and> LISTE \<notin> set (columns plan_ornek) \<and>
      s \<in> set (rows S) \<and> s Malzeme_Kodu = Str (py ''M3'') \<and>
      s Malzeme_Kodu \<notin> set (sutun grouped_ornek Malzeme_Kodu) \<and>
      s Malzeme_Kodu \<notin> set (sutun borc_ornek Malzeme_Kodu) \<and>
      s Malzeme_Kodu \<notin> set (sutun plan_ornek Malzeme_Kodu) \<and>
      s SAP_Kodu \<notin> set (sutun liste_ornek SAP_Kodu) \<and>
      s Bekleyen_Adet = Num 0 \<and> s Toplam_Borc = Num 0 \<and> s Adet = Num 0 \<and> s LISTE = Num 0) \<and>
   (\<exists>M s t. columns prosap_ornek = prosap_sutunlari \<and> columns mikro_ornek = mikro_sutunlari \<and>
      merged_df int_yok prosap_ornek mikro_ornek = Inr M \<and>
      distinct (sutun prosap_ornek Esle) \<and> distinct (sutun mikro_ornek Esle) \<and>
      set (sutun M Esle) = {Str (py ''E1''), Str (py ''E2''), Str (py ''E3''), Str (py ''E4'')} \<and>
      distinct (sutun M Esle) \<and>
      s \<in> set (rows M) \<and> s Esle = Str (py ''E2'') \<and> s Esle \<notin> set (sutun mikro_ornek Esle) \<and>
      s Vergili_TUTAR = Num 0 \<and> s SIRA_NO = NaN \<and>
      t \<in> set (rows M) \<and> t Esle = Str (py ''E4'') \<and> t Esle \<notin> set (sutun prosap_ornek Esle) \<and>
      t Fark = NaN \<and> UPB_Tutari \<in> set prosap_sutunlari \<and> UPB_Tutari \<noteq> Esle \<and>
      t UPB_Tutari = NaN) \<and>
   (\<exists>out s. columns prosap_ornek = prosap_sutunlari \<and> columns mikro_ornek = mikro_sutunlari \<and>
      merge_and_analyze_differences int_yok tarih_ayni prosap_ornek mikro_ornek = Inr out \<and>
      fatura_yalniz \<in> set (rows prosap_ornek) \<and>
      fatura_yalniz Esle \<notin> set (sutun mikro_ornek Esle) \<and>
      fatura_yalniz UPB_Tutari = Num 50 \<and> (7::int) \<le> \<bar>50\<bar> \<and>
      s \<in> set (rows out) \<and> s Esle = Str (py ''E2'') \<and> s Esle \<notin> set (sutun mikro_ornek Esle) \<and>
      s Vergili_TUTAR = Num 0 \<and> s Fark = Num 50 \<and> s Irsaliye_No = Str (py ''nan''))"
proof (intro conjI)
  obtain S where S: "stok_birlestir malzeme_ornek grouped_ornek borc_ornek plan_ornek liste_ornek
      = Inr S"
    using stok_ok [of malzeme_ornek grouped_ornek borc_ornek plan_ornek liste_ornek] by auto
  note J = join_keys [where malzeme = malzeme_ornek and g = grouped_ornek and b = borc_ornek
      and p = plan_ornek and liste = liste_ornek and S = S, THEN conjunct1, THEN mp, OF S]
  note Jk = J [THEN conjunct2, THEN conjunct1, rule_format]
  note Jb = J [THEN conjunct2, THEN conjunct2, THEN conjunct1, rule_format]
  note Jt = J [THEN conjunct2, THEN conjunct2, THEN conjunct2, THEN conjunct1, rule_format]
  note Ja = J [THEN conjunct2, THEN conjunct2, THEN conjunct2, THEN conjunct2, THEN conjunct1,
      rule_format]
  note Jl = J [THEN conjunct2, THEN conjunct2, THEN conjunct2, THEN conjunct2, THEN conjunct2,
      rule_format]
  have k: "sutun S Malzeme_Kodu = [Str (py ''M1''), Str (py ''M3'')]"
    using Jk by simp
  then have "Str (py ''M3'') \<in> set (sutun S Malzeme_Kodu)"
    by simp
  then obtain s where s: "s \<in> set (rows S)" "s Malzeme_Kodu = Str (py ''M3'')"
    unfolding sutun_def by auto
  have 1: "s Bekleyen_Adet = Num 0"
    by (rule Jb [OF _ s(1)]) (simp_all add: s(2))
  have 2: "s Toplam_Borc = Num 0"
    by (rule Jt [OF _ s(1)]) (simp_all add: s(2))
  have 3: "s Adet = Num 0"
    by (rule Ja [OF _ s(1)]) (simp_all add: s(2))
  have 4: "s LISTE = Num 0"
    by (rule Jl [OF _ _ s(1)]) (simp_all add: s(2))
  show "\<exists>S s. stok_birlestir malzeme_ornek grouped_ornek borc_ornek plan_ornek liste_ornek = Inr S \<and>
      distinct (sutun grouped_ornek Malzeme_Kodu) \<and> distinct (sutun borc_ornek Malzeme_Kodu) \<and>
      distinct (sutun plan_ornek Malzeme_Kodu) \<and> distinct (sutun liste_ornek SAP_Kodu) \<and>
      sutun S Malzeme_Kodu = [Str (py ''M1''), Str (py ''M3'')] \<and>
      Bekleyen_Adet \<in> set (columns grouped_ornek) \<and> Bekleyen_Adet \<notin> set (columns malzeme_ornek) \<and>
      Bekleyen_Adet \<notin> set (columns borc_ornek) \<and> Bekleyen_Adet \<notin> set (columns plan_ornek) \<and>
      Toplam_Borc \<in> set (columns borc_ornek) \<and> Toplam_Borc \<notin> set (columns malzeme_ornek) \<and>
      Toplam_Borc \<notin> set (columns grouped_ornek) \<and> Toplam_Borc \<notin> set (columns plan_ornek) \<and>
      Adet \<in> set (columns plan_ornek) \<and> Adet \<notin> set (columns malzeme_ornek) \<and>
      Adet \<notin> set (columns grouped_ornek) \<and> Adet \<notin> set (columns borc_ornek) \<and>
      LISTE \<notin> set (columns malzeme_ornek) \<and> LISTE \<notin> set (columns grouped_ornek) \<and>
      LISTE \<notin> set (columns borc_ornek) \<and> LISTE \<notin> set (columns plan_ornek) \<and>
      s \<in> set (rows S) \<and> s Malzeme_Kodu = Str (py ''M3'') \<and>
      s Malzeme_Kodu \<notin> set (sutun grouped_ornek Malzeme_Kodu) \<and>
      s Malzeme_Kodu \<notin> set (sutun borc_ornek Malzeme_Kodu) \<and>
      s Malzeme_Kodu \<notin> set (sutun plan_ornek Malzeme_Kodu) \<and>
      s SAP_Kodu \<notin> set (sutun liste_ornek SAP_Kodu) \<and>
      s Bekleyen_Adet = Num 0 \<and> s Toplam_Borc = Num 0 \<and> s Adet = Num 0 \<and> s LISTE = Num 0"
    using S k s 1 2 3 4 by (intro exI [of _ S] exI [of _ s]) simp
next
  obtain M where M: "merged_df int_yok prosap_ornek mikro_ornek = Inr M"
    using merged_ornek_ok by blast
  have c: "columns prosap_ornek = prosap_sutunlari" "columns mikro_ornek = mikro_sutunlari"
    by simp_all
  have h: "columns prosap_ornek = prosap_sutunlari \<and> columns mikro_ornek = mikro_sutunlari \<and>
    merged_df int_yok prosap_ornek mikro_ornek = Inr M"
    using c M by simp
  note J = join_keys [where prosap = prosap_ornek and mikro = mikro_ornek and int_str = int_yok
      and M = M, THEN conjunct2, THEN conjunct1, THEN mp, OF h]
  note Jd = J [THEN conjunct2, THEN conjunct1, rule_format]
  note Jp = J [THEN conjunct2, THEN conjunct2, THEN conjunct1, rule_format]
  note Jm = J [THEN conjunct2, THEN conjunct2, THEN conjunct2, rule_format]
  have k: "set (sutun M Esle) = {Str (py ''E1''), Str (py ''E2''), Str (py ''E3''), Str (py ''E4'')}"
    using J [THEN conjunct1] by auto
  have d: "distinct (sutun M Esle)"
    by (rule Jd) simp
  have "Str (py ''E2'') \<in> set (sutun M Esle)" "Str (py ''E4'') \<in> set (sutun M Esle)"
    using k by simp_all
  then obtain s t where s: "s \<in> set (rows M)" "s Esle = Str (py ''E2'')"
    and t: "t \<in> set (rows M)" "t Esle = Str (py ''E4'')"
    unfolding sutun_def by auto
  have 1: "s Vergili_TUTAR = Num 0 \<and> s SIRA_NO = NaN \<and> s TARIH = NaN"
    by (rule Jp [OF s(1)]) (simp add: s(2))
  have 2: "t Fark = NaN \<and> (\<forall>c\<in>set prosap_sutunlari. c \<noteq> Esle \<longrightarrow> t c = NaN)"
    by (rule Jm [OF t(1)]) (simp add: t(2))
  then have 3: "t UPB_Tutari = NaN"
    by (simp add: prosap_sutunlari_def)
  show "\<exists>M s t. columns prosap_ornek = prosap_sutunlari \<and> columns mikro_ornek = mikro_sutunlari \<and>
      merged_df int_yok prosap_ornek mikro_ornek = Inr M \<and>
      distinct (sutun prosap_ornek Esle) \<and> distinct (sutun mikro_ornek Esle) \<and>
      set (sutun M Esle) = {Str (py ''E1''), Str (py ''E2''), Str (py ''E3''), Str (py ''E4'')} \<and>
      distinct (sutun M Esle) \<and>
      s \<in> set (rows M) \<and> s Esle = Str (py ''E2'') \<and> s Esle \<notin> set (sutun mikro_ornek Esle) \<and>
      s Vergili_TUTAR = Num 0 \<and> s SIRA_NO = NaN \<and>
      t \<in> set (rows M) \<and> t Esle = Str (py ''E4'') \<and> t Esle \<notin> set (sutun prosap_ornek Esle) \<and>
      t Fark = NaN \<and> UPB_Tutari \<in> set prosap_sutunlari \<and> UPB_Tutari \<noteq> Esle \<and>
      t UPB_Tutari = NaN"
    using M k d s t 1 2 3
    by (intro exI [of _ M] exI [of _ s] exI [of _ t]) (simp add: prosap_sutunlari_def)
next
  obtain out where out:
    "merge_and_analyze_differences int_yok tarih_ayni prosap_ornek mikro_ornek = Inr out"
    using ornek_ok(1) by blast
  have h: "columns prosap_ornek = prosap_sutunlari \<and> columns mikro_ornek = mikro_sutunlari \<and>
    merge_and_analyze_differences int_yok tarih_ayni prosap_ornek mikro_ornek = Inr out"
    using out by simp
  note J = join_keys [where prosap = prosap_ornek and mikro = mikro_ornek and int_str = int_yok
      and to_date = tarih_ayni and out = out, THEN conjunct2, THEN conjunct2, THEN mp, OF h]
  note Jl = J [THEN conjunct2, THEN conjunct2, THEN conjunct2, rule_format]
  have "\<exists>s\<in>set (rows out). s Esle = fatura_yalniz Esle \<and> s Vergili_TUTAR = Num 0 \<and>
      s Fark = Num \<bar>50\<bar> \<and> s Irsaliye_No = Str (py ''nan'')"
    by (rule Jl [of fatura_yalniz 50]) simp_all
  then obtain s where s: "s \<in> set (rows out)" "s Esle = Str (py ''E2'')"
    "s Vergili_TUTAR = Num 0" "s Fark = Num 50" "s Irsaliye_No = Str (py ''nan'')"
    by auto
  show "\<exists>out s. columns prosap_ornek = prosap_sutunlari \<and> columns mikro_ornek = mikro_sutunlari \<and>
      merge_and_analyze_differences int_yok tarih_ayni prosap_ornek mikro_ornek = Inr out \<and>
      fatura_yalniz \<in> set (rows prosap_ornek) \<and>
      fatura_yalniz Esle \<notin> set (sutun mikro_ornek Esle) \<and>
      fatura_yalniz UPB_Tutari = Num 50 \<and> (7::int) \<le> \<bar>50\<bar> \<and>
      s \<in> set (rows out) \<and> s Esle = Str (py ''E2'') \<and> s Esle \<notin> set (sutun mikro_ornek Esle) \<and>
      s Vergili_TUTAR = Num 0 \<and> s Fark = Num 50 \<and> s Irsaliye_No = Str (py ''nan'')"
    using out s by (intro exI [of _ out] exI [of _ s]) simp
qed

text \<open>
  The claim as it is written fails on both programs.  In \<open>Stok.py\<close> a material code
  that only the table of open orders has is not in the result, the material rows have 0
  and not an empty cell under the column of the debts, and a plan with two lines for one
  material gives that material twice.  In \<open>Irsaliye.py\<close> the table returned holds one of
  the four keys of its inputs, with 0 under \<open>Vergili TUTAR\<close>, and an invoice key with
  two lines is returned twice.
\<close>

theorem left_join_counterexample:
  "sutun malzeme_ornek Malzeme_Kodu = [Str (py ''M1''), Str (py ''M3'')] \<and>
   sutun grouped_ornek Malzeme_Kodu = [Str (py ''M1''), Str (py ''M2'')] \<and>
   hucreler Malzeme_Kodu
     (satirlar (stok_birlestir malzeme_ornek grouped_ornek borc_ornek plan_ornek liste_ornek))
     = [Str (py ''M1''), Str (py ''M3'')] \<and>
   Str (py ''M2'') \<notin> set (hucreler Malzeme_Kodu
     (satirlar (stok_birlestir malzeme_ornek grouped_ornek borc_ornek plan_ornek liste_ornek))) \<and>
   hucreler Toplam_Borc
     (satirlar (stok_birlestir malzeme_ornek grouped_ornek borc_ornek plan_ornek liste_ornek))
     = [Num 0, Num 0] \<and>
   sutun plan_cift Malzeme_Kodu = [Str (py ''M1''), Str (py ''M1'')] \<and>
   hucreler Malzeme_Kodu
     (satirlar (stok_birlestir malzeme_ornek grouped_ornek borc_ornek plan_cift liste_ornek))
     = [Str (py ''M1''), Str (py ''M1''), Str (py ''M3'')] \<and>
   sutun prosap_ornek Esle = [Str (py ''E1''), Str (py ''E2''), Str (py ''E3'')] \<and>
   sutun mikro_ornek Esle = [Str (py ''E1''), Str (py ''E4'')] \<and>
   hucreler Esle
     (satirlar (merge_and_analyze_differences int_yok tarih_ayni prosap_ornek mikro_ornek))
     = [Str (py ''E2'')] \<and>
   hucreler Vergili_TUTAR
     (satirlar (merge_and_analyze_differences int_yok tarih_ayni prosap_ornek mikro_ornek))
     = [Num 0] \<and>
   sutun prosap_cift Esle = [Str (py ''E2''), Str (py ''E2'')] \<and>
   hucreler Esle
     (satirlar (merge_and_analyze_differences int_yok tarih_ayni prosap_cift mikro_ornek))
     = [Str (py ''E2''), Str (py ''E2'')]"
  by (simp add: stok_ornek_sonuc stok_cift irsaliye_ornek_sonuc irsaliye_cift_sonuc)

section \<open>Stok.py: the guarded percentages\<close>

lemma py_int_trunc: "\<bar>of_int (py_int x) - x\<bar> < 1 \<and> \<bar>of_int (py_int x) :: rat\<bar> \<le> \<bar>x\<bar>"
proof (cases "0 \<le> x")
  case True
  define f :: rat where "f = of_int \<lfloor>x\<rfloor>"
  have a: "f \<le> x" "x < f + 1" unfolding f_def by linarith+
  have c: "0 \<le> f" unfolding f_def using True by simp
  have e: "of_int (py_int x) = f" by (simp add: py_int_def True f_def)
  show ?thesis unfolding e using a c True by linarith
next
  case False
  define f :: rat where "f = of_int \<lfloor>- x\<rfloor>"
  have a: "f \<le> - x" "- x < f + 1" unfolding f_def by linarith+
  have c: "0 \<le> f" unfolding f_def using False by simp
  have e: "of_int (py_int x) = - f" by (simp add: py_int_def False f_def)
  show ?thesis unfolding e using a c False by linarith
qed

text \<open>
  C7, as the code has it.  In every row the columns \<open>###\<close> (from \<open>ID2\<close> and
  \<open>PERAKENDE\<close>) and \<open>INDIRIM\<close> (from \<open>PERAKENDE\<close> and \<open>LISTE\<close>) are 0 when the
  divisor is 0; otherwise they are the \<open>float\<close> value of \<open>(1 - numerator / divisor) * 100\<close>
  with its fraction cut off: an integer between 0 and that value, less than 1 away from
  it.  There is no rounding to the nearest integer.
\<close>

theorem guarded_percentage:
  "(perakende = 0 \<longrightarrow> diyez_sutunu id_iki perakende = 0) \<and>
   (liste = 0 \<longrightarrow> indirim_sutunu perakende liste = 0) \<and>
   (perakende \<noteq> 0 \<longrightarrow>
      diyez_sutunu id_iki perakende
        = py_int (fl (fl (1 - fl (of_int id_iki / of_int perakende)) * 100))) \<and>
   (liste \<noteq> 0 \<longrightarrow>
      indirim_sutunu perakende liste
        = py_int (fl (fl (1 - fl (of_int perakende / of_int liste)) * 100))) \<and>
   \<bar>of_int (py_int x) - x\<bar> < 1 \<and> \<bar>of_int (py_int x) :: rat\<bar> \<le> \<bar>x\<bar>"
  using py_int_trunc [of x] by (simp add: diyez_sutunu_def indirim_sutunu_def yuzde_def)

lemma fl_ornek:
  "py_int (fl (fl (1 - fl (1 / 3)) * 100)) = 66"
  "py_int (fl (fl (1 - fl (9 / 10)) * 100)) = 9"
  by code_simp+

theorem guarded_percentage_witness:
  "(0 :: int) = 0 \<and> diyez_sutunu 90 0 = 0 \<and> indirim_sutunu 90 0 = 0 \<and>
   (3 :: int) \<noteq> 0 \<and> diyez_sutunu 1 3 = 66 \<and> (100 :: int) \<noteq> 0 \<and> indirim_sutunu 90 100 = 9"
  using guarded_percentage [where perakende = 0 and id_iki = 90 and liste = 1 and x = 0]
    guarded_percentage [where perakende = 90 and id_iki = 0 and liste = 0 and x = 0]
    guarded_percentage [where perakende = 3 and id_iki = 1 and liste = 1 and x = 0]
    guarded_percentage [where perakende = 90 and id_iki = 1 and liste = 100 and x = 0]
  by (simp add: fl_ornek)

text \<open>
  The claim as it is written fails for \<open>ID2 = 1\<close>, \<open>PERAKENDE = 3\<close>: the column holds
  66, the rounded percentage is 67.  For \<open>PERAKENDE = 90\<close>, \<open>LISTE = 100\<close> the float
  value is just below 10 and the column holds 9.
\<close>

theorem truncation_counterexample:
  "diyez_sutunu 1 3 = 66 \<and> round ((1 - 1 / 3) * 100 :: rat) = 67 \<and>
   round_even (fl (fl (1 - fl (1 / 3)) * 100)) = 67 \<and>
   indirim_sutunu 90 100 = 9 \<and> round ((1 - 90 / 100) * 100 :: rat) = 10 \<and>
   round_even (fl (fl (1 - fl (90 / 100)) * 100)) = 10"
  by code_simp

end
